(* ===== verification/Prelude.thy ===== *)
theory Prelude
  imports Main
begin

text \<open>
  Shared vocabulary of the development: the Python exceptions the modelled code can
  raise, the Python values that cross the interfaces of \<open>src/jbot/__init__.py\<close> and
  \<open>src/apis/message_chain.py\<close> (strings, lists, tuples, dicts, class objects, element
  instances, functions), Python's iteration protocol and \<open>type()\<close> on them, the string
  operations the code uses (\<open>str.lower\<close>, \<open>in\<close>, \<open>startswith\<close>), and the generic list
  lemmas the component theories share. Strings are \<open>string\<close>, read as UTF-8 byte
  sequences, so concatenation, prefix and infix tests agree with Python's on code points.
\<close>

named_theorems py_simps "evaluation rules of the Python value model"

section \<open>Exceptions and results\<close>

datatype py_exc =
    TypeError
  | AttributeError
  | IndexError
  | NameError
  | ValueError
  | KeyError
  | RecursionError

type_synonym 'a py_result = "py_exc + 'a"

section \<open>Python values\<close>

text \<open>
  A class object is named by its module and its name: \<open>str(cls)\<close> is
  \<open><class 'module.Name'>\<close>. An element instance (a subclass of \<open>Element\<close>, defined
  outside \<open>src/\<close>) carries its class and the two renderings its methods \<open>to_code()\<close>
  and \<open>as_display()\<close> return. A function carries its identity, its name and whether
  it is a coroutine function (\<open>async def\<close>).
\<close>

record pyclass =
  cls_module :: string
  cls_name :: string

record element =
  el_cls :: pyclass
  el_code :: string
  el_display :: string

record func =
  fn_id :: nat
  fn_name :: string
  fn_async :: bool

datatype pyval =
    PNone
  | PBool bool
  | PInt int
  | PStr string
  | PList "pyval list"
  | PTuple "pyval list"
  | PDict "(pyval \<times> pyval) list"
  | PElem element
  | PClass pyclass
  | PMCClass
  | PFunc func

text \<open>\<open>PMCClass\<close> is the class object \<open>MessageChain\<close> itself: its \<open>__new__\<close> returns
  the class, so every "chain" the code builds is this one object.\<close>

datatype pytype =
    TNoneType | TBool | TInt | TStr | TList | TTuple | TDict
  | TInstance pyclass | TType | TFunction

fun py_type :: "pyval \<Rightarrow> pytype" where
  "py_type PNone = TNoneType"
| "py_type (PBool _) = TBool"
| "py_type (PInt _) = TInt"
| "py_type (PStr _) = TStr"
| "py_type (PList _) = TList"
| "py_type (PTuple _) = TTuple"
| "py_type (PDict _) = TDict"
| "py_type (PElem e) = TInstance (el_cls e)"
| "py_type (PClass _) = TType"
| "py_type PMCClass = TType"
| "py_type (PFunc _) = TFunction"

text \<open>The iteration protocol: \<open>for x in v\<close>. A string yields its one-character strings,
  a dict its keys; anything else without \<open>__iter__\<close> raises \<open>TypeError\<close>. Element
  instances are atomic (the spec's "unit of message content") and not iterable.\<close>

fun py_iter :: "pyval \<Rightarrow> pyval list py_result" where
  "py_iter (PStr s) = Inr (map (\<lambda>c. PStr [c]) s)"
| "py_iter (PList xs) = Inr xs"
| "py_iter (PTuple xs) = Inr xs"
| "py_iter (PDict kvs) = Inr (map fst kvs)"
| "py_iter _ = Inl TypeError"

definition py_is_iterable :: "pyval \<Rightarrow> bool" where
  "py_is_iterable v \<longleftrightarrow> (case py_iter v of Inl _ \<Rightarrow> False | Inr _ \<Rightarrow> True)"

section \<open>Strings\<close>

definition py_lower_char :: "char \<Rightarrow> char" where
  "py_lower_char c =
     (if (65::nat) \<le> of_char c \<and> (of_char c :: nat) \<le> 90 then char_of (of_char c + (32::nat)) else c)"

definition py_lower :: "string \<Rightarrow> string" where
  "py_lower s = map py_lower_char s"

text \<open>\<open>s.startswith(p)\<close> and \<open>p in s\<close>.\<close>

fun py_startswith :: "string \<Rightarrow> string \<Rightarrow> bool" where
  "py_startswith s [] = True"
| "py_startswith [] (_ # _) = False"
| "py_startswith (c # s) (d # p) = (c = d \<and> py_startswith s p)"

fun py_contains :: "string \<Rightarrow> string \<Rightarrow> bool" where
  "py_contains [] p = (p = [])"
| "py_contains (c # s) p = (py_startswith (c # s) p \<or> py_contains s p)"

definition py_class_str :: "pyclass \<Rightarrow> string" where
  "py_class_str k =
     ''<class '' @ [CHR 0x27] @ cls_module k @ ''.'' @ cls_name k @ [CHR 0x27, CHR ''>'']"

text \<open>\<open>str(i)\<close> and an f-string field \<open>{i}\<close> of an \<open>int\<close>: its decimal digits, with a
  leading \<open>-\<close> when negative. \<open>read_int\<close> is the inverse reading: an optional
  \<open>-\<close> and the longest run of digits, returning the rest of the text.\<close>

fun nat_digits :: "nat \<Rightarrow> string" where
  "nat_digits n =
     (if n < 10 then [char_of (48 + n)] else nat_digits (n div 10) @ [char_of (48 + n mod 10)])"

definition py_str_int :: "int \<Rightarrow> string" where
  "py_str_int i = (if i < 0 then CHR ''-'' # nat_digits (nat (- i)) else nat_digits (nat i))"

definition is_digit :: "char \<Rightarrow> bool" where
  "is_digit c \<longleftrightarrow> (48::nat) \<le> of_char c \<and> (of_char c :: nat) \<le> 57"

fun read_digits :: "nat \<Rightarrow> string \<Rightarrow> nat \<times> string" where
  "read_digits acc [] = (acc, [])"
| "read_digits acc (c # s) =
     (if is_digit c then read_digits (10 * acc + (of_char c - 48)) s else (acc, c # s))"

definition digit_start :: "string \<Rightarrow> bool" where
  "digit_start s \<longleftrightarrow> s \<noteq> [] \<and> is_digit (hd s)"

definition read_int :: "string \<Rightarrow> (int \<times> string) option" where
  "read_int s =
     (if s \<noteq> [] \<and> hd s = CHR ''-'' \<and> digit_start (tl s)
      then (case read_digits 0 (tl s) of (n, r) \<Rightarrow> Some (- int n, r))
      else if digit_start s then (case read_digits 0 s of (n, r) \<Rightarrow> Some (int n, r))
      else None)"

section \<open>Shared lemmas\<close>

lemma py_startswith_iff [simp]: "py_startswith s p \<longleftrightarrow> (\<exists>r. s = p @ r)"
  by (induction s p rule: py_startswith.induct) auto

lemma py_contains_iff [simp]: "py_contains s p \<longleftrightarrow> (\<exists>a b. s = a @ p @ b)"
proof (induction s)
  case Nil
  then show ?case by auto
next
  case (Cons c s)
  have "(\<exists>a b. c # s = a @ p @ b) \<longleftrightarrow> (\<exists>r. c # s = p @ r) \<or> (\<exists>a b. s = a @ p @ b)"
    by (auto simp: Cons_eq_append_conv)
  with Cons.IH show ?case by simp
qed

lemma py_iter_Inr_iff [py_simps]:
  "py_iter v = Inr xs \<longleftrightarrow>
     (\<exists>s. v = PStr s \<and> xs = map (\<lambda>c. PStr [c]) s) \<or> v = PList xs \<or> v = PTuple xs \<or>
     (\<exists>kvs. v = PDict kvs \<and> xs = map fst kvs)"
  by (cases v) auto

lemma py_iter_elem [py_simps]: "py_iter (PElem e) = Inl TypeError"
  and py_iter_class [py_simps]: "py_iter (PClass k) = Inl TypeError"
  and py_iter_mcclass [py_simps]: "py_iter PMCClass = Inl TypeError"
  by simp_all

lemma py_lower_append [simp]: "py_lower (a @ b) = py_lower a @ py_lower b"
  by (simp add: py_lower_def)

lemma foldl_append_concat: "foldl (@) acc xs = acc @ concat xs"
  by (induction xs arbitrary: acc) auto

lemma map_filter_all_Some:
  "\<forall>x \<in> set xs. f (h x) = Some (g x) \<Longrightarrow> List.map_filter f (map h xs) = map g xs"
  by (induction xs) (auto simp: map_filter_simps)

subsection \<open>Decimal integers\<close>

declare nat_digits.simps [simp del]

lemma of_char_digit: "d < 10 \<Longrightarrow> (of_char (char_of (48 + d)) :: nat) = 48 + d"
  by (simp add: of_char_of)

lemma read_digits_stop: "\<not> digit_start s \<Longrightarrow> read_digits acc s = (acc, s)"
  by (cases s) (auto simp: digit_start_def)

lemma read_digits_nat_digits:
  "read_digits acc (nat_digits n @ rest) = read_digits (acc * 10 ^ length (nat_digits n) + n) rest"
proof (induction n arbitrary: acc rest rule: nat_digits.induct)
  case (1 n)
  show ?case
  proof (cases "n < 10")
    case True
    then show ?thesis
      by (subst (1 2) nat_digits.simps) (simp add: is_digit_def of_char_digit mult.commute)
  next
    case False
    have d: "is_digit (char_of (48 + n mod 10))" by (simp add: is_digit_def of_char_digit)
    have "n div 10 * 10 + n mod 10 = n" by simp
    with False 1 d show ?thesis
      by (subst (1 2) nat_digits.simps) (simp add: of_char_digit algebra_simps)
  qed
qed

lemma nat_digits_small: "n < 10 \<Longrightarrow> nat_digits n = [char_of (48 + n)]"
  by (subst nat_digits.simps) simp

lemma nat_digits_step: "\<not> n < 10 \<Longrightarrow> nat_digits n = nat_digits (n div 10) @ [char_of (48 + n mod 10)]"
  by (subst nat_digits.simps) simp

lemma nat_digits_start: "nat_digits n \<noteq> [] \<and> is_digit (hd (nat_digits n))"
proof (induction n rule: nat_digits.induct)
  case (1 n)
  show ?case
  proof (cases "n < 10")
    case True
    then show ?thesis by (simp add: nat_digits_small is_digit_def of_char_digit)
  next
    case False
    with 1 show ?thesis by (simp add: nat_digits_step)
  qed
qed

lemma minus_not_digit: "\<not> is_digit CHR ''-''"
  by (simp add: is_digit_def)

lemma read_int_py_str_int:
  "\<not> digit_start rest \<Longrightarrow> read_int (py_str_int i @ rest) = Some (i, rest)"
  using nat_digits_start [of "nat (- i)"] nat_digits_start [of "nat i"]
  by (auto simp: read_int_def py_str_int_def read_digits_nat_digits read_digits_stop digit_start_def
                 minus_not_digit)

end
