(* ===== verification/Matcher.thy ===== *)
theory Matcher
  imports Prelude
begin

text \<open>
  The matchers \<open>CommandMatcher\<close> and \<open>KeywordMatcher\<close> (constructed in
  \<open>src/jbot/__init__.py\<close>, \<open>BotApplication.command\<close> and \<open>BotApplication.keyword\<close>;
  their classes are outside \<open>src/\<close> and are modelled from the spec, section 4.2). A
  matcher holds its trigger strings, the \<open>match_all_width\<close> flag and the element
  classes to ignore. Matching renders the chain's display text without the ignored
  elements, folds full-width forms to half-width when the flag is set (on UTF-8 bytes:
  U+FF01..U+FF5E to ASCII 0x21..0x7E, U+3000 to a space), and then a command matcher
  wants a trigger at the start followed by a word boundary, a keyword matcher a trigger
  anywhere; the longest matching trigger wins.
\<close>

section \<open>Data\<close>

datatype matcher_kind = CommandKind | KeywordKind

record matcher =
  m_kind :: matcher_kind
  m_triggers :: "string list"
  m_all_width :: bool
  m_ignore :: "pyclass list"

record match_result =
  mr_trigger :: string
  mr_args :: string

definition CommandMatcher :: "string list \<Rightarrow> bool \<Rightarrow> pyclass list \<Rightarrow> matcher" where
  "CommandMatcher cmds w ign = \<lparr>m_kind = CommandKind, m_triggers = cmds, m_all_width = w, m_ignore = ign\<rparr>"

definition KeywordMatcher :: "string list \<Rightarrow> bool \<Rightarrow> pyclass list \<Rightarrow> matcher" where
  "KeywordMatcher kws w ign = \<lparr>m_kind = KeywordKind, m_triggers = kws, m_all_width = w, m_ignore = ign\<rparr>"

section \<open>Text normalisation\<close>

fun fold_width :: "string \<Rightarrow> string" where
  "fold_width (a # b # c # s) =
     (if of_char a = (0xEF::nat) \<and> of_char b = (0xBC::nat) \<and>
         (0x81::nat) \<le> of_char c \<and> (of_char c :: nat) \<le> 0xBF
      then char_of (of_char c - (0x60::nat)) # fold_width s
      else if of_char a = (0xEF::nat) \<and> of_char b = (0xBD::nat) \<and>
         (0x80::nat) \<le> of_char c \<and> (of_char c :: nat) \<le> 0x9E
      then char_of (of_char c - (0x20::nat)) # fold_width s
      else if of_char a = (0xE3::nat) \<and> of_char b = (0x80::nat) \<and> of_char c = (0x80::nat)
      then CHR '' '' # fold_width s
      else a # fold_width (b # c # s))"
| "fold_width s = s"

definition normalize :: "bool \<Rightarrow> string \<Rightarrow> string" where
  "normalize w s = (if w then fold_width s else s)"

definition is_space :: "char \<Rightarrow> bool" where
  "is_space c \<longleftrightarrow> c \<in> set [CHR '' '', CHR 0x09, CHR 0x0A, CHR 0x0B, CHR 0x0C, CHR 0x0D]"

definition py_strip :: "string \<Rightarrow> string" where
  "py_strip s = rev (dropWhile is_space (rev (dropWhile is_space s)))"

definition chain_text :: "pyclass list \<Rightarrow> element list \<Rightarrow> string" where
  "chain_text ign es = concat (map el_display (filter (\<lambda>e. el_cls e \<notin> set ign) es))"

section \<open>Matching\<close>

text \<open>The first of the longest triggers.\<close>

fun longest :: "string list \<Rightarrow> string option" where
  "longest [] = None"
| "longest (t # ts) =
     (case longest ts of
        None \<Rightarrow> Some t
      | Some u \<Rightarrow> if length t < length u then Some u else Some t)"

definition command_hit :: "string \<Rightarrow> string \<Rightarrow> bool" where
  "command_hit text t \<longleftrightarrow>
     py_startswith text t \<and>
     (let rest = drop (length t) text in rest = [] \<or> is_space (hd rest))"

definition matches :: "matcher \<Rightarrow> element list \<Rightarrow> match_result option" where
  "matches m es =
     (let text = normalize (m_all_width m) (chain_text (m_ignore m) es);
          trigs = map (normalize (m_all_width m)) (m_triggers m)
      in case m_kind m of
           CommandKind \<Rightarrow>
             (case longest (filter (command_hit text) trigs) of
                None \<Rightarrow> None
              | Some t \<Rightarrow> Some \<lparr>mr_trigger = t, mr_args = py_strip (drop (length t) text)\<rparr>)
         | KeywordKind \<Rightarrow>
             (case longest (filter (py_contains text) trigs) of
                None \<Rightarrow> None
              | Some t \<Rightarrow> Some \<lparr>mr_trigger = t, mr_args = text\<rparr>))"

section \<open>The longest trigger\<close>

lemma normalize_no_width [simp]: "normalize False = (\<lambda>s. s)"
  by (simp add: fun_eq_iff normalize_def)

lemma longest_None: "longest xs = None \<longleftrightarrow> xs = []"
  by (induction xs) (auto split: option.splits)

lemma longest_Some: "longest xs = Some t \<Longrightarrow> t \<in> set xs \<and> (\<forall>u \<in> set xs. length u \<le> length t)"
proof (induction xs arbitrary: t)
  case Nil
  then show ?case by simp
next
  case (Cons x xs)
  show ?case
  proof (cases "longest xs")
    case None
    with Cons.prems show ?thesis by (simp add: longest_None)
  next
    case (Some u)
    with Cons.IH have u: "u \<in> set xs" "\<forall>v \<in> set xs. length v \<le> length u" by auto
    with Some Cons.prems show ?thesis by (auto split: if_splits)
  qed
qed

section \<open>Evaluation on a full-width command\<close>

text \<open>The UTF-8 bytes of \<open>'/ping 1'\<close> written with the full-width forms U+FF0F, U+FF50,
  U+FF49, U+FF4E, U+FF47 fold to the half-width text; unfolded, they do not start with
  the trigger.\<close>

lemma fold_width_fullwidth_ping: "fold_width (map char_of [0xEF::nat, 0xBC, 0x8F, 0xEF, 0xBD, 0x90, 0xEF, 0xBD, 0x89, 0xEF, 0xBD, 0x8E, 0xEF, 0xBD, 0x87, 0x20, 0x31]) = ''/ping 1''"
  by code_simp

lemma fold_width_ping: "fold_width ''/ping'' = ''/ping''"
  by code_simp

lemma fullwidth_ping_no_hit: "\<not> command_hit (map char_of [0xEF::nat, 0xBC, 0x8F, 0xEF, 0xBD, 0x90, 0xEF, 0xBD, 0x89, 0xEF, 0xBD, 0x8E, 0xEF, 0xBD, 0x87, 0x20, 0x31]) ''/ping''"
  by code_simp

lemma halfwidth_ping_hit: "command_hit ''/ping 1'' ''/ping''"
  by code_simp

section \<open>Bounds of folding\<close>

text \<open>Folding never lengthens the text, and every byte it produces is a byte of the
  message or printable ASCII (0x20..0x7E): a three-byte full-width form becomes one
  half-width byte, everything else is copied.\<close>

theorem fold_width_bounds:
  "length (fold_width s) \<le> length s \<and>
   (\<forall>c \<in> set (fold_width s). c \<in> set s \<or> (0x20::nat) \<le> of_char c \<and> (of_char c :: nat) \<le> 0x7E)"
proof (induction s rule: fold_width.induct)
  case (1 a b c s)
  then show ?case by (auto simp: of_char_of)
qed auto

end
