(* ===== verification/Listener_Manager.thy ===== *)
theory Listener_Manager
  imports Complex_Main "HOL-Library.Multiset" Matcher
begin

text \<open>
  \<open>Listener\<close> and \<open>ListenerManager\<close>, which \<open>src/jbot/__init__.py\<close> calls
  (\<open>ListenerManager()\<close>, \<open>join\<close>, \<open>set_matcher\<close>, \<open>set_param_convert\<close>, \<open>set_role\<close>,
  \<open>set_nlp\<close>); their classes are outside \<open>src/\<close> and are modelled from the spec
  (sections 3 and 4.3). A listener binds one event class to one handler function and
  carries four optional attachments. The manager keeps its entries \<open>(priority,
  listener)\<close> in dispatch order: ascending priority, and registration order among equal
  priorities; the listeners of one event type are the entries of that type, in that
  order. \<open>join\<close> rejects a priority \<open>\<le> 0\<close>; an attachment setter updates every
  listener whose handler is the given function and answers whether there was one.

  The lemmas: the invariant (sorted by priority, every priority positive) holds
  initially and after every operation; insertion is stable; a run of \<open>join\<close>s refines
  the abstract specification "the registrations, stably sorted by priority"
  (\<open>sort_key fst\<close>); the setters' behaviour on registered and unregistered handlers.
\<close>

section \<open>Data\<close>

text \<open>\<open>param_convert\<close> targets: \<open>str\<close>, \<open>list\<close>, \<open>dict\<close> or \<open>None\<close>.\<close>

datatype conv_ty = ConvStr | ConvList | ConvDict | ConvNone

datatype role = RoleOwner | RoleAdministrator | RoleMember

record role_attach =
  ra_roles :: "role list"
  ra_todo :: "func option"

record nlp_attach =
  nlp_c :: rat
  nlp_keywords :: "string list"
  nlp_params :: "(string \<times> string) list"

record listener =
  l_event :: pyval
  l_target :: func
  l_matcher :: "matcher option"
  l_param_convert :: "conv_ty option"
  l_role :: "role_attach option"
  l_nlp :: "nlp_attach option"

definition Listener :: "pyval \<Rightarrow> func \<Rightarrow> listener" where
  "Listener e f = \<lparr>l_event = e, l_target = f, l_matcher = None, l_param_convert = None,
                   l_role = None, l_nlp = None\<rparr>"

type_synonym entry = "int \<times> listener"

record listener_manager =
  lm_entries :: "entry list"

definition lm_init :: listener_manager where
  "lm_init = \<lparr>lm_entries = []\<rparr>"

section \<open>Operations\<close>

text \<open>Insertion after every entry of the same or a smaller priority.\<close>

fun insert_entry :: "int \<Rightarrow> listener \<Rightarrow> entry list \<Rightarrow> entry list" where
  "insert_entry p l [] = [(p, l)]"
| "insert_entry p l ((q, l') # es) =
     (if p < q then (p, l) # (q, l') # es else (q, l') # insert_entry p l es)"

definition lm_join :: "listener_manager \<Rightarrow> listener \<Rightarrow> int \<Rightarrow> bool \<times> listener_manager" where
  "lm_join lm l p =
     (if p \<le> 0 then (False, lm) else (True, lm\<lparr>lm_entries := insert_entry p l (lm_entries lm)\<rparr>))"

definition lm_listeners :: "listener_manager \<Rightarrow> pyval \<Rightarrow> listener list" where
  "lm_listeners lm e = map snd (filter (\<lambda>(p, l). l_event l = e) (lm_entries lm))"

definition lm_is_listener :: "listener_manager \<Rightarrow> func \<Rightarrow> bool" where
  "lm_is_listener lm f \<longleftrightarrow> (\<exists>(p, l) \<in> set (lm_entries lm). fn_id (l_target l) = fn_id f)"

definition lm_set_attr ::
  "(listener \<Rightarrow> listener) \<Rightarrow> func \<Rightarrow> listener_manager \<Rightarrow> bool \<times> listener_manager" where
  "lm_set_attr upd f lm =
     (if lm_is_listener lm f
      then (True, lm\<lparr>lm_entries :=
              map (\<lambda>(p, l). (p, if fn_id (l_target l) = fn_id f then upd l else l)) (lm_entries lm)\<rparr>)
      else (False, lm))"

definition lm_set_matcher :: "func \<Rightarrow> matcher \<Rightarrow> listener_manager \<Rightarrow> bool \<times> listener_manager" where
  "lm_set_matcher f m = lm_set_attr (\<lambda>l. l\<lparr>l_matcher := Some m\<rparr>) f"

definition lm_set_param_convert :: "func \<Rightarrow> conv_ty \<Rightarrow> listener_manager \<Rightarrow> bool \<times> listener_manager" where
  "lm_set_param_convert f t = lm_set_attr (\<lambda>l. l\<lparr>l_param_convert := Some t\<rparr>) f"

definition lm_set_role :: "func \<Rightarrow> role_attach \<Rightarrow> listener_manager \<Rightarrow> bool \<times> listener_manager" where
  "lm_set_role f r = lm_set_attr (\<lambda>l. l\<lparr>l_role := Some r\<rparr>) f"

definition lm_set_nlp :: "func \<Rightarrow> nlp_attach \<Rightarrow> listener_manager \<Rightarrow> bool \<times> listener_manager" where
  "lm_set_nlp f n = lm_set_attr (\<lambda>l. l\<lparr>l_nlp := Some n\<rparr>) f"

section \<open>Runs of registrations\<close>

text \<open>A sequence of \<open>join\<close> calls, one per registration \<open>(priority, listener)\<close>, in
  program order.\<close>

fun lm_join_all :: "listener_manager \<Rightarrow> entry list \<Rightarrow> listener_manager" where
  "lm_join_all lm [] = lm"
| "lm_join_all lm ((p, l) # rs) = lm_join_all (snd (lm_join lm l p)) rs"

definition insert_all :: "entry list \<Rightarrow> entry list \<Rightarrow> entry list" where
  "insert_all es rs = foldl (\<lambda>acc (p, l). insert_entry p l acc) es rs"

section \<open>Invariant\<close>

definition lm_inv :: "listener_manager \<Rightarrow> bool" where
  "lm_inv lm \<longleftrightarrow> sorted (map fst (lm_entries lm)) \<and> (\<forall>(p, l) \<in> set (lm_entries lm). 0 < p)"

section \<open>Insertion lemmas\<close>

lemma mset_insert_entry [simp]: "mset (insert_entry p l es) = add_mset (p, l) (mset es)"
  by (induction es) auto

lemma length_insert_entry [simp]: "length (insert_entry p l es) = Suc (length es)"
  by (simp flip: size_mset)

lemma set_insert_entry [simp]: "set (insert_entry p l es) = insert (p, l) (set es)"
  by (simp flip: set_mset_mset)

lemma sorted_insert_entry:
  "sorted (map fst es) \<Longrightarrow> sorted (map fst (insert_entry p l es))"
  by (induction es) (fastforce simp: image_iff)+

lemma insert_entry_stable:
  "sorted (map fst es) \<Longrightarrow>
   filter (\<lambda>x. k = fst x) (insert_entry p l es) =
   filter (\<lambda>x. k = fst x) es @ (if p = k then [(p, l)] else [])"
proof (induction es)
  case Nil
  then show ?case by simp
next
  case (Cons e es)
  obtain q l' where e: "e = (q, l')" by fastforce
  show ?case
  proof (cases "p < q")
    case True
    with Cons.prems e have "\<forall>x \<in> set es. p < fst x" by auto
    then have "filter (\<lambda>x. p = fst x) es = []" by (auto simp: filter_empty_conv)
    with True e show ?thesis by auto
  next
    case False
    with Cons e show ?thesis by auto
  qed
qed

lemma insert_all_simps [simp]:
  "insert_all es [] = es"
  "insert_all es ((p, l) # rs) = insert_all (insert_entry p l es) rs"
  by (simp_all add: insert_all_def)

lemma lm_join_all_entries:
  "\<forall>(p, l) \<in> set rs. 0 < p \<Longrightarrow> lm_entries (lm_join_all lm rs) = insert_all (lm_entries lm) rs"
  by (induction lm rs rule: lm_join_all.induct) (auto simp: lm_join_def)

lemma mset_insert_all [simp]: "mset (insert_all es rs) = mset es + mset rs"
  by (induction rs arbitrary: es) auto

lemma sorted_insert_all: "sorted (map fst es) \<Longrightarrow> sorted (map fst (insert_all es rs))"
  by (induction rs arbitrary: es) (auto simp: sorted_insert_entry)

lemma insert_all_stable:
  "sorted (map fst es) \<Longrightarrow>
   filter (\<lambda>x. k = fst x) (insert_all es rs) = filter (\<lambda>x. k = fst x) es @ filter (\<lambda>x. k = fst x) rs"
  by (induction rs arbitrary: es) (auto simp: insert_entry_stable sorted_insert_entry)

theorem insert_all_sort_key: "insert_all [] rs = sort_key fst rs"
proof (rule properties_for_sort_key [symmetric])
  show "mset (insert_all [] rs) = mset rs" by simp
  show "sorted (map fst (insert_all [] rs))" by (simp add: sorted_insert_all)
  fix k
  show "filter (\<lambda>x. fst k = fst x) (insert_all [] rs) = filter (\<lambda>x. fst k = fst x) rs"
    using insert_all_stable [of "[]" "fst k" rs] by simp
qed

section \<open>Invariant preservation\<close>

lemma lm_inv_init: "lm_inv lm_init"
  by (simp add: lm_inv_def lm_init_def)

lemma lm_inv_join: "lm_inv lm \<Longrightarrow> lm_inv (snd (lm_join lm l p))"
  by (auto simp: lm_inv_def lm_join_def sorted_insert_entry)

lemma lm_set_attr_fst:
  "map fst (lm_entries (snd (lm_set_attr upd f lm))) = map fst (lm_entries lm)"
  by (auto simp: lm_set_attr_def comp_def case_prod_beta)

lemma lm_inv_set_attr: "lm_inv lm \<Longrightarrow> lm_inv (snd (lm_set_attr upd f lm))"
proof -
  assume inv: "lm_inv lm"
  have "set (map fst (lm_entries (snd (lm_set_attr upd f lm)))) = set (map fst (lm_entries lm))"
    by (simp only: lm_set_attr_fst)
  then have "fst ` set (lm_entries (snd (lm_set_attr upd f lm))) = fst ` set (lm_entries lm)"
    by simp
  with inv show ?thesis
    unfolding lm_inv_def by (force simp: lm_set_attr_fst)
qed

section \<open>Attachment setters\<close>

lemma lm_set_attr_unregistered:
  "\<not> lm_is_listener lm f \<Longrightarrow> lm_set_attr upd f lm = (False, lm)"
  by (simp add: lm_set_attr_def)

lemma lm_set_attr_registered:
  "lm_is_listener lm f \<Longrightarrow>
   lm_set_attr upd f lm =
     (True, lm\<lparr>lm_entries := map (\<lambda>(p, l). (p, if fn_id (l_target l) = fn_id f then upd l else l))
                                (lm_entries lm)\<rparr>)"
  by (simp add: lm_set_attr_def)

lemma map_upd_fresh:
  "\<forall>(q, l) \<in> set es. fn_id (l_target l) \<noteq> fn_id f \<Longrightarrow>
   map (\<lambda>(q, l). (q, if fn_id (l_target l) = fn_id f then upd l else l)) es = es"
  by (induction es) auto

lemma map_upd_insert_entry_fresh:
  "\<forall>(q, l) \<in> set es. fn_id (l_target l) \<noteq> fn_id f \<Longrightarrow> l_target L = f \<Longrightarrow>
   map (\<lambda>(q, l). (q, if fn_id (l_target l) = fn_id f then upd l else l)) (insert_entry p L es) =
   insert_entry p (upd L) es"
proof (induction es)
  case Nil
  then show ?case by simp
next
  case (Cons e es)
  then show ?case by (cases e) (auto simp: map_upd_fresh)
qed

lemma lm_set_attr_fresh:
  assumes "\<not> lm_is_listener lm f" and "l_target L = f" and "0 < p"
  shows "lm_set_attr upd f (snd (lm_join lm L p)) =
           (True, lm\<lparr>lm_entries := insert_entry p (upd L) (lm_entries lm)\<rparr>)"
proof -
  have reg: "lm_is_listener (snd (lm_join lm L p)) f"
    using assms by (auto simp: lm_is_listener_def lm_join_def)
  from assms(1) have "\<forall>(q, l) \<in> set (lm_entries lm). fn_id (l_target l) \<noteq> fn_id f"
    by (auto simp: lm_is_listener_def)
  with assms reg show ?thesis
    by (simp add: lm_set_attr_registered map_upd_insert_entry_fresh lm_join_def)
qed

lemmas lm_setters = lm_set_matcher_def lm_set_param_convert_def lm_set_role_def lm_set_nlp_def

end
