(* ===== verification/Message_Chain.thy ===== *)
theory Message_Chain
  imports Prelude
begin

text \<open>
  \<open>src/apis/message_chain.py\<close>. The class \<open>MessageChain\<close> keeps its data in class
  attributes: \<open>__new__\<close> assigns \<open>cls._strings\<close> and \<open>cls._result\<close> and returns the
  class itself, \<open>create\<close> assigns \<open>cls.elements\<close>, and \<open>to_code\<close>/\<open>as_display\<close>
  are class methods reading them. The model is therefore one record \<open>mc_class\<close> of the
  three class attributes (\<open>None\<close> while an attribute has never been assigned), threaded
  through every call, and the value a construction returns is the class object
  \<open>PMCClass\<close>. The lemmas show the intended behaviour (concatenation of the strings, of
  the elements' codes and displays, the accumulation loop against \<open>concat\<close>) and what the
  shared state does to it: every chain is the same object, so a later construction
  changes what an earlier chain renders.
\<close>

section \<open>State and operations\<close>

record mc_class =
  mc_elements :: "pyval option"
  mc_strings :: "pyval option"
  mc_result :: "string option"

definition mc_class_init :: mc_class where
  "mc_class_init = \<lparr>mc_elements = None, mc_strings = None, mc_result = None\<rparr>"

text \<open>\<open>for i in strings: cls._result += i\<close>: \<open>str + x\<close> raises \<open>TypeError\<close> unless
  \<open>x\<close> is a string; the attribute keeps what was accumulated before the failure.\<close>

fun mc_accumulate :: "string \<Rightarrow> pyval list \<Rightarrow> string \<times> py_exc option" where
  "mc_accumulate acc [] = (acc, None)"
| "mc_accumulate acc (PStr s # xs) = mc_accumulate (acc @ s) xs"
| "mc_accumulate acc (_ # xs) = (acc, Some TypeError)"

definition mc_new :: "mc_class \<Rightarrow> pyval \<Rightarrow> mc_class \<times> pyval py_result" where
  "mc_new c strings =
     (let c1 = c\<lparr>mc_strings := Some strings, mc_result := Some []\<rparr> in
      case py_iter strings of
        Inl e \<Rightarrow> (c1, Inl e)
      | Inr xs \<Rightarrow>
          (case mc_accumulate [] xs of
             (r, None) \<Rightarrow> (c1\<lparr>mc_result := Some r\<rparr>, Inr PMCClass)
           | (r, Some e) \<Rightarrow> (c1\<lparr>mc_result := Some r\<rparr>, Inl e)))"

definition mc_to_code :: "mc_class \<Rightarrow> string py_result" where
  "mc_to_code c = (case mc_result c of None \<Rightarrow> Inl AttributeError | Some r \<Rightarrow> Inr r)"

text \<open>\<open>i.to_code()\<close> for one item of the list \<open>create\<close> walks: an element returns its
  code, the class \<open>MessageChain\<close> answers with its class method, anything else has no
  attribute \<open>to_code\<close>.\<close>

fun mc_item_code :: "mc_class \<Rightarrow> pyval \<Rightarrow> string py_result" where
  "mc_item_code c (PElem e) = Inr (el_code e)"
| "mc_item_code c PMCClass = mc_to_code c"
| "mc_item_code c _ = Inl AttributeError"

fun mc_codes :: "mc_class \<Rightarrow> pyval list \<Rightarrow> string list py_result" where
  "mc_codes c [] = Inr []"
| "mc_codes c (x # xs) =
     (case mc_item_code c x of
        Inl e \<Rightarrow> Inl e
      | Inr s \<Rightarrow> (case mc_codes c xs of Inl e \<Rightarrow> Inl e | Inr ss \<Rightarrow> Inr (s # ss)))"

definition mc_create :: "mc_class \<Rightarrow> pyval \<Rightarrow> mc_class \<times> pyval py_result" where
  "mc_create c elements =
     (let c1 = c\<lparr>mc_elements := Some elements\<rparr> in
      case py_iter elements of
        Inl e \<Rightarrow> (c1, Inl e)
      | Inr xs \<Rightarrow>
          (case mc_codes c1 xs of
             Inl e \<Rightarrow> (c1, Inl e)
           | Inr ss \<Rightarrow> mc_new c1 (PList (map PStr ss))))"

text \<open>\<open>''.join([element.as_display() for element in cls.elements])\<close>. On the class
  object itself \<open>as_display\<close> calls itself on the same attribute again, which never ends:
  Python raises \<open>RecursionError\<close>.\<close>

fun mc_item_display :: "pyval \<Rightarrow> string py_result" where
  "mc_item_display (PElem e) = Inr (el_display e)"
| "mc_item_display PMCClass = Inl RecursionError"
| "mc_item_display _ = Inl AttributeError"

fun mc_displays :: "pyval list \<Rightarrow> string py_result" where
  "mc_displays [] = Inr []"
| "mc_displays (x # xs) =
     (case mc_item_display x of
        Inl e \<Rightarrow> Inl e
      | Inr s \<Rightarrow> (case mc_displays xs of Inl e \<Rightarrow> Inl e | Inr r \<Rightarrow> Inr (s @ r)))"

definition mc_as_display :: "mc_class \<Rightarrow> string py_result" where
  "mc_as_display c =
     (case mc_elements c of
        None \<Rightarrow> Inl AttributeError
      | Some els \<Rightarrow> (case py_iter els of Inl e \<Rightarrow> Inl e | Inr xs \<Rightarrow> mc_displays xs))"

section \<open>Evaluation lemmas\<close>

lemma mc_accumulate_strs [simp]: "mc_accumulate acc (map PStr ss) = (acc @ concat ss, None)"
  by (induction ss arbitrary: acc) auto

lemma mc_codes_elems [simp]: "mc_codes c (map PElem es) = Inr (map el_code es)"
  by (induction es) auto

lemma mc_displays_elems [simp]: "mc_displays (map PElem es) = Inr (concat (map el_display es))"
  by (induction es) auto

lemma mc_new_strs [simp]:
  "mc_new c (PList (map PStr ss)) =
     (c\<lparr>mc_strings := Some (PList (map PStr ss)), mc_result := Some (concat ss)\<rparr>, Inr PMCClass)"
  by (simp add: mc_new_def)

lemma mc_create_elems [simp]:
  "mc_create c (PList (map PElem es)) =
     (c\<lparr>mc_elements := Some (PList (map PElem es)),
        mc_strings := Some (PList (map PStr (map el_code es))),
        mc_result := Some (concat (map el_code es))\<rparr>, Inr PMCClass)"
  by (simp add: mc_create_def del: map_map)

lemma mc_create_not_iterable:
  "\<not> py_is_iterable v \<Longrightarrow> mc_create c v = (c\<lparr>mc_elements := Some v\<rparr>, Inl TypeError)"
  by (cases v) (simp_all add: mc_create_def py_is_iterable_def)

section \<open>Properties\<close>

text \<open>C23: \<open>MessageChain.create(E).to_code()\<close> is the concatenation of
  \<open>e.to_code()\<close> for the elements of \<open>E\<close>, in order, and the call returns the class.\<close>

theorem create_to_code:
  "snd (mc_create c (PList (map PElem es))) = Inr PMCClass \<and>
   mc_to_code (fst (mc_create c (PList (map PElem es)))) = Inr (concat (map el_code es))"
  by (simp add: mc_to_code_def)

text \<open>C24: \<open>MessageChain(S).to_code()\<close> is the concatenation of the strings of \<open>S\<close>.\<close>

theorem new_to_code:
  "snd (mc_new c (PList (map PStr ss))) = Inr PMCClass \<and>
   mc_to_code (fst (mc_new c (PList (map PStr ss)))) = Inr (concat ss)"
  by (simp add: mc_to_code_def)

text \<open>C25: the accumulation loop of \<open>__new__\<close> agrees with \<open>''.join\<close>: on strings
  it computes their concatenation; at the first item that is not a string it stops
  with \<open>TypeError\<close>, the attribute holding the concatenation of the strings before.\<close>

theorem accumulate_loop:
  "mc_accumulate acc (map PStr ss) = (acc @ concat ss, None) \<and>
   ((\<forall>s. x \<noteq> PStr s) \<longrightarrow>
      mc_accumulate acc (map PStr ss @ x # xs) = (acc @ concat ss, Some TypeError))"
proof -
  have "(\<forall>s. x \<noteq> PStr s) \<longrightarrow> mc_accumulate acc (map PStr ss @ x # xs) = (acc @ concat ss, Some TypeError)"
    by (induction ss arbitrary: acc) (cases x; auto)+
  then show ?thesis by simp
qed

theorem accumulate_loop_witness:
  "mc_accumulate ''a'' (map PStr [''b'', ''c'']) = (''abc'', None) \<and>
   (\<forall>s. PInt 1 \<noteq> PStr s) \<and>
   mc_accumulate ''a'' (map PStr [''b'', ''c''] @ PInt 1 # [PStr ''d'']) = (''abc'', Some TypeError)"
  using accumulate_loop [of "''a''" "[''b'', ''c'']" "PInt 1" "[PStr ''d'']"] by simp

text \<open>C26: \<open>MessageChain.create(E).as_display()\<close> is the concatenation of
  \<open>e.as_display()\<close> for the elements of \<open>E\<close>, in order.\<close>

theorem create_as_display:
  "mc_as_display (fst (mc_create c (PList (map PElem es)))) = Inr (concat (map el_display es))"
  by (simp add: mc_as_display_def)

text \<open>C28: a chain built from strings only, after an earlier \<open>create\<close>, does not report
  its display as unavailable: \<open>as_display()\<close> answers the elements of the earlier chain
  while \<open>to_code()\<close> answers the new strings.\<close>

theorem stale_display:
  "let c1 = fst (mc_create c (PList (map PElem es)));
       c2 = fst (mc_new c1 (PList (map PStr ss)))
   in mc_to_code c2 = Inr (concat ss) \<and> mc_as_display c2 = Inr (concat (map el_display es))"
  by (simp add: mc_to_code_def mc_as_display_def)

text \<open>\<open>create\<close> on a value that is not iterable (a single element, a class)
  raises \<open>TypeError\<close>, after it has already overwritten \<open>cls.elements\<close> with it; the
  cached code is untouched.\<close>

theorem create_not_iterable:
  "\<not> py_is_iterable v \<Longrightarrow>
     mc_create c v = (c\<lparr>mc_elements := Some v\<rparr>, Inl TypeError)"
  by (rule mc_create_not_iterable)

theorem create_not_iterable_witness:
  "\<not> py_is_iterable (PClass \<lparr>cls_module = ''m'', cls_name = ''Plain''\<rparr>) \<and>
   mc_create mc_class_init (PClass \<lparr>cls_module = ''m'', cls_name = ''Plain''\<rparr>) =
     (mc_class_init\<lparr>mc_elements := Some (PClass \<lparr>cls_module = ''m'', cls_name = ''Plain''\<rparr>)\<rparr>,
      Inl TypeError)"
proof -
  have h: "\<not> py_is_iterable (PClass \<lparr>cls_module = ''m'', cls_name = ''Plain''\<rparr>)"
    by (simp add: py_is_iterable_def)
  show ?thesis using create_not_iterable [OF h] h by simp
qed

end
