(* ===== verification/Bot_Application.thy ===== *)
theory Bot_Application
  imports Listener_Manager Message_Chain
begin

text \<open>
  \<open>BotApplication\<close> of \<open>src/jbot/__init__.py\<close>: the registration decorator \<open>on\<close>
  (lines 98--134), the attachment decorators \<open>__set_decorator\<close>, \<open>command\<close>,
  \<open>keyword\<close>, \<open>matcher\<close>, \<open>param_convert\<close>, \<open>role\<close>, \<open>nlp\<close> (lines 136--220) and
  \<open>send_msg\<close> (lines 48--92). The application's state is a record of its listener
  manager, the shared \<open>MessageChain\<close> class state, the log (the \<open>Logger\<close> calls,
  as values naming what is reported) and the messages handed to the adapter. A
  decorator is a value: \<open>on\<close> returns \<open>None\<close>, the identity or the registering
  wrapper; the attachment decorators return a wrapper carrying the value to attach.
  Applying a decorated function's decorators follows Python: the decorator expressions
  are evaluated top to bottom, then applied bottom to top. Every decorator keeps the
  registry invariant \<open>lm_inv\<close> and the invariant \<open>all_async\<close> that every registered
  handler is a coroutine function.
\<close>

section \<open>State\<close>

datatype attach_kind = AttMatcher | AttParamConvert | AttRole | AttNlp

datatype log_entry =
    LogPriorityType
  | LogPriorityNonPositive
  | LogRegister bool string int string
  | LogNotAsync string
  | LogNotListener attach_kind string
  | LogSendTypeError
  | LogSendFailed py_exc

record bot_app =
  app_lm :: listener_manager
  app_mc :: mc_class
  app_log :: "log_entry list"
  app_sent :: "(pyval \<times> mc_class) list"

definition app_init :: bot_app where
  "app_init = \<lparr>app_lm = lm_init, app_mc = mc_class_init, app_log = [], app_sent = []\<rparr>"

definition emit :: "bot_app \<Rightarrow> log_entry \<Rightarrow> bot_app" where
  "emit app e = app\<lparr>app_log := app_log app @ [e]\<rparr>"

section \<open>Registration: \<open>on\<close>\<close>

datatype attach_value =
    AMatcher matcher
  | AParamConvert conv_ty
  | ARole role_attach
  | ANlp nlp_attach

datatype decorator =
    DecNone
  | DecIdentity
  | DecOn pyval int
  | DecAttach attach_value

definition bot_on :: "bot_app \<Rightarrow> pyval \<Rightarrow> pyval \<Rightarrow> decorator \<times> bot_app" where
  "bot_on app event priority =
     (case priority of
        PInt p \<Rightarrow> if 0 < p then (DecOn event p, app) else (DecNone, emit app LogPriorityNonPositive)
      | _ \<Rightarrow> (DecIdentity, emit app LogPriorityType))"

text \<open>\<open>e.__name__\<close>: classes and functions have a name, other values do not.\<close>

fun py_name :: "pyval \<Rightarrow> string py_result" where
  "py_name (PClass k) = Inr (cls_name k)"
| "py_name PMCClass = Inr ''MessageChain''"
| "py_name (PFunc f) = Inr (fn_name f)"
| "py_name _ = Inl AttributeError"

fun py_names :: "pyval list \<Rightarrow> string list py_result" where
  "py_names [] = Inr []"
| "py_names (x # xs) =
     (case py_name x of
        Inl e \<Rightarrow> Inl e
      | Inr n \<Rightarrow> (case py_names xs of Inl e \<Rightarrow> Inl e | Inr ns \<Rightarrow> Inr (n # ns)))"

text \<open>\<open>' & '.join(names)\<close>.\<close>

fun join_names :: "string list \<Rightarrow> string" where
  "join_names [] = []"
| "join_names [n] = n"
| "join_names (n # m # ns) = n @ '' & '' @ join_names (m # ns)"

text \<open>\<open>join = lambda e: self.listener_manager.join(listener=Listener(e, target), priority=priority)\<close>\<close>

definition app_join :: "func \<Rightarrow> int \<Rightarrow> bot_app \<Rightarrow> pyval \<Rightarrow> bot_app" where
  "app_join target p app e = app\<lparr>app_lm := snd (lm_join (app_lm app) (Listener e target) p)\<rparr>"

text \<open>\<open>if ev.__class__ == list and len(list(ev)) == 1: ev = ev[0]\<close>\<close>

definition ev_collapse :: "pyval \<Rightarrow> pyval" where
  "ev_collapse event = (case event of PList [x] \<Rightarrow> x | _ \<Rightarrow> event)"

text \<open>The wrapper \<open>on\<close> returns for a positive integer priority. The \<open>multi\<close> flag of
  the log line is \<open>True\<close> in the single-event branch and \<open>False\<close> in the list branch,
  as the source passes it.\<close>

definition on_wrapper :: "bot_app \<Rightarrow> pyval \<Rightarrow> int \<Rightarrow> func \<Rightarrow> func py_result \<times> bot_app" where
  "on_wrapper app event p target =
     (if fn_async target then
        (let ev = ev_collapse event in
         case ev of
           PList es \<Rightarrow>
             (case py_names es of
                Inl e \<Rightarrow> (Inl e, app)
              | Inr ns \<Rightarrow>
                  (Inr target, foldl (app_join target p)
                     (emit app (LogRegister False (join_names ns) p (fn_name target))) es))
         | PTuple es \<Rightarrow>
             (case py_names es of
                Inl e \<Rightarrow> (Inl e, app)
              | Inr ns \<Rightarrow>
                  (Inr target, foldl (app_join target p)
                     (emit app (LogRegister False (join_names ns) p (fn_name target))) es))
         | _ \<Rightarrow>
             (case py_name ev of
                Inl e \<Rightarrow> (Inl e, app)
              | Inr n \<Rightarrow>
                  (Inr target, app_join target p (emit app (LogRegister True n p (fn_name target))) ev)))
      else (Inr target, emit app (LogNotAsync (fn_name target))))"

section \<open>Attachments: \<open>__set_decorator\<close> and the decorators built on it\<close>

fun attach_kind_of :: "attach_value \<Rightarrow> attach_kind" where
  "attach_kind_of (AMatcher _) = AttMatcher"
| "attach_kind_of (AParamConvert _) = AttParamConvert"
| "attach_kind_of (ARole _) = AttRole"
| "attach_kind_of (ANlp _) = AttNlp"

fun lm_attach :: "attach_value \<Rightarrow> func \<Rightarrow> listener_manager \<Rightarrow> bool \<times> listener_manager" where
  "lm_attach (AMatcher m) f = lm_set_matcher f m"
| "lm_attach (AParamConvert t) f = lm_set_param_convert f t"
| "lm_attach (ARole r) f = lm_set_role f r"
| "lm_attach (ANlp n) f = lm_set_nlp f n"

definition set_wrapper :: "bot_app \<Rightarrow> attach_value \<Rightarrow> func \<Rightarrow> func py_result \<times> bot_app" where
  "set_wrapper app v target =
     (let (flag, lm') = lm_attach v target (app_lm app);
          app' = app\<lparr>app_lm := lm'\<rparr>
      in (Inr target,
          if flag then app' else emit app' (LogNotListener (attach_kind_of v) (fn_name target))))"

definition bot_command :: "string list \<Rightarrow> bool \<Rightarrow> pyclass list \<Rightarrow> decorator" where
  "bot_command cmds w ign = DecAttach (AMatcher (CommandMatcher cmds w ign))"

definition bot_keyword :: "string list \<Rightarrow> bool \<Rightarrow> pyclass list \<Rightarrow> decorator" where
  "bot_keyword kws w ign = DecAttach (AMatcher (KeywordMatcher kws w ign))"

definition bot_matcher :: "matcher \<Rightarrow> decorator" where
  "bot_matcher m = DecAttach (AMatcher m)"

definition bot_param_convert :: "conv_ty \<Rightarrow> decorator" where
  "bot_param_convert t = DecAttach (AParamConvert t)"

definition bot_role :: "role list \<Rightarrow> func option \<Rightarrow> decorator" where
  "bot_role rs todo = DecAttach (ARole \<lparr>ra_roles = rs, ra_todo = todo\<rparr>)"

definition bot_nlp :: "rat \<Rightarrow> string list \<Rightarrow> (string \<times> string) list \<Rightarrow> decorator" where
  "bot_nlp c kws params =
     DecAttach (ANlp \<lparr>nlp_c = c, nlp_keywords = kws, nlp_params = params\<rparr>)"

section \<open>Decorating a function\<close>

text \<open>Applying a decorator value; \<open>None\<close> is not callable.\<close>

fun apply_decorator :: "bot_app \<Rightarrow> decorator \<Rightarrow> func \<Rightarrow> func py_result \<times> bot_app" where
  "apply_decorator app DecNone f = (Inl TypeError, app)"
| "apply_decorator app DecIdentity f = (Inr f, app)"
| "apply_decorator app (DecOn ev p) f = on_wrapper app ev p f"
| "apply_decorator app (DecAttach v) f = set_wrapper app v f"

text \<open>The decorator expressions of a definition, as written in the source.\<close>

datatype deco_expr =
    On pyval pyval
  | Command "string list" bool "pyclass list"
  | Keyword "string list" bool "pyclass list"
  | MatcherD matcher
  | ParamConvert conv_ty
  | RoleD "role list" "func option"
  | Nlp rat "string list" "(string \<times> string) list"

fun eval_deco :: "bot_app \<Rightarrow> deco_expr \<Rightarrow> decorator \<times> bot_app" where
  "eval_deco app (On ev p) = bot_on app ev p"
| "eval_deco app (Command cs w ign) = (bot_command cs w ign, app)"
| "eval_deco app (Keyword ks w ign) = (bot_keyword ks w ign, app)"
| "eval_deco app (MatcherD m) = (bot_matcher m, app)"
| "eval_deco app (ParamConvert t) = (bot_param_convert t, app)"
| "eval_deco app (RoleD rs todo) = (bot_role rs todo, app)"
| "eval_deco app (Nlp c ks ps) = (bot_nlp c ks ps, app)"

fun eval_decos :: "bot_app \<Rightarrow> deco_expr list \<Rightarrow> decorator list \<times> bot_app" where
  "eval_decos app [] = ([], app)"
| "eval_decos app (d # ds) =
     (let (v, app1) = eval_deco app d; (vs, app2) = eval_decos app1 ds in (v # vs, app2))"

text \<open>Applied from the one nearest the \<open>def\<close> outwards; an exception ends the
  definition.\<close>

fun apply_decorators :: "bot_app \<Rightarrow> decorator list \<Rightarrow> func \<Rightarrow> func py_result \<times> bot_app" where
  "apply_decorators app [] f = (Inr f, app)"
| "apply_decorators app (d # ds) f =
     (case apply_decorators app ds f of
        (Inl e, app1) \<Rightarrow> (Inl e, app1)
      | (Inr g, app1) \<Rightarrow> apply_decorator app1 d g)"

definition decorate :: "bot_app \<Rightarrow> deco_expr list \<Rightarrow> func \<Rightarrow> func py_result \<times> bot_app" where
  "decorate app ds f = (let (vs, app1) = eval_decos app ds in apply_decorators app1 vs f)"

text \<open>Loading a module: its decorated definitions run in order, and an exception
  ends the import, so no later definition runs.\<close>

fun load_module :: "bot_app \<Rightarrow> (deco_expr list \<times> func) list \<Rightarrow> py_exc option \<times> bot_app" where
  "load_module app [] = (None, app)"
| "load_module app ((ds, f) # defs) =
     (case decorate app ds f of
        (Inl e, app1) \<Rightarrow> (Some e, app1)
      | (Inr _, app1) \<Rightarrow> load_module app1 defs)"

definition on_defs :: "(pyclass \<times> int \<times> func) list \<Rightarrow> (deco_expr list \<times> func) list" where
  "on_defs regs = map (\<lambda>(k, p, f). ([On (PClass k) (PInt p)], f)) regs"

definition reg_entries :: "(pyclass \<times> int \<times> func) list \<Rightarrow> entry list" where
  "reg_entries regs = map (\<lambda>(k, p, f). (p, Listener (PClass k) f)) regs"

text \<open>The value an attachment decorator expression attaches, and the update the
  matching \<open>ListenerManager\<close> setter applies to a listener (the \<open>mapping\<close> of
  \<open>__set_decorator\<close>).\<close>

fun attach_of :: "deco_expr \<Rightarrow> attach_value option" where
  "attach_of (Command cs w ign) = Some (AMatcher (CommandMatcher cs w ign))"
| "attach_of (Keyword ks w ign) = Some (AMatcher (KeywordMatcher ks w ign))"
| "attach_of (MatcherD m) = Some (AMatcher m)"
| "attach_of (ParamConvert t) = Some (AParamConvert t)"
| "attach_of (RoleD rs todo) = Some (ARole \<lparr>ra_roles = rs, ra_todo = todo\<rparr>)"
| "attach_of (Nlp c ks ps) = Some (ANlp \<lparr>nlp_c = c, nlp_keywords = ks, nlp_params = ps\<rparr>)"
| "attach_of (On _ _) = None"

fun attach_upd :: "attach_value \<Rightarrow> listener \<Rightarrow> listener" where
  "attach_upd (AMatcher m) l = l\<lparr>l_matcher := Some m\<rparr>"
| "attach_upd (AParamConvert t) l = l\<lparr>l_param_convert := Some t\<rparr>"
| "attach_upd (ARole r) l = l\<lparr>l_role := Some r\<rparr>"
| "attach_upd (ANlp n) l = l\<lparr>l_nlp := Some n\<rparr>"


text \<open>The events one \<open>on(event)\<close> names: the elements of a list or tuple (after the
  one-element collapse), or the event itself.\<close>

definition ev_items :: "pyval \<Rightarrow> pyval list" where
  "ev_items event = (case ev_collapse event of PList es \<Rightarrow> es | PTuple es \<Rightarrow> es | e \<Rightarrow> [e])"

text \<open>Every registered handler is a coroutine function.\<close>

definition lm_all :: "(pyval \<Rightarrow> func \<Rightarrow> bool) \<Rightarrow> listener_manager \<Rightarrow> bool" where
  "lm_all Q lm \<longleftrightarrow> (\<forall>(p, l) \<in> set (lm_entries lm). Q (l_event l) (l_target l))"

definition all_async :: "listener_manager \<Rightarrow> bool" where
  "all_async lm \<longleftrightarrow> lm_all (\<lambda>_ g. fn_async g) lm"

text \<open>An event object \<open>on\<close> can name in its log line: it has a \<open>__name__\<close>.\<close>

definition named_event :: "pyval \<Rightarrow> bool" where
  "named_event e \<longleftrightarrow> (case py_name e of Inl _ \<Rightarrow> False | Inr _ \<Rightarrow> True)"

definition named_events :: "listener_manager \<Rightarrow> bool" where
  "named_events lm \<longleftrightarrow> lm_all (\<lambda>e _. named_event e) lm"

section \<open>Evaluation lemmas\<close>

lemma emit_simps [simp]:
  "app_lm (emit app e) = app_lm app"
  "app_mc (emit app e) = app_mc app"
  "app_sent (emit app e) = app_sent app"
  "app_log (emit app e) = app_log app @ [e]"
  by (simp_all add: emit_def)

lemma app_join_simps [simp]:
  "0 < p \<Longrightarrow> lm_entries (app_lm (app_join f p app e)) = insert_entry p (Listener e f) (lm_entries (app_lm app))"
  "app_log (app_join f p app e) = app_log app"
  "app_mc (app_join f p app e) = app_mc app"
  "app_sent (app_join f p app e) = app_sent app"
  by (simp_all add: app_join_def lm_join_def)

lemma foldl_app_join_entries:
  "0 < p \<Longrightarrow>
   lm_entries (app_lm (foldl (app_join f p) app es)) =
   insert_all (lm_entries (app_lm app)) (map (\<lambda>e. (p, Listener e f)) es)"
  by (induction es arbitrary: app) auto

lemma foldl_app_join_frame [simp]:
  "app_log (foldl (app_join f p) app es) = app_log app"
  "app_mc (foldl (app_join f p) app es) = app_mc app"
  "app_sent (foldl (app_join f p) app es) = app_sent app"
  by (induction es arbitrary: app) auto

lemma py_names_classes [simp]: "py_names (map PClass ks) = Inr (map cls_name ks)"
  by (induction ks) auto

lemma lm_inv_app_join: "lm_inv (app_lm app) \<Longrightarrow> lm_inv (app_lm (app_join f p app e))"
  unfolding app_join_def by (simp add: lm_inv_join)

lemma lm_inv_foldl_app_join:
  "lm_inv (app_lm app) \<Longrightarrow> lm_inv (app_lm (foldl (app_join f p) app es))"
  by (induction es arbitrary: app) (auto simp: lm_inv_app_join)

lemma lm_inv_emit [simp]: "lm_inv (app_lm (emit app e)) = lm_inv (app_lm app)"
  by simp

lemma lm_inv_on_wrapper:
  "lm_inv (app_lm app) \<Longrightarrow> lm_inv (app_lm (snd (on_wrapper app ev p f)))"
  unfolding on_wrapper_def Let_def
  by (auto split: pyval.splits list.splits sum.splits
           simp: lm_inv_app_join lm_inv_foldl_app_join)

lemma lm_attach_inv: "lm_inv lm \<Longrightarrow> lm_inv (snd (lm_attach v f lm))"
  by (cases v) (simp_all add: lm_setters lm_inv_set_attr)

lemma lm_inv_set_wrapper:
  "lm_inv (app_lm app) \<Longrightarrow> lm_inv (app_lm (snd (set_wrapper app v f)))"
  using lm_attach_inv [of "app_lm app" v f]
  by (auto simp: set_wrapper_def Let_def split: prod.splits)

lemma lm_inv_apply_decorator:
  "lm_inv (app_lm app) \<Longrightarrow> lm_inv (app_lm (snd (apply_decorator app d f)))"
  by (cases d) (simp_all add: lm_inv_on_wrapper lm_inv_set_wrapper)

lemma lm_inv_apply_decorators:
  "lm_inv (app_lm app) \<Longrightarrow> lm_inv (app_lm (snd (apply_decorators app ds f)))"
proof (induction app ds f rule: apply_decorators.induct)
  case (1 app f)
  then show ?case by simp
next
  case (2 app d ds f)
  then show ?case
    by (auto split: prod.splits sum.splits dest: lm_inv_apply_decorator)
qed

lemma lm_eval_deco [simp]: "app_lm (snd (eval_deco app d)) = app_lm app"
  by (cases d) (simp_all add: bot_on_def split: pyval.splits)

lemma lm_eval_deco_eq: "eval_deco app d = (v, app1) \<Longrightarrow> app_lm app1 = app_lm app"
  using lm_eval_deco [of app d] by simp

lemma lm_eval_decos [simp]: "app_lm (snd (eval_decos app ds)) = app_lm app"
  by (induction app ds rule: eval_decos.induct) (auto split: prod.splits dest: lm_eval_deco_eq)

lemma lm_attach_unregistered:
  "\<not> lm_is_listener lm f \<Longrightarrow> lm_attach v f lm = (False, lm)"
  by (cases v) (simp_all add: lm_setters lm_set_attr_unregistered)

lemma decorate_on_eval:
  "decorate app [On ev pr] f = (case bot_on app ev pr of (d, app1) \<Rightarrow> apply_decorator app1 d f)"
  by (simp add: decorate_def split: prod.splits)

lemma decorate_on_pos:
  "0 < p \<Longrightarrow> decorate app [On ev (PInt p)] f = on_wrapper app ev p f"
  by (simp add: decorate_on_eval bot_on_def)

lemma length_app_join:
  "length (lm_entries (app_lm (app_join f p app e))) =
     length (lm_entries (app_lm app)) + (if 0 < p then 1 else 0)"
  by (simp add: app_join_def lm_join_def)

lemma length_foldl_app_join:
  "length (lm_entries (app_lm (foldl (app_join f p) app es))) =
     length (lm_entries (app_lm app)) + (if 0 < p then length es else 0)"
  by (induction es arbitrary: app) (simp_all add: length_app_join)

section \<open>Properties of every registered listener\<close>

text \<open>\<open>on\<close> registers a handler only when it is a coroutine function and only for event
  objects it could name; the attachment decorators change neither the event nor the
  handler of an entry. So any property \<open>Q\<close> of an entry's event and handler that
  holds for such pairs holds of every entry after any decorated definition.\<close>

lemma lm_all_app_join:
  "lm_all Q (app_lm app) \<Longrightarrow> Q e f \<Longrightarrow> lm_all Q (app_lm (app_join f p app e))"
  by (auto simp: lm_all_def app_join_def lm_join_def Listener_def)

lemma lm_all_foldl_app_join:
  "lm_all Q (app_lm app) \<Longrightarrow> \<forall>e \<in> set es. Q e f \<Longrightarrow> lm_all Q (app_lm (foldl (app_join f p) app es))"
  by (induction es arbitrary: app) (auto simp: lm_all_app_join)

lemma py_names_named: "py_names es = Inr ns \<Longrightarrow> \<forall>e \<in> set es. named_event e"
  by (induction es arbitrary: ns) (auto simp: named_event_def split: sum.splits)

lemma py_names_Inl: "py_names es = Inl x \<Longrightarrow> \<exists>e \<in> set es. \<not> named_event e"
  by (induction es arbitrary: x) (auto simp: named_event_def split: sum.splits)

lemma lm_all_on_wrapper:
  assumes "lm_all Q (app_lm app)" and "\<forall>e g. named_event e \<longrightarrow> fn_async g \<longrightarrow> Q e g"
  shows "lm_all Q (app_lm (snd (on_wrapper app ev p f)))"
  using assms py_names_named
  unfolding on_wrapper_def Let_def
  by (auto split: pyval.splits list.splits sum.splits
           simp: lm_all_app_join lm_all_foldl_app_join named_event_def)

lemma lm_attach_events_targets:
  "map (\<lambda>(p, l). (l_event l, l_target l)) (lm_entries (snd (lm_attach v f lm))) =
     map (\<lambda>(p, l). (l_event l, l_target l)) (lm_entries lm)"
  by (cases v) (auto simp: lm_setters lm_set_attr_def case_prod_beta)

lemma lm_all_events_targets:
  assumes "map (\<lambda>(p, l). (l_event l, l_target l)) (lm_entries lm') =
             map (\<lambda>(p, l). (l_event l, l_target l)) (lm_entries lm)"
  shows "lm_all Q lm' = lm_all Q lm"
proof -
  have "lm_all Q lm \<longleftrightarrow> (\<forall>(e, g) \<in> set (map (\<lambda>(p, l). (l_event l, l_target l)) (lm_entries lm)). Q e g)"
    for lm by (auto simp: lm_all_def)
  with assms show ?thesis by metis
qed

lemma lm_all_set_wrapper:
  "lm_all Q (app_lm app) \<Longrightarrow> lm_all Q (app_lm (snd (set_wrapper app v f)))"
  using lm_all_events_targets [OF lm_attach_events_targets [of v f "app_lm app"]]
  by (auto simp: set_wrapper_def Let_def split: prod.splits)

lemma lm_all_apply_decorators:
  assumes "\<forall>e g. named_event e \<longrightarrow> fn_async g \<longrightarrow> Q e g"
  shows "lm_all Q (app_lm app) \<Longrightarrow> lm_all Q (app_lm (snd (apply_decorators app ds f)))"
proof (induction app ds f rule: apply_decorators.induct)
  case (1 app f)
  then show ?case by simp
next
  case (2 app d ds f)
  have step: "lm_all Q (app_lm app1) \<Longrightarrow> lm_all Q (app_lm (snd (apply_decorator app1 d g)))" for app1 g
    using assms by (cases d) (simp_all add: lm_all_on_wrapper lm_all_set_wrapper)
  from 2 show ?case by (auto split: prod.splits sum.splits intro: step)
qed

lemma lm_all_decorate:
  assumes inv: "lm_all Q (app_lm app)" and q: "\<forall>e g. named_event e \<longrightarrow> fn_async g \<longrightarrow> Q e g"
  shows "lm_all Q (app_lm (snd (decorate app ds f)))"
proof -
  obtain vs app1 where ev: "eval_decos app ds = (vs, app1)" by fastforce
  have "app_lm app1 = app_lm app" using lm_eval_decos [of app ds] ev by simp
  with inv have "lm_all Q (app_lm app1)" by simp
  then have "lm_all Q (app_lm (snd (apply_decorators app1 vs f)))"
    using q by (rule lm_all_apply_decorators [rotated])
  with ev show ?thesis by (simp add: decorate_def)
qed

lemma all_async_decorate:
  "all_async (app_lm app) \<Longrightarrow> all_async (app_lm (snd (decorate app ds f)))"
  unfolding all_async_def by (rule lm_all_decorate) simp_all

lemma named_events_decorate:
  "named_events (app_lm app) \<Longrightarrow> named_events (app_lm (snd (decorate app ds f)))"
  unfolding named_events_def by (rule lm_all_decorate) simp_all

section \<open>Decorating a definition with attachments above \<open>on\<close>\<close>

text \<open>A definition decorated with attachment decorators above one \<open>@bot.on(event, p)\<close>:
  \<open>on\<close> registers one listener per named event, and each attachment, applied bottom
  to top, updates every listener of the handler.\<close>

lemma attach_upd_fields [simp]:
  "l_target (attach_upd v l) = l_target l" "l_event (attach_upd v l) = l_event l"
  by (cases v; simp)+

lemma foldr_attach_upd_fields [simp]:
  "l_target (foldr attach_upd vs l) = l_target l" "l_event (foldr attach_upd vs l) = l_event l"
  by (induction vs) simp_all

lemma lm_attach_upd: "lm_attach v f lm = lm_set_attr (attach_upd v) f lm"
  by (cases v) (simp_all add: lm_setters lm_set_attr_def cong: if_cong)

lemma eval_deco_attach: "attach_of d = Some v \<Longrightarrow> eval_deco app d = (DecAttach v, app)"
  by (cases d) (auto simp: bot_command_def bot_keyword_def bot_matcher_def bot_param_convert_def
                           bot_role_def bot_nlp_def)

lemma eval_decos_attach_on:
  "list_all (\<lambda>d. attach_of d \<noteq> None) ds \<Longrightarrow> 0 < p \<Longrightarrow>
   eval_decos app (ds @ [On ev (PInt p)]) = (map DecAttach (List.map_filter attach_of ds) @ [DecOn ev p], app)"
  by (induction ds) (auto simp: eval_deco_attach bot_on_def map_filter_simps)

lemma apply_attach_stack:
  assumes "fst (on_wrapper app ev p f) = Inr f" and "lm_is_listener (app_lm (snd (on_wrapper app ev p f))) f"
  shows "fst (apply_decorators app (map DecAttach vs @ [DecOn ev p]) f) = Inr f \<and>
    lm_entries (app_lm (snd (apply_decorators app (map DecAttach vs @ [DecOn ev p]) f))) =
      map (\<lambda>(q, l). (q, if fn_id (l_target l) = fn_id f then foldr attach_upd vs l else l))
        (lm_entries (app_lm (snd (on_wrapper app ev p f))))"
proof (induction vs)
  case Nil
  have "map (\<lambda>(q, l). (q, if fn_id (l_target l) = fn_id f then foldr attach_upd [] l else l)) es = es"
    for es :: "entry list" by (induction es) auto
  with assms show ?case by (cases "on_wrapper app ev p f") simp
next
  case (Cons v vs)
  obtain r app1 where a: "apply_decorators app (map DecAttach vs @ [DecOn ev p]) f = (r, app1)" by fastforce
  with Cons have r: "r = Inr f" by simp
  have "lm_is_listener (app_lm app1) f"
    using assms(2) Cons a unfolding lm_is_listener_def by (force simp: case_prod_beta)
  with Cons a r show ?case
    by (auto simp: set_wrapper_def lm_attach_upd lm_set_attr_def case_prod_beta)
qed

lemma named_event_name: "named_event e \<Longrightarrow> \<exists>n. py_name e = Inr n"
  by (auto simp: named_event_def split: sum.splits)

lemma on_wrapper_registers:
  assumes "0 < p" and "fn_async f" and "\<forall>e \<in> set (ev_items ev). named_event e"
  shows "fst (on_wrapper app ev p f) = Inr f \<and>
    lm_entries (app_lm (snd (on_wrapper app ev p f))) =
      insert_all (lm_entries (app_lm app)) (map (\<lambda>e. (p, Listener e f)) (ev_items ev))"
  using assms
  unfolding on_wrapper_def ev_items_def Let_def
  by (auto split: pyval.splits list.splits sum.splits
           simp: foldl_app_join_entries dest: py_names_Inl named_event_name)

lemma decorate_fresh:
  assumes "0 < p" and "fn_async f" and "list_all (\<lambda>d. attach_of d \<noteq> None) ds"
    and "\<forall>e \<in> set (ev_items ev). named_event e" and "ev_items ev \<noteq> []"
  shows "fst (decorate app_init (ds @ [On ev (PInt p)]) f) = Inr f \<and>
    lm_entries (app_lm (snd (decorate app_init (ds @ [On ev (PInt p)]) f))) =
      map (\<lambda>e. (p, foldr attach_upd (List.map_filter attach_of ds) (Listener e f))) (ev_items ev)"
proof -
  have s: "sorted (map fst (map (\<lambda>e. (p, Listener e f)) (ev_items ev)))"
    by (simp add: comp_def sorted_iff_nth_mono)
  have on: "fst (on_wrapper app_init ev p f) = Inr f \<and>
      lm_entries (app_lm (snd (on_wrapper app_init ev p f))) = map (\<lambda>e. (p, Listener e f)) (ev_items ev)"
    using on_wrapper_registers [OF assms(1,2,4), of app_init] s
    by (simp add: app_init_def lm_init_def insert_all_sort_key sort_key_id_if_sorted)
  moreover have "lm_is_listener (app_lm (snd (on_wrapper app_init ev p f))) f"
    using on assms(5) by (cases "ev_items ev") (auto simp: lm_is_listener_def Listener_def)
  ultimately show ?thesis
    using apply_attach_stack [of app_init ev p f "List.map_filter attach_of ds"]
    by (simp add: decorate_def eval_decos_attach_on [OF assms(3,1)] comp_def Listener_def)
qed

lemma ev_items_class [simp]: "ev_items (PClass k) = [PClass k]"
  and named_event_class [simp]: "named_event (PClass k)"
  by (simp_all add: ev_items_def ev_collapse_def named_event_def)

lemma decorate_class:
  assumes "0 < p" and "fn_async f" and "list_all (\<lambda>d. attach_of d \<noteq> None) ds"
  shows "lm_entries (app_lm (snd (decorate app_init (ds @ [On (PClass k) (PInt p)]) f))) =
           [(p, foldr attach_upd (List.map_filter attach_of ds) (Listener (PClass k) f))]"
  using decorate_fresh [OF assms, of "PClass k"] by simp

section \<open>Properties of registration and attachment\<close>

text \<open>C3: a definition decorated with \<open>@bot.on(ev, p)\<close> for an integer \<open>p \<le> 0\<close>
  logs the error, and then applying the \<open>None\<close> that \<open>on\<close> returned raises
  \<open>TypeError\<close>: the import of the module stops there, and no later handler of the
  module is registered.\<close>

theorem on_nonpositive_aborts:
  "p \<le> 0 \<Longrightarrow>
   load_module app (([On ev (PInt p)], f) # defs) = (Some TypeError, emit app LogPriorityNonPositive)"
  by (simp add: decorate_on_eval bot_on_def)

theorem on_nonpositive_aborts_witness:
  "(0::int) \<le> 0 \<and>
   load_module app_init
     (([On (PClass \<lparr>cls_module = ''e'', cls_name = ''E''\<rparr>) (PInt 0)], \<lparr>fn_id = 1, fn_name = ''h'', fn_async = True\<rparr>) #
      [([On (PClass \<lparr>cls_module = ''e'', cls_name = ''E''\<rparr>) (PInt 1)], \<lparr>fn_id = 2, fn_name = ''g'', fn_async = True\<rparr>)])
   = (Some TypeError, emit app_init LogPriorityNonPositive)"
  using on_nonpositive_aborts [of 0] by simp

text \<open>C21: a priority that is not an \<open>int\<close> (a \<open>bool\<close> included, whose type is not
  \<open>int\<close>) logs the error and leaves the function undecorated and unregistered.\<close>

theorem on_non_int_priority:
  "\<forall>i. pr \<noteq> PInt i \<Longrightarrow> decorate app [On ev pr] f = (Inr f, emit app LogPriorityType)"
  by (cases pr) (simp_all add: decorate_on_eval bot_on_def)

theorem on_non_int_priority_witness:
  "(\<forall>i. PBool True \<noteq> PInt i) \<and>
   decorate app_init [On (PClass \<lparr>cls_module = ''e'', cls_name = ''E''\<rparr>) (PBool True)]
     \<lparr>fn_id = 1, fn_name = ''h'', fn_async = True\<rparr>
   = (Inr \<lparr>fn_id = 1, fn_name = ''h'', fn_async = True\<rparr>, emit app_init LogPriorityType)"
  using on_non_int_priority [of "PBool True"] by simp

text \<open>C22: a function that is not a coroutine function is not registered: \<open>on\<close>
  logs a warning and returns it unchanged.\<close>

theorem on_not_async:
  "0 < p \<Longrightarrow> \<not> fn_async f \<Longrightarrow>
   decorate app [On ev (PInt p)] f = (Inr f, emit app (LogNotAsync (fn_name f)))"
  by (simp add: decorate_on_pos on_wrapper_def)

theorem on_not_async_witness:
  "(0::int) < 5 \<and> \<not> fn_async \<lparr>fn_id = 1, fn_name = ''h'', fn_async = False\<rparr> \<and>
   decorate app_init [On (PClass \<lparr>cls_module = ''e'', cls_name = ''E''\<rparr>) (PInt 5)]
     \<lparr>fn_id = 1, fn_name = ''h'', fn_async = False\<rparr>
   = (Inr \<lparr>fn_id = 1, fn_name = ''h'', fn_async = False\<rparr>,
      emit app_init (LogNotAsync ''h''))"
  using on_not_async [of 5 "\<lparr>fn_id = 1, fn_name = ''h'', fn_async = False\<rparr>"] by simp

text \<open>C4: \<open>@bot.on(E, p)\<close> with one event class (alone or as a one-element list) on a
  coroutine function inserts one listener for \<open>E\<close> after every entry of priority
  \<open>\<le> p\<close>, and logs the registration with the flag \<open>multi = True\<close>, the flag the list
  branch should carry.\<close>

theorem on_single_event:
  assumes "0 < p" and "fn_async f" and "ev = PClass k \<or> ev = PList [PClass k]"
  shows "fst (decorate app [On ev (PInt p)] f) = Inr f \<and>
         lm_entries (app_lm (snd (decorate app [On ev (PInt p)] f))) =
           insert_entry p (Listener (PClass k) f) (lm_entries (app_lm app)) \<and>
         app_log (snd (decorate app [On ev (PInt p)] f)) =
           app_log app @ [LogRegister True (cls_name k) p (fn_name f)]"
  using assms by (auto simp: decorate_on_pos on_wrapper_def ev_collapse_def)

theorem on_single_event_witness:
  "fst (decorate app_init [On (PClass \<lparr>cls_module = ''e'', cls_name = ''E''\<rparr>) (PInt 3)]
          \<lparr>fn_id = 1, fn_name = ''h'', fn_async = True\<rparr>) = Inr \<lparr>fn_id = 1, fn_name = ''h'', fn_async = True\<rparr> \<and>
   lm_entries (app_lm (snd (decorate app_init [On (PClass \<lparr>cls_module = ''e'', cls_name = ''E''\<rparr>) (PInt 3)]
          \<lparr>fn_id = 1, fn_name = ''h'', fn_async = True\<rparr>))) =
     insert_entry 3 (Listener (PClass \<lparr>cls_module = ''e'', cls_name = ''E''\<rparr>) \<lparr>fn_id = 1, fn_name = ''h'', fn_async = True\<rparr>)
       (lm_entries (app_lm app_init)) \<and>
   app_log (snd (decorate app_init [On (PClass \<lparr>cls_module = ''e'', cls_name = ''E''\<rparr>) (PInt 3)]
          \<lparr>fn_id = 1, fn_name = ''h'', fn_async = True\<rparr>)) =
     app_log app_init @ [LogRegister True ''E'' 3 ''h'']"
  using on_single_event [of 3 "\<lparr>fn_id = 1, fn_name = ''h'', fn_async = True\<rparr>"
      "PClass \<lparr>cls_module = ''e'', cls_name = ''E''\<rparr>" "\<lparr>cls_module = ''e'', cls_name = ''E''\<rparr>" app_init]
  by simp

text \<open>C18: \<open>@bot.on(events, p)\<close> with a tuple of event classes, or a list of them of
  any length but one, inserts one listener per class, in order, all with priority
  \<open>p\<close> and the same handler, and logs them with \<open>multi = False\<close>; an empty list
  registers nothing although a registration is logged and the function returned.\<close>

theorem on_multi_event:
  assumes "0 < p" and "fn_async f"
    and "ev = PTuple (map PClass ks) \<or> (ev = PList (map PClass ks) \<and> length ks \<noteq> 1)"
  shows "fst (decorate app [On ev (PInt p)] f) = Inr f \<and>
         lm_entries (app_lm (snd (decorate app [On ev (PInt p)] f))) =
           insert_all (lm_entries (app_lm app)) (map (\<lambda>k. (p, Listener (PClass k) f)) ks) \<and>
         app_log (snd (decorate app [On ev (PInt p)] f)) =
           app_log app @ [LogRegister False (join_names (map cls_name ks)) p (fn_name f)]"
proof -
  have "ev_collapse ev = ev"
    using assms(3) by (cases ks rule: remdups_adj.cases) (auto simp: ev_collapse_def)
  with assms show ?thesis
    by (auto simp: decorate_on_pos on_wrapper_def foldl_app_join_entries comp_def)
qed

theorem on_multi_event_witness:
  "lm_entries (app_lm (snd (decorate app_init [On (PList []) (PInt 2)]
          \<lparr>fn_id = 1, fn_name = ''h'', fn_async = True\<rparr>))) = [] \<and>
   app_log (snd (decorate app_init [On (PList []) (PInt 2)]
          \<lparr>fn_id = 1, fn_name = ''h'', fn_async = True\<rparr>)) = [LogRegister False [] 2 ''h'']"
  using on_multi_event [of 2 "\<lparr>fn_id = 1, fn_name = ''h'', fn_async = True\<rparr>" "PList []" "[]" app_init]
  by (simp add: app_init_def lm_init_def)

text \<open>C19: an attachment decorator (\<open>command\<close>, \<open>keyword\<close>, \<open>matcher\<close>,
  \<open>param_convert\<close>, \<open>role\<close>, \<open>nlp\<close>) applied to a function that is not a registered
  listener leaves the registry as it was, logs a warning naming the attachment, and
  returns the function unchanged.\<close>

theorem attach_unregistered:
  "\<not> lm_is_listener (app_lm app) f \<Longrightarrow>
   apply_decorator app (DecAttach v) f = (Inr f, emit app (LogNotListener (attach_kind_of v) (fn_name f)))"
  by (simp add: set_wrapper_def lm_attach_unregistered)

theorem attach_unregistered_witness:
  "\<not> lm_is_listener (app_lm app_init) \<lparr>fn_id = 1, fn_name = ''h'', fn_async = True\<rparr> \<and>
   apply_decorator app_init (bot_command [''/ping''] False []) \<lparr>fn_id = 1, fn_name = ''h'', fn_async = True\<rparr>
   = (Inr \<lparr>fn_id = 1, fn_name = ''h'', fn_async = True\<rparr>,
      emit app_init (LogNotListener AttMatcher ''h''))"
proof -
  have h: "\<not> lm_is_listener (app_lm app_init) \<lparr>fn_id = 1, fn_name = ''h'', fn_async = True\<rparr>"
    by (simp add: lm_is_listener_def app_init_def lm_init_def)
  show ?thesis
    using attach_unregistered [OF h, of "AMatcher (CommandMatcher [''/ping''] False [])"] h
    by (simp add: bot_command_def)
qed

text \<open>C20: decorator order. The decorator lists are in source order, top to bottom, and
  are applied bottom to top. Written below \<open>@bot.on(E, p)\<close> (the list
  \<open>[On, Command]\<close>), \<open>@bot.command(cs, w, ign)\<close> is applied first, to a function
  that is not yet a listener: a warning is logged and the listener \<open>on\<close> then
  registers has no matcher. Written above it (\<open>[Command, On]\<close>, so applied after
  it), it attaches its \<open>CommandMatcher\<close> to the new listener.\<close>

theorem command_decorator_order:
  assumes "0 < p" and "fn_async f" and "\<not> lm_is_listener (app_lm app) f"
  shows "lm_entries (app_lm (snd (decorate app [On (PClass k) (PInt p), Command cs w ign] f))) =
           insert_entry p (Listener (PClass k) f) (lm_entries (app_lm app)) \<and>
         lm_entries (app_lm (snd (decorate app [Command cs w ign, On (PClass k) (PInt p)] f))) =
           insert_entry p ((Listener (PClass k) f)\<lparr>l_matcher := Some (CommandMatcher cs w ign)\<rparr>)
             (lm_entries (app_lm app))"
proof
  show "lm_entries (app_lm (snd (decorate app [On (PClass k) (PInt p), Command cs w ign] f))) =
          insert_entry p (Listener (PClass k) f) (lm_entries (app_lm app))"
    using assms
    by (simp add: decorate_def bot_on_def bot_command_def set_wrapper_def lm_set_matcher_def
                  lm_set_attr_unregistered on_wrapper_def ev_collapse_def)
  have "lm_set_matcher f (CommandMatcher cs w ign) (snd (lm_join (app_lm app) (Listener (PClass k) f) p)) =
          (True, (app_lm app)\<lparr>lm_entries := insert_entry p ((Listener (PClass k) f)\<lparr>l_matcher := Some (CommandMatcher cs w ign)\<rparr>)
             (lm_entries (app_lm app))\<rparr>)"
    using assms unfolding lm_set_matcher_def by (simp add: lm_set_attr_fresh Listener_def)
  then show "lm_entries (app_lm (snd (decorate app [Command cs w ign, On (PClass k) (PInt p)] f))) =
           insert_entry p ((Listener (PClass k) f)\<lparr>l_matcher := Some (CommandMatcher cs w ign)\<rparr>)
             (lm_entries (app_lm app))"
    using assms
    by (simp add: decorate_def bot_on_def bot_command_def set_wrapper_def on_wrapper_def
                  ev_collapse_def app_join_def)
qed

theorem command_decorator_order_witness:
  "lm_entries (app_lm (snd (decorate app_init
       [On (PClass \<lparr>cls_module = ''e'', cls_name = ''E''\<rparr>) (PInt 3), Command [''/ping''] False []]
       \<lparr>fn_id = 1, fn_name = ''h'', fn_async = True\<rparr>))) =
     [(3, Listener (PClass \<lparr>cls_module = ''e'', cls_name = ''E''\<rparr>) \<lparr>fn_id = 1, fn_name = ''h'', fn_async = True\<rparr>)] \<and>
   lm_entries (app_lm (snd (decorate app_init
       [Command [''/ping''] False [], On (PClass \<lparr>cls_module = ''e'', cls_name = ''E''\<rparr>) (PInt 3)]
       \<lparr>fn_id = 1, fn_name = ''h'', fn_async = True\<rparr>))) =
     [(3, (Listener (PClass \<lparr>cls_module = ''e'', cls_name = ''E''\<rparr>) \<lparr>fn_id = 1, fn_name = ''h'', fn_async = True\<rparr>)
            \<lparr>l_matcher := Some (CommandMatcher [''/ping''] False [])\<rparr>)]"
proof -
  have h: "\<not> lm_is_listener (app_lm app_init) \<lparr>fn_id = 1, fn_name = ''h'', fn_async = True\<rparr>"
    by (simp add: lm_is_listener_def app_init_def lm_init_def)
  show ?thesis
    using command_decorator_order [of 3 "\<lparr>fn_id = 1, fn_name = ''h'', fn_async = True\<rparr>" app_init
        "\<lparr>cls_module = ''e'', cls_name = ''E''\<rparr>" "[''/ping'']" False "[]"] h
    by (simp add: app_init_def lm_init_def)
qed

lemma lm_inv_decorate: "lm_inv (app_lm app) \<Longrightarrow> lm_inv (app_lm (snd (decorate app ds f)))"
proof -
  assume inv: "lm_inv (app_lm app)"
  obtain vs app1 where ev: "eval_decos app ds = (vs, app1)" by fastforce
  have "app_lm app1 = app_lm app" using lm_eval_decos [of app ds] ev by simp
  with inv have "lm_inv (app_lm app1)" by simp
  then have "lm_inv (app_lm (snd (apply_decorators app1 vs f)))" by (rule lm_inv_apply_decorators)
  with ev show ?thesis by (simp add: decorate_def)
qed

text \<open>C2: whatever a module's decorated definitions are, and wherever its import
  stops, the listener registry stays sorted by priority with every priority positive.\<close>

theorem load_module_inv:
  "lm_inv (app_lm app) \<Longrightarrow> lm_inv (app_lm (snd (load_module app defs)))"
proof (induction app defs rule: load_module.induct)
  case (1 app)
  then show ?case by simp
next
  case (2 app ds f defs)
  then show ?case
    using lm_inv_decorate [OF "2.prems", of ds f]
    by (auto split: prod.splits sum.splits)
qed

theorem load_module_inv_witness:
  "lm_inv (app_lm app_init) \<and>
   lm_inv (app_lm (snd (load_module app_init
     [([On (PClass \<lparr>cls_module = ''e'', cls_name = ''E''\<rparr>) (PInt 3)], \<lparr>fn_id = 1, fn_name = ''h'', fn_async = True\<rparr>)])))"
proof -
  have h: "lm_inv (app_lm app_init)" by (simp add: app_init_def lm_inv_init)
  show ?thesis using load_module_inv [OF h] h by blast
qed

lemma load_module_on_defs:
  "\<forall>(k, p, f) \<in> set regs. 0 < p \<and> fn_async f \<Longrightarrow>
   fst (load_module app (on_defs regs)) = None \<and>
   lm_entries (app_lm (snd (load_module app (on_defs regs)))) =
     insert_all (lm_entries (app_lm app)) (reg_entries regs)"
proof (induction regs arbitrary: app)
  case Nil
  then show ?case by (simp add: on_defs_def reg_entries_def)
next
  case (Cons r regs)
  obtain k p f where r: "r = (k, p, f)" by (cases r) auto
  with Cons.prems have p: "0 < p" and f: "fn_async f" by auto
  obtain app1 where d: "decorate app [On (PClass k) (PInt p)] f = (Inr f, app1)"
    and e: "lm_entries (app_lm app1) = insert_entry p (Listener (PClass k) f) (lm_entries (app_lm app))"
    using on_single_event [OF p f, of "PClass k" k app] by (cases "decorate app [On (PClass k) (PInt p)] f") auto
  from Cons.prems have "\<forall>(k, p, f) \<in> set regs. 0 < p \<and> fn_async f" by simp
  from Cons.IH [OF this, of app1] d e r show ?case
    by (simp add: on_defs_def reg_entries_def)
qed

text \<open>C1: refinement. A module whose handlers are registered one after another with
  \<open>@bot.on(E_i, p_i)\<close> (coroutine functions, positive priorities) loads without
  error, and its registry is the abstract specification's: the registrations stably
  sorted by priority, ties in registration order.\<close>

theorem registration_refines_stable_sort:
  assumes "\<forall>(k, p, f) \<in> set regs. 0 < p \<and> fn_async f"
  shows "fst (load_module app_init (on_defs regs)) = None \<and>
         lm_entries (app_lm (snd (load_module app_init (on_defs regs)))) = sort_key fst (reg_entries regs)"
  using load_module_on_defs [OF assms, of app_init]
  by (simp add: app_init_def lm_init_def insert_all_sort_key)

theorem registration_refines_stable_sort_witness:
  "fst (load_module app_init (on_defs
      [(\<lparr>cls_module = ''e'', cls_name = ''E''\<rparr>, 3, \<lparr>fn_id = 1, fn_name = ''l1'', fn_async = True\<rparr>),
       (\<lparr>cls_module = ''e'', cls_name = ''E''\<rparr>, 1, \<lparr>fn_id = 2, fn_name = ''l2'', fn_async = True\<rparr>),
       (\<lparr>cls_module = ''e'', cls_name = ''E''\<rparr>, 3, \<lparr>fn_id = 3, fn_name = ''l3'', fn_async = True\<rparr>)])) = None \<and>
   map (fn_name \<circ> l_target \<circ> snd) (lm_entries (app_lm (snd (load_module app_init (on_defs
      [(\<lparr>cls_module = ''e'', cls_name = ''E''\<rparr>, 3, \<lparr>fn_id = 1, fn_name = ''l1'', fn_async = True\<rparr>),
       (\<lparr>cls_module = ''e'', cls_name = ''E''\<rparr>, 1, \<lparr>fn_id = 2, fn_name = ''l2'', fn_async = True\<rparr>),
       (\<lparr>cls_module = ''e'', cls_name = ''E''\<rparr>, 3, \<lparr>fn_id = 3, fn_name = ''l3'', fn_async = True\<rparr>)])))))
   = [''l2'', ''l1'', ''l3'']"
  using registration_refines_stable_sort
    [of "[(\<lparr>cls_module = ''e'', cls_name = ''E''\<rparr>, 3, \<lparr>fn_id = 1, fn_name = ''l1'', fn_async = True\<rparr>),
          (\<lparr>cls_module = ''e'', cls_name = ''E''\<rparr>, 1, \<lparr>fn_id = 2, fn_name = ''l2'', fn_async = True\<rparr>),
          (\<lparr>cls_module = ''e'', cls_name = ''E''\<rparr>, 3, \<lparr>fn_id = 3, fn_name = ''l3'', fn_async = True\<rparr>)]"]
  by (simp add: reg_entries_def Listener_def)

text \<open>C38: bounds on registration. One \<open>@bot.on(event, p)\<close> adds at most one registry
  entry per event it names, and exactly that many when the handler is a coroutine
  function, \<open>p\<close> is positive and every named event has a \<open>__name__\<close>.\<close>

theorem on_registry_growth:
  "length (lm_entries (app_lm (snd (on_wrapper app ev p f)))) \<le>
     length (lm_entries (app_lm app)) + length (ev_items ev) \<and>
   (0 < p \<and> fn_async f \<and> (\<forall>e \<in> set (ev_items ev). named_event e) \<longrightarrow>
     length (lm_entries (app_lm (snd (on_wrapper app ev p f)))) =
       length (lm_entries (app_lm app)) + length (ev_items ev))"
  unfolding on_wrapper_def ev_items_def Let_def
  by (auto split: pyval.splits list.splits sum.splits
           simp: length_app_join length_foldl_app_join named_event_def
           dest: py_names_Inl)

theorem on_registry_growth_witness:
  "fn_async \<lparr>fn_id = 1, fn_name = ''h'', fn_async = True\<rparr> \<and> named_event (PClass \<lparr>cls_module = ''e'', cls_name = ''E''\<rparr>) \<and>
   named_event (PClass \<lparr>cls_module = ''e'', cls_name = ''F''\<rparr>) \<and>
   length (lm_entries (app_lm (snd (on_wrapper app_init (PList [PClass \<lparr>cls_module = ''e'', cls_name = ''E''\<rparr>, PClass \<lparr>cls_module = ''e'', cls_name = ''F''\<rparr>]) 2 \<lparr>fn_id = 1, fn_name = ''h'', fn_async = True\<rparr>)))) = 2"
proof -
  have h: "0 < (2::int) \<and> fn_async \<lparr>fn_id = 1, fn_name = ''h'', fn_async = True\<rparr> \<and>
     (\<forall>e \<in> set (ev_items (PList [PClass \<lparr>cls_module = ''e'', cls_name = ''E''\<rparr>, PClass \<lparr>cls_module = ''e'', cls_name = ''F''\<rparr>])). named_event e)"
    by (simp add: ev_items_def ev_collapse_def named_event_def)
  have "length (ev_items (PList [PClass \<lparr>cls_module = ''e'', cls_name = ''E''\<rparr>, PClass \<lparr>cls_module = ''e'', cls_name = ''F''\<rparr>])) = 2" by (simp add: ev_items_def ev_collapse_def)
  then show ?thesis
    using on_registry_growth [of app_init "PList [PClass \<lparr>cls_module = ''e'', cls_name = ''E''\<rparr>, PClass \<lparr>cls_module = ''e'', cls_name = ''F''\<rparr>]" 2 "\<lparr>fn_id = 1, fn_name = ''h'', fn_async = True\<rparr>"] h
    by (simp add: app_init_def lm_init_def named_event_def)
qed

end
