(* ===== verification/Send_Message.thy ===== *)
theory Send_Message
  imports Bot_Application
begin

text \<open>
  \<open>BotApplication.send_msg\<close> (\<open>src/jbot/__init__.py\<close>, lines 48--92). The method
  dispatches on \<open>type(message)\<close>: a \<open>MessageChain\<close> instance is sent as it is, a
  string is wrapped in the adapter's \<open>Plain\<close> element (found by scanning
  \<open>Element.__subclasses__()\<close> for a class whose \<open>str\<close> mentions the adapter's name,
  then its subclasses for one named \<open>Plain\<close>), an element is passed to
  \<open>MessageChain.create\<close>, a list or tuple is spread into \<open>MessageChain.create(*message)\<close>,
  anything else logs a warning. Every exception is logged and re-raised.

  The adapter is a parameter: its name, the class table of the element hierarchy
  (each class with its direct base, in definition order), the constructor of the
  \<open>Plain\<close> element, and the outcome of \<open>send_message\<close>. The lemmas characterise
  when a message reaches the adapter at all: since \<open>MessageChain.create\<close> takes a
  single iterable and returns the class, only a one-item list or tuple whose item is
  itself iterable ever gets sent; the call forms of the method's own docstring never do.
\<close>

section \<open>The adapter interface\<close>

record adapter_env =
  ad_name :: string
  ad_classes :: "(pyclass \<times> pyclass) list"
  ad_plain :: "pyclass \<Rightarrow> string \<Rightarrow> element"
  ad_send :: "pyval \<Rightarrow> pyval \<Rightarrow> py_exc option"

definition element_cls :: pyclass where
  "element_cls = \<lparr>cls_module = ''JustBot.apis.element'', cls_name = ''Element''\<rparr>"

definition message_chain_cls :: pyclass where
  "message_chain_cls = \<lparr>cls_module = ''JustBot.apis.message_chain'', cls_name = ''MessageChain''\<rparr>"

definition direct_subclasses :: "adapter_env \<Rightarrow> pyclass \<Rightarrow> pyclass list" where
  "direct_subclasses ad c = map fst (filter (\<lambda>(k, b). b = c) (ad_classes ad))"

text \<open>\<open>[[k for k in i.__subclasses__() if k.__name__ == 'Plain'] for i in elements
  if self.adapter.name.lower() in str(i).lower()][0][0]\<close>\<close>

definition find_plain :: "adapter_env \<Rightarrow> pyclass py_result" where
  "find_plain ad =
     (case map (\<lambda>i. filter (\<lambda>k. cls_name k = ''Plain'') (direct_subclasses ad i))
               (filter (\<lambda>i. py_contains (py_lower (py_class_str i)) (py_lower (ad_name ad)))
                  (direct_subclasses ad element_cls)) of
        [] \<Rightarrow> Inl IndexError
      | c # _ \<Rightarrow> (case c of [] \<Rightarrow> Inl IndexError | k # _ \<Rightarrow> Inr k))"

text \<open>\<open>MessageChain.create(*args)\<close>: \<open>create\<close> takes exactly one argument.\<close>

definition mc_create_call :: "mc_class \<Rightarrow> pyval list \<Rightarrow> mc_class \<times> pyval py_result" where
  "mc_create_call c args = (case args of [a] \<Rightarrow> mc_create c a | _ \<Rightarrow> (c, Inl TypeError))"

text \<open>\<open>await send(chain)\<close>, the argument evaluated first (its class-state effect kept
  even when it raises); a successful \<open>send_message\<close> is recorded with the chain
  state it was handed.\<close>

definition send_chain ::
  "adapter_env \<Rightarrow> pyval \<Rightarrow> bot_app \<Rightarrow> mc_class \<times> pyval py_result \<Rightarrow> unit py_result \<times> bot_app" where
  "send_chain ad target app r =
     (let app1 = app\<lparr>app_mc := fst r\<rparr> in
      case snd r of
        Inl e \<Rightarrow> (Inl e, app1)
      | Inr ch \<Rightarrow>
          (case ad_send ad target ch of
             None \<Rightarrow> (Inr (), app1\<lparr>app_sent := app_sent app1 @ [(target, app_mc app1)]\<rparr>)
           | Some e \<Rightarrow> (Inl e, app1)))"

fun py_items :: "pyval \<Rightarrow> pyval list" where
  "py_items (PList xs) = xs"
| "py_items (PTuple xs) = xs"
| "py_items _ = []"

definition send_msg_try :: "adapter_env \<Rightarrow> bot_app \<Rightarrow> pyval \<Rightarrow> pyval \<Rightarrow> unit py_result \<times> bot_app" where
  "send_msg_try ad app target message =
     (let t = py_type message;
          elements = direct_subclasses ad element_cls;
          is_element = (case t of TInstance k \<Rightarrow> k \<in> set elements \<or> k = element_cls | _ \<Rightarrow> False);
          is_list = (t = TList \<or> t = TTuple)
      in if t = TInstance message_chain_cls then send_chain ad target app (app_mc app, Inr message)
         else if t = TStr then
           (case find_plain ad of
              Inl e \<Rightarrow> (Inl e, app)
            | Inr k \<Rightarrow>
                (case message of
                   PStr s \<Rightarrow> send_chain ad target app (mc_create (app_mc app) (PElem (ad_plain ad k s)))
                 | _ \<Rightarrow> (Inl TypeError, app)))
         else if is_element \<or> is_list then
           (if is_element then send_chain ad target app (mc_create (app_mc app) message)
            else if is_list then send_chain ad target app (mc_create_call (app_mc app) (py_items message))
            else (Inr (), emit app LogSendTypeError))
         else (Inr (), emit app LogSendTypeError))"

definition bot_send_msg :: "adapter_env \<Rightarrow> bot_app \<Rightarrow> pyval \<Rightarrow> pyval \<Rightarrow> unit py_result \<times> bot_app" where
  "bot_send_msg ad app target message =
     (case send_msg_try ad app target message of
        (Inl e, app1) \<Rightarrow> (Inl e, emit app1 (LogSendFailed e))
      | (Inr u, app1) \<Rightarrow> (Inr u, app1))"

text \<open>A sample adapter laid out as the \<open>str\<close> branch expects: an adapter base class
  directly under \<open>Element\<close> whose module names the adapter, and the concrete
  \<open>Plain\<close> class under it.\<close>

definition sample_base :: pyclass where
  "sample_base = \<lparr>cls_module = ''JustBot.adapters.mirai.element'', cls_name = ''MiraiElement''\<rparr>"

definition sample_plain :: pyclass where
  "sample_plain = \<lparr>cls_module = ''JustBot.adapters.mirai.element'', cls_name = ''Plain''\<rparr>"

definition sample_adapter :: adapter_env where
  "sample_adapter =
     \<lparr>ad_name = ''Mirai'', ad_classes = [(sample_base, element_cls), (sample_plain, sample_base)],
      ad_plain = (\<lambda>k s. \<lparr>el_cls = k, el_code = s, el_display = s\<rparr>), ad_send = (\<lambda>_ _. None)\<rparr>"

section \<open>Evaluation lemmas\<close>

lemma send_chain_Inl [simp]:
  "send_chain ad target app (c, Inl e) = (Inl e, app\<lparr>app_mc := c\<rparr>)"
  by (simp add: send_chain_def)

lemma send_chain_Inr:
  "send_chain ad target app (c, Inr ch) =
     (case ad_send ad target ch of
        None \<Rightarrow> (Inr (), app\<lparr>app_mc := c, app_sent := app_sent app @ [(target, c)]\<rparr>)
      | Some e \<Rightarrow> (Inl e, app\<lparr>app_mc := c\<rparr>))"
  by (simp add: send_chain_def split: option.splits)

lemma send_chain_sent:
  "app_sent (snd (send_chain ad target app r)) \<noteq> app_sent app \<Longrightarrow> \<exists>ch. snd r = Inr ch"
  by (cases r; cases "snd r") (auto simp: send_chain_def split: option.splits)

lemma bot_send_msg_sent [simp]:
  "app_sent (snd (bot_send_msg ad app target m)) = app_sent (snd (send_msg_try ad app target m))"
  by (simp add: bot_send_msg_def split: prod.splits sum.splits)

lemma mc_create_elem [simp]:
  "mc_create c (PElem e) = (c\<lparr>mc_elements := Some (PElem e)\<rparr>, Inl TypeError)"
  by (simp add: mc_create_not_iterable py_is_iterable_def)

lemma mc_create_call_Inr:
  "snd (mc_create_call c args) = Inr ch \<Longrightarrow> \<exists>x. args = [x] \<and> py_is_iterable x"
proof -
  assume ok: "snd (mc_create_call c args) = Inr ch"
  then obtain x where x: "args = [x]"
    by (auto simp: mc_create_call_def split: list.splits)
  have "py_is_iterable x"
  proof (rule ccontr)
    assume "\<not> py_is_iterable x"
    with ok x show False by (simp add: mc_create_call_def mc_create_not_iterable)
  qed
  with x show ?thesis by blast
qed

lemma send_msg_try_sent:
  assumes "py_type m \<noteq> TInstance message_chain_cls"
    and "app_sent (snd (send_msg_try ad app target m)) \<noteq> app_sent app"
  shows "\<exists>x. (m = PList [x] \<or> m = PTuple [x]) \<and> py_is_iterable x"
proof (cases m)
  case (PList xs)
  with assms obtain ch where "snd (mc_create_call (app_mc app) xs) = Inr ch"
    by (auto simp: send_msg_try_def Let_def dest!: send_chain_sent)
  with PList show ?thesis by (auto dest: mc_create_call_Inr)
next
  case (PTuple xs)
  with assms obtain ch where "snd (mc_create_call (app_mc app) xs) = Inr ch"
    by (auto simp: send_msg_try_def Let_def dest!: send_chain_sent)
  with PTuple show ?thesis by (auto dest: mc_create_call_Inr)
qed (use assms in \<open>auto simp: send_msg_try_def Let_def split: sum.splits if_splits
                        dest!: send_chain_sent\<close>)

section \<open>Properties\<close>

text \<open>C12: delivery. Whenever \<open>send_msg\<close> hands anything to the adapter, the message
  was a list or tuple of exactly one item and that item is itself iterable: a string,
  an element, a list of elements or a built chain never reaches the adapter (a
  \<open>MessageChain\<close> instance, the only other way in, cannot exist since
  \<open>MessageChain.__new__\<close> returns the class).\<close>

theorem send_msg_delivery:
  assumes "py_type message \<noteq> TInstance message_chain_cls"
    and "app_sent (snd (bot_send_msg ad app target message)) \<noteq> app_sent app"
  shows "\<exists>x. (message = PList [x] \<or> message = PTuple [x]) \<and> py_is_iterable x"
  using send_msg_try_sent [OF assms(1)] assms(2) by simp

theorem send_msg_delivery_witness:
  "py_type (PList [PList [PElem \<lparr>el_cls = sample_plain, el_code = ''hi'', el_display = ''hi''\<rparr>]]) \<noteq> TInstance message_chain_cls \<and>
   app_sent (snd (bot_send_msg sample_adapter app_init PNone (PList [PList [PElem \<lparr>el_cls = sample_plain, el_code = ''hi'', el_display = ''hi''\<rparr>]]))) \<noteq> app_sent app_init \<and>
   (\<exists>x. ((PList [PList [PElem \<lparr>el_cls = sample_plain, el_code = ''hi'', el_display = ''hi''\<rparr>]]) = PList [x] \<or> (PList [PList [PElem \<lparr>el_cls = sample_plain, el_code = ''hi'', el_display = ''hi''\<rparr>]]) = PTuple [x]) \<and> py_is_iterable x)"
proof -
  have h1: "py_type (PList [PList [PElem \<lparr>el_cls = sample_plain, el_code = ''hi'', el_display = ''hi''\<rparr>]]) \<noteq> TInstance message_chain_cls" by simp
  have h2: "app_sent (snd (bot_send_msg sample_adapter app_init PNone (PList [PList [PElem \<lparr>el_cls = sample_plain, el_code = ''hi'', el_display = ''hi''\<rparr>]]))) \<noteq> app_sent app_init"
    by (simp add: bot_send_msg_def send_msg_try_def mc_create_call_def send_chain_Inr
                  sample_adapter_def app_init_def message_chain_cls_def mc_create_def mc_new_def)
  show ?thesis using send_msg_delivery [OF h1 h2] h1 h2 by blast
qed

text \<open>C16: the form that works. For a one-item list holding a list of elements,
  \<open>send_msg\<close> builds the chain and, when the adapter accepts it, records one delivery
  whose chain renders the concatenation of the elements' codes.\<close>

theorem send_msg_nested_list:
  assumes "ad_send ad target PMCClass = None"
  shows "fst (bot_send_msg ad app target (PList [PList (map PElem es)])) = Inr () \<and>
         app_sent (snd (bot_send_msg ad app target (PList [PList (map PElem es)]))) =
           app_sent app @ [(target, fst (mc_create (app_mc app) (PList (map PElem es))))] \<and>
         mc_to_code (fst (mc_create (app_mc app) (PList (map PElem es)))) = Inr (concat (map el_code es))"
  using assms
  by (simp add: bot_send_msg_def send_msg_try_def mc_create_call_def send_chain_Inr mc_to_code_def)

theorem send_msg_nested_list_witness:
  "ad_send sample_adapter PNone PMCClass = None \<and>
   fst (bot_send_msg sample_adapter app_init PNone (PList [PList (map PElem [\<lparr>el_cls = sample_plain, el_code = ''hi'', el_display = ''hi''\<rparr>])])) = Inr () \<and>
   mc_to_code (fst (mc_create mc_class_init (PList (map PElem [\<lparr>el_cls = sample_plain, el_code = ''hi'', el_display = ''hi''\<rparr>])))) = Inr ''hi''"
proof -
  have h: "ad_send sample_adapter PNone PMCClass = None" by (simp add: sample_adapter_def)
  show ?thesis
    using send_msg_nested_list [OF h, of app_init "[\<lparr>el_cls = sample_plain, el_code = ''hi'', el_display = ''hi''\<rparr>]"] h
    by (simp add: app_init_def)
qed

text \<open>C13: the docstring's first form, \<open>send_msg(friend, MessageChain.create(...))\<close>:
  the value \<open>create\<close> returns is the class, of type \<open>type\<close>, which no branch
  accepts; \<open>send_msg\<close> logs the "wrong type" warning and returns normally without
  sending anything.\<close>

theorem send_msg_chain_dropped:
  "bot_send_msg ad app target PMCClass = (Inr (), emit app LogSendTypeError)"
  by (simp add: bot_send_msg_def send_msg_try_def message_chain_cls_def)

text \<open>C14: a plain string: even when the adapter's \<open>Plain\<close> class is found, the
  element built from the string is passed to \<open>MessageChain.create\<close> as the whole
  argument, iterating it raises \<open>TypeError\<close>, which is logged and re-raised; the class
  attribute \<open>elements\<close> has already been overwritten with that element.\<close>

theorem send_msg_str_raises:
  "find_plain ad = Inr k \<Longrightarrow>
   bot_send_msg ad app target (PStr s) =
     (Inl TypeError,
      emit (app\<lparr>app_mc := (app_mc app)\<lparr>mc_elements := Some (PElem (ad_plain ad k s))\<rparr>\<rparr>)
        (LogSendFailed TypeError))"
  by (simp add: bot_send_msg_def send_msg_try_def message_chain_cls_def)

theorem send_msg_str_raises_witness:
  "find_plain sample_adapter = Inr sample_plain \<and>
   fst (bot_send_msg sample_adapter app_init PNone (PStr ''hello'')) = Inl TypeError"
proof -
  have lo: "py_lower (py_class_str sample_base) = ''<class '' @ [CHR 0x27] @ ''justbot.adapters.mirai.element.miraielement'' @ [CHR 0x27, CHR ''>'']"
    by (simp add: sample_base_def py_class_str_def) code_simp
  have ln: "py_lower ''Mirai'' = ''mirai''" by code_simp
  have c: "py_contains (py_lower (py_class_str sample_base)) (py_lower ''Mirai'')"
    unfolding lo ln by (simp del: py_contains_iff py_startswith_iff)
  have h: "find_plain sample_adapter = Inr sample_plain"
    using c by (simp add: find_plain_def sample_adapter_def direct_subclasses_def sample_plain_def
                  sample_base_def element_cls_def)
  show ?thesis using send_msg_str_raises [OF h, of app_init PNone "''hello''"] h by simp
qed

text \<open>C15: a list of elements (the docstring's third form), of any length: it is
  spread into \<open>create(*message)\<close>, which raises \<open>TypeError\<close> for two or more
  arguments, for none, and for one element (not iterable); nothing is sent and the
  error is logged and re-raised.\<close>

theorem send_msg_element_list_raises:
  "fst (bot_send_msg ad app target (PList (map PElem es))) = Inl TypeError \<and>
   app_sent (snd (bot_send_msg ad app target (PList (map PElem es)))) = app_sent app \<and>
   last (app_log (snd (bot_send_msg ad app target (PList (map PElem es))))) = LogSendFailed TypeError"
  by (cases es rule: remdups_adj.cases)
     (simp_all add: bot_send_msg_def send_msg_try_def message_chain_cls_def mc_create_call_def)

text \<open>C17: a failure of the adapter's \<open>send_message\<close> is logged and re-raised to the
  caller of \<open>send_msg\<close>, with nothing recorded as sent.\<close>

theorem send_msg_adapter_failure:
  "ad_send ad target PMCClass = Some e \<Longrightarrow>
   bot_send_msg ad app target (PList [PList (map PElem es)]) =
     (Inl e, emit (app\<lparr>app_mc := fst (mc_create (app_mc app) (PList (map PElem es)))\<rparr>) (LogSendFailed e))"
  by (simp add: bot_send_msg_def send_msg_try_def mc_create_call_def send_chain_Inr)


theorem send_msg_adapter_failure_witness:
  "ad_send (sample_adapter\<lparr>ad_send := (\<lambda>_ _. Some ValueError)\<rparr>) PNone PMCClass = Some ValueError \<and>
   fst (bot_send_msg (sample_adapter\<lparr>ad_send := (\<lambda>_ _. Some ValueError)\<rparr>) app_init PNone
          (PList [PList (map PElem [])])) = Inl ValueError"
proof -
  have h: "ad_send (sample_adapter\<lparr>ad_send := (\<lambda>_ _. Some ValueError)\<rparr>) PNone PMCClass = Some ValueError"
    by simp
  show ?thesis using send_msg_adapter_failure [OF h, of app_init "[]"] h by simp
qed
end
