(* ===== verification/Dispatch.thy ===== *)
theory Dispatch
  imports Bot_Application
begin

text \<open>
  The event dispatch pipeline (outside \<open>src/\<close>; modelled from spec section 4.3). For an
  inbound event, the listeners of its type are taken in registry order (ascending
  priority, registration order among ties) and each is filtered in turn: a role filter
  that the sender fails either runs the fallback handler or skips the listener; a
  matcher that does not match skips it; an NLP binding whose confidence is below its
  threshold, or whose keywords are absent, skips it; otherwise the match's argument text
  is converted as declared and the handler is invoked. Every listener is considered
  (broadcast), and a handler that raises is logged without stopping the pass.

  The NLP engine and the handlers' outcomes are parameters: the engine gives a
  confidence and slot values for a binding and a text, \<open>raises\<close> says which handler
  invocations raise.
\<close>

section \<open>Events and invocations\<close>

record event =
  ev_type :: pyval
  ev_chain :: "element list"
  ev_role :: role

datatype handler_args =
    ArgsNone
  | ArgsStr string
  | ArgsList "string list"
  | ArgsDict "(string \<times> string) list"

datatype invocation =
    Invoke func handler_args
  | Fallback func

type_synonym nlp_engine = "nlp_attach \<Rightarrow> string \<Rightarrow> rat \<times> (string \<times> string) list"

section \<open>One listener\<close>

text \<open>\<open>str.split()\<close>: maximal runs of non-space characters.\<close>

fun split_words :: "string \<Rightarrow> string \<Rightarrow> string list" where
  "split_words cur [] = (if cur = [] then [] else [rev cur])"
| "split_words cur (c # s) =
     (if is_space c then (if cur = [] then split_words [] s else rev cur # split_words [] s)
      else split_words (c # cur) s)"

definition py_split :: "string \<Rightarrow> string list" where
  "py_split s = split_words [] s"

definition convert_params ::
  "conv_ty option \<Rightarrow> (string \<times> string) list option \<Rightarrow> string \<Rightarrow> handler_args option" where
  "convert_params t slots s =
     (case t of
        None \<Rightarrow> Some ArgsNone
      | Some ConvNone \<Rightarrow> Some ArgsNone
      | Some ConvStr \<Rightarrow> Some (ArgsStr s)
      | Some ConvList \<Rightarrow> Some (ArgsList (py_split s))
      | Some ConvDict \<Rightarrow> (case slots of None \<Rightarrow> None | Some kv \<Rightarrow> Some (ArgsDict kv)))"

definition nlp_check ::
  "nlp_engine \<Rightarrow> nlp_attach option \<Rightarrow> string \<Rightarrow> (string \<times> string) list option option" where
  "nlp_check eng n text =
     (case n of
        None \<Rightarrow> Some None
      | Some b \<Rightarrow>
          (let (c, slots) = eng b text in
           if nlp_c b \<le> c \<and> (\<exists>k \<in> set (nlp_keywords b). py_contains text k)
           then Some (Some slots) else None))"

definition dispatch_one :: "nlp_engine \<Rightarrow> event \<Rightarrow> listener \<Rightarrow> invocation option" where
  "dispatch_one eng ev l =
     (let role_ok = (case l_role l of None \<Rightarrow> True | Some ra \<Rightarrow> ev_role ev \<in> set (ra_roles ra))
      in if \<not> role_ok then
           (case l_role l of Some ra \<Rightarrow> map_option Fallback (ra_todo ra) | None \<Rightarrow> None)
         else
           (let hit = (case l_matcher l of
                         None \<Rightarrow> Some (chain_text [] (ev_chain ev))
                       | Some m \<Rightarrow> map_option mr_args (matches m (ev_chain ev)))
            in case hit of
                 None \<Rightarrow> None
               | Some text \<Rightarrow>
                   (case nlp_check eng (l_nlp l) text of
                      None \<Rightarrow> None
                    | Some slots \<Rightarrow>
                        map_option (Invoke (l_target l)) (convert_params (l_param_convert l) slots text))))"

section \<open>A dispatch pass\<close>

fun inv_handler :: "invocation \<Rightarrow> func" where
  "inv_handler (Invoke f _) = f"
| "inv_handler (Fallback f) = f"

text \<open>The pass returns the invocations in order and the handlers whose invocation
  raised (logged, the pass going on).\<close>

fun dispatch_run ::
  "nlp_engine \<Rightarrow> (invocation \<Rightarrow> bool) \<Rightarrow> event \<Rightarrow> listener list \<Rightarrow> invocation list \<times> invocation list" where
  "dispatch_run eng raises ev [] = ([], [])"
| "dispatch_run eng raises ev (l # ls) =
     (let (invs, fails) = dispatch_run eng raises ev ls in
      case dispatch_one eng ev l of
        None \<Rightarrow> (invs, fails)
      | Some i \<Rightarrow> (i # invs, if raises i then i # fails else fails))"

definition dispatch ::
  "nlp_engine \<Rightarrow> (invocation \<Rightarrow> bool) \<Rightarrow> listener_manager \<Rightarrow> event \<Rightarrow> invocation list \<times> invocation list" where
  "dispatch eng raises lm ev = dispatch_run eng raises ev (lm_listeners lm (ev_type ev))"

section \<open>Lemmas\<close>

lemma dispatch_run_invocations:
  "fst (dispatch_run eng raises ev ls) = List.map_filter (dispatch_one eng ev) ls"
  by (induction ls) (auto simp: map_filter_simps split: prod.splits option.splits)

lemma dispatch_run_failures:
  "snd (dispatch_run eng raises ev ls) = filter raises (fst (dispatch_run eng raises ev ls))"
  by (induction ls) (auto split: prod.splits option.splits)

lemma dispatch_single:
  "lm_entries lm = [(p, l)] \<Longrightarrow>
   fst (dispatch eng raises lm ev) =
     (if l_event l = ev_type ev then (case dispatch_one eng ev l of None \<Rightarrow> [] | Some i \<Rightarrow> [i]) else [])"
  by (simp add: dispatch_def lm_listeners_def split: option.splits prod.splits)

lemma dispatch_one_plain:
  "l_role l = None \<Longrightarrow> l_matcher l = None \<Longrightarrow> l_nlp l = None \<Longrightarrow> l_param_convert l = None \<Longrightarrow>
   dispatch_one eng ev l = Some (Invoke (l_target l) ArgsNone)"
  by (simp add: dispatch_one_def nlp_check_def convert_params_def)

end
