(* ===== verification/Event_Loop.thy ===== *)
theory Event_Loop
  imports Dispatch
begin

text \<open>
  The reception loop an adapter's \<open>start_listen\<close> runs (outside \<open>src/\<close>; modelled from
  spec sections 2 and 5): events arrive one by one from the gateway, each is dispatched
  through the listener manager as it arrives, and the loop ends when the connection
  closes. The loop reads the application's listener manager (\<open>self.listener_manager\<close>,
  created in \<open>BotApplication.__init__\<close>). \<open>recv i\<close> is the \<open>i\<close>-th inbound event, or \<open>None\<close> once the connection has
  closed; the registry is fixed while the loop runs, as registration finishes at
  start-up. The loop is a \<^theory_text>\<open>partial_function (option)\<close>: on a connection that
  never closes it does not return, which is the value \<open>None\<close>.
\<close>

section \<open>The loop\<close>

type_synonym pass = "invocation list \<times> invocation list"

partial_function (option) listen_loop ::
  "nlp_engine \<Rightarrow> (invocation \<Rightarrow> bool) \<Rightarrow> bot_app \<Rightarrow> (nat \<Rightarrow> event option) \<Rightarrow> nat \<Rightarrow>
   pass list \<Rightarrow> pass list option" where
  "listen_loop eng raises app recv i acc =
     (case recv i of
        None \<Rightarrow> Some acc
      | Some ev \<Rightarrow> listen_loop eng raises app recv (Suc i) (acc @ [dispatch eng raises (app_lm app) ev]))"

section \<open>Lemmas\<close>

lemma listen_loop_returns_closed:
  assumes ret: "listen_loop eng raises app recv i acc = Some r"
  shows "\<exists>n \<ge> i. recv n = None"
proof (rule listen_loop.raw_induct
    [where P = "\<lambda>eng raises app recv i acc r. \<exists>n \<ge> i. recv n = None", OF _ ret])
  fix f eng raises app recv i acc r
  assume IH: "\<And>eng raises app recv i acc r. f eng raises app recv i acc = Some r \<Longrightarrow> \<exists>n \<ge> i. recv n = None"
    and eq: "(case recv i of
        None \<Rightarrow> Some acc
      | Some ev \<Rightarrow> f eng raises app recv (Suc i) (acc @ [dispatch eng raises (app_lm app) ev])) = Some r"
  show "\<exists>n \<ge> i. recv n = None"
  proof (cases "recv i")
    case None
    then show ?thesis by auto
  next
    case (Some ev)
    with eq have "f eng raises app recv (Suc i) (acc @ [dispatch eng raises (app_lm app) ev]) = Some r" by simp
    then obtain n where "Suc i \<le> n" and "recv n = None" using IH by blast
    then show ?thesis by (intro exI [of _ n]) simp
  qed
qed

lemma listen_loop_terminates:
  "recv n = None \<Longrightarrow> i \<le> n \<Longrightarrow> \<exists>r. listen_loop eng raises app recv i acc = Some r"
proof (induction "n - i" arbitrary: i acc)
  case 0
  then show ?case by (simp add: listen_loop.simps)
next
  case (Suc k)
  show ?case
  proof (cases "recv i")
    case None
    then show ?thesis by (simp add: listen_loop.simps)
  next
    case (Some ev)
    with Suc.prems have "Suc i \<le> n" by (cases "i = n") auto
    with Suc have "\<exists>r. listen_loop eng raises app recv (Suc i) (acc @ [dispatch eng raises (app_lm app) ev]) = Some r"
      by simp
    with Some show ?thesis by (simp add: listen_loop.simps)
  qed
qed

text \<open>C39: termination. The loop returns exactly when the connection closes at some
  point from \<open>i\<close> on; on a connection that stays open it never returns.\<close>

theorem listen_loop_termination:
  "(\<exists>r. listen_loop eng raises app recv i acc = Some r) \<longleftrightarrow> (\<exists>n \<ge> i. recv n = None)"
  using listen_loop_returns_closed listen_loop_terminates by blast

theorem listen_loop_termination_witness:
  "\<exists>r. listen_loop (\<lambda>_ _. (0, [])) (\<lambda>_. False) app_init (\<lambda>j. if j < (2::nat) then Some \<lparr>ev_type = PNone, ev_chain = [], ev_role = RoleMember\<rparr> else None) 0 [] = Some r"
proof -
  have "\<exists>n \<ge> 0. (\<lambda>j. if j < (2::nat) then Some \<lparr>ev_type = PNone, ev_chain = [], ev_role = RoleMember\<rparr> else None) n = None" by (intro exI [of _ 2]) simp
  then show ?thesis
    using listen_loop_termination [of "\<lambda>_ _. (0, [])" "\<lambda>_. False" app_init "(\<lambda>j. if j < (2::nat) then Some \<lparr>ev_type = PNone, ev_chain = [], ev_role = RoleMember\<rparr> else None)" 0 "[]"]
    by blast
qed

text \<open>C40: liveness and order. When the connection closes at \<open>n\<close>, every event
  received from \<open>i\<close> on is dispatched exactly once, in arrival order, each pass
  complete (all its listeners, failures isolated) before the next event is taken.\<close>

theorem listen_loop_dispatches_all:
  "recv n = None \<Longrightarrow> i \<le> n \<Longrightarrow> \<forall>j. i \<le> j \<and> j < n \<longrightarrow> recv j \<noteq> None \<Longrightarrow>
   listen_loop eng raises app recv i acc =
     Some (acc @ map (dispatch eng raises (app_lm app)) (List.map_filter recv [i..<n]))"
proof (induction "n - i" arbitrary: i acc)
  case 0
  then have "i = n" by simp
  with 0 show ?case by (simp add: listen_loop.simps)
next
  case (Suc k)
  then have lt: "i < n" by simp
  then obtain ev where ev: "recv i = Some ev" using Suc.prems(3) by fastforce
  have "[i..<n] = i # [Suc i..<n]" using lt by (simp add: upt_conv_Cons)
  with Suc ev lt show ?case by (simp add: listen_loop.simps map_filter_simps)
qed

theorem listen_loop_dispatches_all_witness:
  "listen_loop (\<lambda>_ _. (0, [])) (\<lambda>_. False) app_init (\<lambda>j. if j < (2::nat) then Some \<lparr>ev_type = PNone, ev_chain = [], ev_role = RoleMember\<rparr> else None) 0 [] =
     Some [dispatch (\<lambda>_ _. (0, [])) (\<lambda>_. False) (app_lm app_init) \<lparr>ev_type = PNone, ev_chain = [], ev_role = RoleMember\<rparr>,
           dispatch (\<lambda>_ _. (0, [])) (\<lambda>_. False) (app_lm app_init) \<lparr>ev_type = PNone, ev_chain = [], ev_role = RoleMember\<rparr>]"
  using listen_loop_dispatches_all [of "(\<lambda>j. if j < (2::nat) then Some \<lparr>ev_type = PNone, ev_chain = [], ev_role = RoleMember\<rparr> else None)" 2 0 "\<lambda>_ _. (0, [])" "\<lambda>_. False" app_init "[]"]
  by (simp add: upt_rec map_filter_simps)

end
