(* ===== verification/Bootstrap.thy ===== *)
theory Bootstrap
  imports Listener_Manager
begin

text \<open>
  The construction of \<open>BotApplication\<close> (\<open>src/jbot/__init__.py\<close>, lines 26--46 and
  94--96). \<open>__init__\<close> stores the adapter, runs the adapter's \<open>nick_name\<close> through
  \<open>coroutine\<close> (\<open>asyncio.run\<close>, which accepts only a coroutine and raises
  \<open>ValueError\<close> otherwise), creates its \<open>ListenerManager\<close>, copies the adapter's
  \<open>utils\<close> and \<open>message_handler\<close>, publishes its attributes into the process-wide
  \<open>CONFIG\<close> (\<open>set_config\<close>), creates its logger and finally runs \<open>adapter.check()\<close>.
  The instance dictionary and \<open>CONFIG\<close> are association lists in insertion order; the
  adapter is a record of what \<open>__init__\<close> and \<open>start_running\<close> (lines 45--46, which
  runs the adapter's \<open>start_listen()\<close> through \<open>coroutine\<close>) read from it. The
  logger is an attribute named after \<open>VERSION\<close>; the messages it logs are not
  modelled.
\<close>

section \<open>Values\<close>

datatype awaitable = Coro pyval | NotCoro pyval

definition py_coroutine :: "awaitable \<Rightarrow> pyval py_result" where
  "py_coroutine a = (case a of Coro v \<Rightarrow> Inr v | NotCoro _ \<Rightarrow> Inl ValueError)"

record adapter_obj =
  ao_nick_name :: awaitable
  ao_utils :: "pyval option"
  ao_message_handler :: "pyval option"
  ao_check :: awaitable
  ao_start_listen :: awaitable

datatype attr =
    AAdapter
  | ANick pyval
  | AManager listener_manager
  | AUtils pyval
  | AHandler pyval
  | AApplication
  | ALogger string

type_synonym attrs = "(string \<times> attr) list"

text \<open>\<open>VERSION\<close> (line 12), which names the application's logger.\<close>

definition VERSION :: string where
  "VERSION = ''2.2.0''"

text \<open>\<open>obj.__setattr__(k, v)\<close>: overwrite in place, or add at the end.\<close>

definition set_attr :: "string \<Rightarrow> attr \<Rightarrow> attrs \<Rightarrow> attrs" where
  "set_attr k v d = (if k \<in> fst ` set d then map (\<lambda>(k', v'). (k', if k' = k then v else v')) d else d @ [(k, v)])"

definition set_config :: "attrs \<Rightarrow> attrs \<Rightarrow> attrs" where
  "set_config self cfg = set_attr ''application'' AApplication (foldl (\<lambda>c (k, v). set_attr k v c) cfg self)"

text \<open>The result: the final \<open>CONFIG\<close>, and the instance dictionary or the exception
  that ended the constructor.\<close>

definition bot_application_init :: "adapter_obj \<Rightarrow> attrs \<Rightarrow> attrs \<times> attrs py_result" where
  "bot_application_init ad cfg =
     (case py_coroutine (ao_nick_name ad) of
        Inl e \<Rightarrow> (cfg, Inl e)
      | Inr nick \<Rightarrow>
          (case ao_utils ad of
             None \<Rightarrow> (cfg, Inl AttributeError)
           | Some u \<Rightarrow>
               (case ao_message_handler ad of
                  None \<Rightarrow> (cfg, Inl AttributeError)
                | Some h \<Rightarrow>
                    (let self = [(''adapter'', AAdapter), (''nickname'', ANick nick),
                                 (''listener_manager'', AManager lm_init), (''adapter_utils'', AUtils u),
                                 (''message_handler'', AHandler h)];
                         cfg' = set_config self cfg
                     in case py_coroutine (ao_check ad) of
                          Inl e \<Rightarrow> (cfg', Inl e)
                        | Inr _ \<Rightarrow> (cfg', Inr (set_attr ''logger'' (ALogger (''Application/'' @ VERSION)) self))))))"

text \<open>\<open>start_running\<close>: run the adapter's \<open>start_listen()\<close> coroutine to completion.\<close>

definition bot_start_running :: "adapter_obj \<Rightarrow> pyval py_result" where
  "bot_start_running ad = py_coroutine (ao_start_listen ad)"

section \<open>Lemmas\<close>

lemma map_of_overwrite:
  "map_of (map (\<lambda>(k', v'). (k', if k' = k then v else v')) d) x =
     (if x = k \<and> k \<in> fst ` set d then Some v else map_of d x)"
proof (induction d)
  case Nil
  then show ?case by simp
next
  case (Cons p d)
  obtain a b where p: "p = (a, b)" by fastforce
  show ?case
  proof (cases "x = a")
    case True
    with p show ?thesis by auto
  next
    case False
    with p Cons.IH show ?thesis by auto
  qed
qed

lemma map_of_set_attr [simp]: "map_of (set_attr k v d) = (map_of d)(k \<mapsto> v)"
proof (cases "k \<in> fst ` set d")
  case True
  then show ?thesis by (auto simp: set_attr_def fun_eq_iff map_of_overwrite)
next
  case False
  then have "map_of d k = None" by (simp add: map_of_eq_None_iff)
  with False show ?thesis by (auto simp: set_attr_def fun_eq_iff map_add_def split: option.splits)
qed

lemma map_of_foldl_set_attr:
  "map_of (foldl (\<lambda>c (k, v). set_attr k v c) cfg self) = map_of cfg ++ map_of (rev self)"
  by (induction self arbitrary: cfg) (auto simp: fun_eq_iff map_add_def split: option.splits)

section \<open>Properties\<close>

text \<open>C31: \<open>set_config\<close> publishes every instance attribute into \<open>CONFIG\<close> (the
  last assignment of a name winning), overriding an earlier value of the same name, and \<open>application\<close> as the instance itself; the
  other entries of \<open>CONFIG\<close> are kept.\<close>

theorem set_config_lookup:
  "map_of (set_config self cfg) = (map_of cfg ++ map_of (rev self))(''application'' \<mapsto> AApplication)"
  by (simp add: set_config_def map_of_foldl_set_attr)

text \<open>An adapter whose \<open>nick_name\<close> is not a coroutine, as \<open>MiraiAdapter\<close>'s
  property (its body is \<open>pass\<close>, so it returns \<open>None\<close>): \<open>BotApplication(adapter)\<close>
  raises \<open>ValueError\<close> at its second statement and \<open>CONFIG\<close> is left as it was.\<close>

theorem init_nick_not_coroutine:
  "ao_nick_name ad = NotCoro v \<Longrightarrow> bot_application_init ad cfg = (cfg, Inl ValueError)"
  by (simp add: bot_application_init_def py_coroutine_def)

theorem init_nick_not_coroutine_witness:
  "ao_nick_name \<lparr>ao_nick_name = NotCoro PNone, ao_utils = Some PNone, ao_message_handler = Some PNone,
                  ao_check = Coro PNone, ao_start_listen = Coro PNone\<rparr> = NotCoro PNone \<and>
   bot_application_init \<lparr>ao_nick_name = NotCoro PNone, ao_utils = Some PNone,
      ao_message_handler = Some PNone, ao_check = Coro PNone, ao_start_listen = Coro PNone\<rparr> [] = ([], Inl ValueError)"
  using init_nick_not_coroutine [of "\<lparr>ao_nick_name = NotCoro PNone, ao_utils = Some PNone,
      ao_message_handler = Some PNone, ao_check = Coro PNone, ao_start_listen = Coro PNone\<rparr>" PNone "[]"] by simp

text \<open>C33: with a well-behaved adapter the constructor succeeds with a fresh, empty
  listener manager and its logger, and afterwards \<open>CONFIG\<close> maps \<open>listener_manager\<close> to it,
  \<open>nickname\<close> to the value the coroutine returned and \<open>application\<close> to the instance,
  but holds no \<open>logger\<close> unless it had one before: \<open>set_config\<close> runs before
  \<open>self.logger\<close> is assigned.\<close>

theorem init_success:
  assumes "ao_nick_name ad = Coro n" and "ao_utils ad = Some u"
    and "ao_message_handler ad = Some h" and "ao_check ad = Coro c"
  shows "(\<exists>self. snd (bot_application_init ad cfg) = Inr self \<and>
            map_of self ''listener_manager'' = Some (AManager lm_init) \<and>
            map_of self ''logger'' = Some (ALogger (''Application/'' @ VERSION))) \<and>
         map_of (fst (bot_application_init ad cfg)) ''listener_manager'' = Some (AManager lm_init) \<and>
         map_of (fst (bot_application_init ad cfg)) ''nickname'' = Some (ANick n) \<and>
         map_of (fst (bot_application_init ad cfg)) ''application'' = Some AApplication \<and>
         map_of (fst (bot_application_init ad cfg)) ''logger'' = map_of cfg ''logger''"
  using assms
  by (simp add: bot_application_init_def py_coroutine_def set_config_def map_of_foldl_set_attr)

theorem init_success_witness:
  "(\<exists>self. snd (bot_application_init \<lparr>ao_nick_name = Coro (PStr ''bot''), ao_utils = Some PNone,
        ao_message_handler = Some PNone, ao_check = Coro PNone, ao_start_listen = Coro PNone\<rparr> []) = Inr self \<and>
        map_of self ''listener_manager'' = Some (AManager lm_init)) \<and>
   map_of (fst (bot_application_init \<lparr>ao_nick_name = Coro (PStr ''bot''), ao_utils = Some PNone,
        ao_message_handler = Some PNone, ao_check = Coro PNone, ao_start_listen = Coro PNone\<rparr> [])) ''nickname'' = Some (ANick (PStr ''bot''))"
proof -
  have a: "ao_nick_name \<lparr>ao_nick_name = Coro (PStr ''bot''), ao_utils = Some PNone,
        ao_message_handler = Some PNone, ao_check = Coro PNone, ao_start_listen = Coro PNone\<rparr> = Coro (PStr ''bot'')"
    "ao_utils \<lparr>ao_nick_name = Coro (PStr ''bot''), ao_utils = Some PNone,
        ao_message_handler = Some PNone, ao_check = Coro PNone, ao_start_listen = Coro PNone\<rparr> = Some PNone"
    "ao_message_handler \<lparr>ao_nick_name = Coro (PStr ''bot''), ao_utils = Some PNone,
        ao_message_handler = Some PNone, ao_check = Coro PNone, ao_start_listen = Coro PNone\<rparr> = Some PNone"
    "ao_check \<lparr>ao_nick_name = Coro (PStr ''bot''), ao_utils = Some PNone,
        ao_message_handler = Some PNone, ao_check = Coro PNone, ao_start_listen = Coro PNone\<rparr> = Coro PNone"
    by simp_all
  show ?thesis using init_success [OF a] by blast
qed

end
