(* ===== verification/Mirai_Adapter.thy ===== *)
theory Mirai_Adapter
  imports Bootstrap
begin

text \<open>
  \<open>src/objects/member.py\<close> and \<open>src/adapters/mirai/adapter.py\<close>. \<open>Member\<close> is a
  plain record of its six constructor arguments. The \<open>MiraiAdapter\<close> constructor is a
  sequence of attribute assignments; each evaluates some global names of its module, and
  Python resolves them when the statement runs. The model runs the statements in source
  order against the names the module binds (its imports, lines 1--8, and its own class)
  and stops with \<open>NameError\<close> at the first statement that needs an unbound name, the
  attributes assigned before it staying set. The attributes it copies from its
  \<open>MiraiConfig\<close> are a record; \<open>__request_api\<close> builds its URL and calls
  \<open>requests.get\<close>, a parameter returning a response or raising one of the exceptions
  of \<open>requests\<close>, with Python's \<open>except\<close> matching on the exception's class. The
  properties and coroutine methods, whose bodies are \<open>pass\<close>, give the adapter object
  \<open>BotApplication\<close> sees (\<open>Bootstrap.adapter_obj\<close>).
\<close>

section \<open>Member\<close>

record member =
  mem_group :: pyval
  mem_nickname :: string
  mem_user_id :: int
  mem_role :: string
  mem_last_sent_time :: int
  mem_join_time :: int

definition Member :: "pyval \<Rightarrow> string \<Rightarrow> int \<Rightarrow> string \<Rightarrow> int \<Rightarrow> int \<Rightarrow> member" where
  "Member g n uid r t_last t_join =
     \<lparr>mem_group = g, mem_nickname = n, mem_user_id = uid, mem_role = r,
      mem_last_sent_time = t_last, mem_join_time = t_join\<rparr>"

section \<open>MiraiAdapter.__init__\<close>

text \<open>One statement: the attribute it assigns and the global names its right-hand side
  (or, for \<open>global_config.x = ...\<close>, its target) evaluates.\<close>

type_synonym stmt = "string \<times> string list"

definition mirai_module_globals :: "string list" where
  "mirai_module_globals =
     [''Adapter'', ''ListenerManager'', ''MiraiConfig'', ''MiraiMessageHandler'',
      ''MiraiSenderHandler'', ''Logger'', ''HTTP_PROTOCOL'', ''WS_PROTOCOL'', ''sync_get'',
      ''MiraiAdapter'']"

definition mirai_init_stmts :: "stmt list" where
  "mirai_init_stmts =
     [(''name'', []), (''ws_host'', []), (''ws_port'', []), (''http_host'', []),
      (''http_port'', []), (''session_key'', []), (''ws_reverse'', []),
      (''logger'', [''Logger'']), (''listener_manager'', [''ListenerManager'']),
      (''utils'', [''MiraiUtils'']), (''sender_handler'', [''MiraiSenderHandler'']),
      (''message_handler'', [''MiraiMessageHandler'']),
      (''global_config.listener_manager'', [''global_config'']),
      (''global_config.message_handler'', [''global_config'']),
      (''global_config.adapter_utils'', [''global_config''])]"

fun run_stmts :: "string list \<Rightarrow> stmt list \<Rightarrow> string list \<times> py_exc option" where
  "run_stmts env [] = ([], None)"
| "run_stmts env ((a, ns) # ss) =
     (if list_all (\<lambda>n. n \<in> set env) ns
      then (case run_stmts env ss of (done, r) \<Rightarrow> (a # done, r))
      else ([], Some NameError))"

definition mirai_adapter_init :: "string list \<Rightarrow> string list \<times> py_exc option" where
  "mirai_adapter_init env = run_stmts env mirai_init_stmts"

section \<open>The adapter's state and methods\<close>

text \<open>The attributes \<open>__init__\<close> copies from its \<open>MiraiConfig\<close> (lines 13--19).\<close>

record mirai_config =
  cfg_ws_host :: string
  cfg_ws_port :: int
  cfg_http_host :: string
  cfg_http_port :: int
  cfg_session_key :: string
  cfg_ws_reverse :: bool

record mirai_adapter =
  ma_name :: string
  ma_ws_host :: string
  ma_ws_port :: int
  ma_http_host :: string
  ma_http_port :: int
  ma_session_key :: string
  ma_ws_reverse :: bool

definition mirai_adapter_attrs :: "mirai_config \<Rightarrow> mirai_adapter" where
  "mirai_adapter_attrs config =
     \<lparr>ma_name = ''Mirai'', ma_ws_host = cfg_ws_host config, ma_ws_port = cfg_ws_port config,
      ma_http_host = cfg_http_host config, ma_http_port = cfg_http_port config,
      ma_session_key = cfg_session_key config, ma_ws_reverse = cfg_ws_reverse config\<rparr>"

text \<open>\<open>HTTP_PROTOCOL\<close> of \<open>src/jbot/__init__.py\<close>, line 13.\<close>

definition HTTP_PROTOCOL :: string where
  "HTTP_PROTOCOL = ''http://''"

text \<open>\<open>__request_api(api_path)\<close> (lines 30--35). The URL is the f-string of line 32.
  \<open>sync_get\<close> is \<open>requests.get\<close>, a parameter here: it raises an exception or returns
  a response whose \<open>.json()\<close> raises an exception or returns a value. An exception is
  its class and its message. The classes are those the \<open>try\<close> body can raise and
  the one its \<open>except\<close> clause names, each with its direct bases as
  \<open>requests.exceptions\<close> and Python's built-ins declare them (\<open>IOError\<close> is
  \<open>OSError\<close>). The module imports only \<open>get\<close> from \<open>requests\<close>, so the
  \<open>ConnectionError\<close> of line 33 is the built-in class.\<close>

datatype exc_class =
    ExcBaseException | ExcException | ExcOSError | ExcValueError
  | ExcConnectionError | ExcConnectionRefusedError | ExcConnectionResetError
  | ExcStdJSONDecodeError
  | ExcRequestException | ExcRequestsConnectionError | ExcProxyError | ExcSSLError
  | ExcTimeout | ExcConnectTimeout | ExcReadTimeout
  | ExcInvalidJSONError | ExcRequestsJSONDecodeError

fun exc_bases :: "exc_class \<Rightarrow> exc_class list" where
  "exc_bases ExcBaseException = []"
| "exc_bases ExcException = [ExcBaseException]"
| "exc_bases ExcOSError = [ExcException]"
| "exc_bases ExcValueError = [ExcException]"
| "exc_bases ExcConnectionError = [ExcOSError]"
| "exc_bases ExcConnectionRefusedError = [ExcConnectionError]"
| "exc_bases ExcConnectionResetError = [ExcConnectionError]"
| "exc_bases ExcStdJSONDecodeError = [ExcValueError]"
| "exc_bases ExcRequestException = [ExcOSError]"
| "exc_bases ExcRequestsConnectionError = [ExcRequestException]"
| "exc_bases ExcProxyError = [ExcRequestsConnectionError]"
| "exc_bases ExcSSLError = [ExcRequestsConnectionError]"
| "exc_bases ExcTimeout = [ExcRequestException]"
| "exc_bases ExcConnectTimeout = [ExcRequestsConnectionError, ExcTimeout]"
| "exc_bases ExcReadTimeout = [ExcTimeout]"
| "exc_bases ExcInvalidJSONError = [ExcRequestException]"
| "exc_bases ExcRequestsJSONDecodeError = [ExcInvalidJSONError, ExcStdJSONDecodeError]"

text \<open>The depth of a class below \<open>BaseException\<close>: every direct base is shallower.\<close>

fun exc_depth :: "exc_class \<Rightarrow> nat" where
  "exc_depth ExcBaseException = 0"
| "exc_depth ExcException = 1"
| "exc_depth ExcOSError = 2"
| "exc_depth ExcValueError = 2"
| "exc_depth ExcConnectionError = 3"
| "exc_depth ExcConnectionRefusedError = 4"
| "exc_depth ExcConnectionResetError = 4"
| "exc_depth ExcStdJSONDecodeError = 3"
| "exc_depth ExcRequestException = 3"
| "exc_depth ExcRequestsConnectionError = 4"
| "exc_depth ExcProxyError = 5"
| "exc_depth ExcSSLError = 5"
| "exc_depth ExcTimeout = 4"
| "exc_depth ExcConnectTimeout = 5"
| "exc_depth ExcReadTimeout = 5"
| "exc_depth ExcInvalidJSONError = 4"
| "exc_depth ExcRequestsJSONDecodeError = 5"

text \<open>\<open>except t\<close> catches an exception of class \<open>c\<close> when \<open>t\<close> is \<open>c\<close> or one of its
  ancestors.\<close>

function exc_isinstance :: "exc_class \<Rightarrow> exc_class \<Rightarrow> bool" where
  "exc_isinstance c t \<longleftrightarrow> c = t \<or> (\<exists>d \<in> set (exc_bases c). exc_isinstance d t)"
  by pat_completeness auto
termination
  apply (relation "measure (\<lambda>(c, t). exc_depth c)")
   apply simp
  subgoal for c t d by (cases c) auto
  done

declare exc_isinstance.simps [simp del]

datatype get_response = Response "(exc_class \<times> string) + pyval"

datatype api_error = ApiRaised exc_class string | ApiException string

text \<open>The message prefix of line 35, as its UTF-8 bytes.\<close>

definition request_api_msg :: string where
  "request_api_msg =
     map char_of [0xE6::nat, 0x97, 0xA0, 0xE6, 0xB3, 0x95, 0xE8, 0xBF, 0x9E, 0xE6, 0x8E,
     0xA5, 0xE5, 0x88, 0xB0, 0x20, 0x4D, 0x69, 0x72, 0x61, 0x69, 0x2D, 0x41, 0x70, 0x69,
     0x2D, 0x48, 0x74, 0x74, 0x70, 0x2C, 0x20, 0xE8, 0xAF, 0xB7, 0xE6, 0xA3, 0x80, 0xE6,
     0x9F, 0xA5, 0xE6, 0x98, 0xAF, 0xE5, 0x90, 0xA6, 0xE9, 0x85, 0x8D, 0xE7, 0xBD, 0xAE,
     0xE5, 0xAE, 0x8C, 0xE6, 0x95, 0xB4, 0x21, 0x20]"

definition request_url :: "mirai_adapter \<Rightarrow> string \<Rightarrow> string" where
  "request_url ad api_path =
     HTTP_PROTOCOL @ ma_http_host ad @ '':'' @ py_str_int (ma_http_port ad) @ api_path"

definition mirai_request_api ::
  "(string \<Rightarrow> (exc_class \<times> string) + get_response) \<Rightarrow> mirai_adapter \<Rightarrow> string \<Rightarrow> api_error + pyval" where
  "mirai_request_api sync_get ad api_path =
     (let r = (case sync_get (request_url ad api_path) of
                 Inl e \<Rightarrow> Inl e
               | Inr (Response j) \<Rightarrow> j)
      in case r of
           Inl (k, s) \<Rightarrow>
             if exc_isinstance k ExcConnectionError then Inl (ApiException (request_api_msg @ s))
             else Inl (ApiRaised k s)
         | Inr j \<Rightarrow> Inr j)"

text \<open>The adapter as \<open>BotApplication\<close> sees it (lines 37--53): the properties
  \<open>login_info\<close>, \<open>account\<close> and \<open>nick_name\<close> have the body \<open>pass\<close> and so return
  \<open>None\<close>, not a coroutine; \<open>check()\<close> and \<open>start_listen()\<close> are \<open>async def\<close> with
  the body \<open>pass\<close>, so calling them gives a coroutine that returns \<open>None\<close>; \<open>utils\<close>
  and \<open>message_handler\<close> are the objects \<open>__init__\<close> would have stored.\<close>

definition mirai_adapter_obj :: "pyval \<Rightarrow> pyval \<Rightarrow> adapter_obj" where
  "mirai_adapter_obj utils handler =
     \<lparr>ao_nick_name = NotCoro PNone, ao_utils = Some utils, ao_message_handler = Some handler,
      ao_check = Coro PNone, ao_start_listen = Coro PNone\<rparr>"

text \<open>\<open>receiver(event)\<close> (line 55): returns \<open>None\<close>.\<close>

definition mirai_receiver :: "string \<Rightarrow> pyval" where
  "mirai_receiver event = PNone"

text \<open>Reading a request URL back: the host up to the first colon, the port as a decimal
  integer, the API path as the rest.\<close>

definition parse_request_url :: "string \<Rightarrow> (string \<times> int \<times> string) option" where
  "parse_request_url u =
     (if take (length HTTP_PROTOCOL) u = HTTP_PROTOCOL then
        (let r = drop (length HTTP_PROTOCOL) u
         in case dropWhile (\<lambda>c. c \<noteq> CHR '':'') r of
              [] \<Rightarrow> None
            | _ # t \<Rightarrow> map_option (\<lambda>(p, path). (takeWhile (\<lambda>c. c \<noteq> CHR '':'') r, p, path)) (read_int t))
      else None)"

section \<open>Lemmas\<close>

text \<open>The equation of \<open>exc_isinstance\<close> for each class: unfolding it only at a
  named class keeps the simplifier from unfolding the recursive call under its
  quantifier.\<close>

lemmas exc_isinstance_classes =
    exc_isinstance.simps [of ExcBaseException]
    exc_isinstance.simps [of ExcException]
    exc_isinstance.simps [of ExcOSError]
    exc_isinstance.simps [of ExcValueError]
    exc_isinstance.simps [of ExcConnectionError]
    exc_isinstance.simps [of ExcConnectionRefusedError]
    exc_isinstance.simps [of ExcConnectionResetError]
    exc_isinstance.simps [of ExcStdJSONDecodeError]
    exc_isinstance.simps [of ExcRequestException]
    exc_isinstance.simps [of ExcRequestsConnectionError]
    exc_isinstance.simps [of ExcProxyError]
    exc_isinstance.simps [of ExcSSLError]
    exc_isinstance.simps [of ExcTimeout]
    exc_isinstance.simps [of ExcConnectTimeout]
    exc_isinstance.simps [of ExcReadTimeout]
    exc_isinstance.simps [of ExcInvalidJSONError]
    exc_isinstance.simps [of ExcRequestsJSONDecodeError]

lemma requests_exc_not_builtin:
  "exc_isinstance k ExcRequestException \<Longrightarrow> \<not> exc_isinstance k ExcConnectionError"
  by (cases k) (simp_all add: exc_isinstance_classes)

lemma split_at_colon:
  "CHR '':'' \<notin> set host \<Longrightarrow>
   takeWhile (\<lambda>c. c \<noteq> CHR '':'') (host @ CHR '':'' # rest) = host \<and>
   dropWhile (\<lambda>c. c \<noteq> CHR '':'') (host @ CHR '':'' # rest) = CHR '':'' # rest"
  by (induction host) auto

section \<open>Properties\<close>

text \<open>C30: constructing a \<open>MiraiAdapter\<close> always fails: \<open>MiraiUtils\<close> is not bound in
  its module, so the constructor raises \<open>NameError\<close> after assigning the seven
  configuration attributes, the logger and the listener manager; \<open>utils\<close>, the handlers
  and the \<open>global_config\<close> entries are never set. Binding \<open>MiraiUtils\<close> alone does not
  help: the constructor then stops at \<open>global_config\<close>, which is not bound either.\<close>

theorem mirai_adapter_init_fails:
  "mirai_adapter_init mirai_module_globals =
     ([''name'', ''ws_host'', ''ws_port'', ''http_host'', ''http_port'', ''session_key'',
       ''ws_reverse'', ''logger'', ''listener_manager''], Some NameError) \<and>
   mirai_adapter_init (''MiraiUtils'' # mirai_module_globals) =
     ([''name'', ''ws_host'', ''ws_port'', ''http_host'', ''http_port'', ''session_key'',
       ''ws_reverse'', ''logger'', ''listener_manager'', ''utils'', ''sender_handler'',
       ''message_handler''], Some NameError)"
  by (simp add: mirai_adapter_init_def mirai_init_stmts_def mirai_module_globals_def)

text \<open>With every name it uses bound, the constructor assigns all fifteen attributes
  in source order and raises nothing.\<close>

theorem mirai_adapter_init_bound:
  "set [''Logger'', ''ListenerManager'', ''MiraiUtils'', ''MiraiSenderHandler'',
        ''MiraiMessageHandler'', ''global_config''] \<subseteq> set env \<Longrightarrow>
   mirai_adapter_init env = (map fst mirai_init_stmts, None)"
  by (simp add: mirai_adapter_init_def mirai_init_stmts_def)

theorem mirai_adapter_init_bound_witness:
  "set [''Logger'', ''ListenerManager'', ''MiraiUtils'', ''MiraiSenderHandler'',
        ''MiraiMessageHandler'', ''global_config''] \<subseteq>
     set (''MiraiUtils'' # ''global_config'' # mirai_module_globals) \<and>
   mirai_adapter_init (''MiraiUtils'' # ''global_config'' # mirai_module_globals) =
     (map fst mirai_init_stmts, None)"
proof -
  have h: "set [''Logger'', ''ListenerManager'', ''MiraiUtils'', ''MiraiSenderHandler'',
        ''MiraiMessageHandler'', ''global_config''] \<subseteq>
     set (''MiraiUtils'' # ''global_config'' # mirai_module_globals)"
    by (simp add: mirai_module_globals_def)
  show ?thesis using mirai_adapter_init_bound [OF h] h by simp
qed

text \<open>C35: the request URL is a faithful encoding: for a host without a colon and an API
  path that does not start with a digit, the URL \<open>__request_api\<close> requests reads back
  as exactly the adapter's HTTP host, its HTTP port (the decimal \<open>str\<close> of the
  \<open>int\<close>, sign included) and the path.\<close>

theorem request_url_roundtrip:
  assumes "CHR '':'' \<notin> set (ma_http_host ad)" and "\<not> digit_start api_path"
  shows "parse_request_url (request_url ad api_path) = Some (ma_http_host ad, ma_http_port ad, api_path)"
proof -
  have "request_url ad api_path =
          HTTP_PROTOCOL @ ma_http_host ad @ CHR '':'' # (py_str_int (ma_http_port ad) @ api_path)"
    by (simp add: request_url_def)
  with assms show ?thesis
    by (simp add: parse_request_url_def split_at_colon read_int_py_str_int)
qed

theorem request_url_roundtrip_witness:
  "CHR '':'' \<notin> set (ma_http_host (mirai_adapter_attrs
      \<lparr>cfg_ws_host = ''localhost'', cfg_ws_port = 8080, cfg_http_host = ''localhost'',
       cfg_http_port = 8080, cfg_session_key = [], cfg_ws_reverse = False\<rparr>)) \<and>
   \<not> digit_start ''/about'' \<and>
   parse_request_url (request_url (mirai_adapter_attrs
      \<lparr>cfg_ws_host = ''localhost'', cfg_ws_port = 8080, cfg_http_host = ''localhost'',
       cfg_http_port = 8080, cfg_session_key = [], cfg_ws_reverse = False\<rparr>) ''/about'') =
     Some (''localhost'', 8080, ''/about'')"
proof -
  have h: "CHR '':'' \<notin> set (ma_http_host (mirai_adapter_attrs
      \<lparr>cfg_ws_host = ''localhost'', cfg_ws_port = 8080, cfg_http_host = ''localhost'',
       cfg_http_port = 8080, cfg_session_key = [], cfg_ws_reverse = False\<rparr>))"
    by (simp add: mirai_adapter_attrs_def)
  have d: "\<not> digit_start ''/about''" by (simp add: digit_start_def is_digit_def)
  show ?thesis using request_url_roundtrip [OF h d] h d by (simp add: mirai_adapter_attrs_def)
qed

text \<open>C36: \<open>__request_api\<close> never produces its own error message for an exception of
  \<open>requests\<close>: every exception \<open>requests.get\<close> or \<open>.json()\<close> raises is a
  \<open>RequestException\<close> (a refused connection, a timeout, a JSON decoding error), and
  no \<open>RequestException\<close> is a built-in \<open>ConnectionError\<close>, so the method raises it
  unchanged. Only a built-in \<open>ConnectionError\<close> would be re-raised as
  \<open>Exception\<close> with the message of line 35.\<close>

theorem request_api_errors_escape:
  assumes "sync_get (request_url ad api_path) = Inl (k, s) \<or>
           sync_get (request_url ad api_path) = Inr (Response (Inl (k, s)))"
  shows "(exc_isinstance k ExcRequestException \<longrightarrow>
            mirai_request_api sync_get ad api_path = Inl (ApiRaised k s)) \<and>
         (exc_isinstance k ExcConnectionError \<longrightarrow>
            mirai_request_api sync_get ad api_path = Inl (ApiException (request_api_msg @ s)))"
  using assms requests_exc_not_builtin [of k] by (auto simp: mirai_request_api_def)

theorem request_api_errors_escape_witness:
  "exc_isinstance ExcConnectTimeout ExcRequestException \<and>
   mirai_request_api (\<lambda>_. Inl (ExcConnectTimeout, ''timed out''))
     (mirai_adapter_attrs \<lparr>cfg_ws_host = ''h'', cfg_ws_port = 1, cfg_http_host = ''h'',
       cfg_http_port = 1, cfg_session_key = [], cfg_ws_reverse = False\<rparr>) ''/about'' =
   Inl (ApiRaised ExcConnectTimeout ''timed out'')"
proof -
  have k: "exc_isinstance ExcConnectTimeout ExcRequestException"
    by (simp add: exc_isinstance_classes)
  show ?thesis
    using request_api_errors_escape [of "\<lambda>_. Inl (ExcConnectTimeout, ''timed out'')"
      "mirai_adapter_attrs \<lparr>cfg_ws_host = ''h'', cfg_ws_port = 1, cfg_http_host = ''h'',
       cfg_http_port = 1, cfg_session_key = [], cfg_ws_reverse = False\<rparr>" "''/about''"
      ExcConnectTimeout "''timed out''"] k
    by simp
qed

text \<open>C37: a \<open>MiraiAdapter\<close> cannot run a bot even with its constructor's name errors
  fixed: \<open>BotApplication(adapter)\<close> raises \<open>ValueError\<close> at
  \<open>coroutine(adapter.nick_name)\<close>, since the property returns \<open>None\<close>, leaving
  \<open>CONFIG\<close> as it was; and \<open>start_running\<close> returns \<open>None\<close> at once, since
  \<open>start_listen\<close> does nothing, so no event is ever received.\<close>

theorem mirai_bot_application:
  "bot_application_init (mirai_adapter_obj u h) cfg = (cfg, Inl ValueError) \<and>
   bot_start_running (mirai_adapter_obj u h) = Inr PNone"
  by (simp add: mirai_adapter_obj_def bot_application_init_def bot_start_running_def py_coroutine_def)

end
