(* ===== verification/Spec2Isabelle.thy ===== *)
theory Spec2Isabelle
  imports Send_Message Dispatch Event_Loop Mirai_Adapter Bootstrap
begin

text \<open>
  \<^bold>\<open>A verification model of JustBot-Reloaded's event core.\<close>

  \<^emph>\<open>The program.\<close> JustBot is an event-driven chat-bot framework. Handlers are
  registered with decorators of \<open>BotApplication\<close> (\<open>src/jbot/__init__.py\<close>): \<open>on\<close>
  joins a handler to a \<open>ListenerManager\<close> for one or more event classes at a priority;
  \<open>command\<close>, \<open>keyword\<close>, \<open>matcher\<close>, \<open>param_convert\<close>, \<open>role\<close> and \<open>nlp\<close> attach
  filters to an already registered handler through \<open>__set_decorator\<close>. Inbound events are
  dispatched to the listeners of their class in priority order; handlers answer with
  \<open>send_msg\<close>, which turns its argument into a \<open>MessageChain\<close>
  (\<open>src/apis/message_chain.py\<close>) and hands it to the platform adapter
  (\<open>src/adapters/mirai/adapter.py\<close>). \<open>Listener\<close>, \<open>ListenerManager\<close>, the matchers,
  the elements and the dispatch loop live outside \<open>src/\<close>; they are modelled from the
  specification (spec sections 3, 4.2 and 4.3) and marked so in the manifest.

  \<^emph>\<open>The theories.\<close>
  \<^item> \<open>Prelude\<close>: Python exceptions (\<open>py_exc\<close>, results \<open>py_exc + 'a\<close>), Python values
    (\<open>pyval\<close>: strings, lists, tuples, dicts, class objects, element instances, functions,
    and the class object \<open>MessageChain\<close>), \<open>type()\<close>, iteration, \<open>str.lower\<close>, \<open>in\<close>,
    \<open>startswith\<close>, \<open>str(int)\<close> (\<open>py_str_int\<close>) with its inverse reading \<open>read_int\<close>
    and their round trip, and shared list lemmas.
  \<^item> \<open>Message_Chain\<close>: the class attributes of \<open>MessageChain\<close> as a record threaded
    through \<open>__new__\<close> (\<open>mc_new\<close>), \<open>create\<close> (\<open>mc_create\<close>), \<open>to_code\<close> and
    \<open>as_display\<close>; construction returns the class itself, as the source does.
  \<^item> \<open>Matcher\<close> (spec): \<open>CommandMatcher\<close>/\<open>KeywordMatcher\<close>, full-width folding on
    UTF-8 bytes, ignore filter, longest trigger wins.
  \<^item> \<open>Listener_Manager\<close> (spec): listeners with their four attachments, the registry as
    a list of \<open>(priority, listener)\<close> in dispatch order, \<open>join\<close> (stable insertion,
    rejects priorities \<open>\<le> 0\<close>), the attachment setters, the invariant \<open>lm_inv\<close> and the
    refinement of a run of joins to \<open>sort_key fst\<close>.
  \<^item> \<open>Bot_Application\<close>: the application state (registry, \<open>MessageChain\<close> class state,
    log, deliveries); \<open>on\<close> (\<open>bot_on\<close>, \<open>on_wrapper\<close>), \<open>__set_decorator\<close>
    (\<open>set_wrapper\<close>) and the six attachment decorators; decorator values, their
    evaluation top to bottom and application bottom to top (\<open>decorate\<close>), and a module
    import as a sequence of decorated definitions that an exception stops
    (\<open>load_module\<close>); the invariants over every registry entry (\<open>lm_all\<close>):
    \<open>all_async\<close> (every handler is a coroutine function) and \<open>named_events\<close> (every
    event has a \<open>__name__\<close>), preserved by every decorator; the bound on how many
    entries one \<open>on\<close> adds; and the registry a definition leaves when attachment
    decorators sit above one \<open>on\<close> (\<open>decorate_fresh\<close>, \<open>decorate_class\<close>: one
    listener per named event, each carrying every attachment), on which the dispatch
    properties of this theory rest.
  \<^item> \<open>Send_Message\<close>: \<open>send_msg\<close> with the adapter as a parameter (\<open>adapter_env\<close>:
    name, element class table, \<open>Plain\<close> constructor, \<open>send_message\<close> outcome).
  \<^item> \<open>Dispatch\<close> (spec): role filter with fallback, matcher, NLP threshold (engine as a
    parameter), parameter conversion, broadcast with per-listener failure isolation.
  \<^item> \<open>Event_Loop\<close> (spec): the reception loop an adapter's \<open>start_listen\<close> runs,
    dispatching inbound events in arrival order until the connection closes, as a
    \<^theory_text>\<open>partial_function (option)\<close>.
  \<^item> \<open>Mirai_Adapter\<close>: \<open>Member\<close>; the \<open>MiraiAdapter\<close> constructor as statements run
    against the module's name bindings and the attributes it copies from its config;
    \<open>__request_api\<close> (URL and exception handling, \<open>requests.get\<close> as a parameter);
    the stub members as the adapter object \<open>BotApplication\<close> uses.
  \<^item> \<open>Bootstrap\<close>: \<open>BotApplication.__init__\<close>, \<open>set_config\<close> and \<open>start_running\<close>, with the instance
    dictionary and \<open>CONFIG\<close> as association lists and the adapter as a record.
  \<^item> this theory: the reachable application states (\<open>app_reachable\<close>: module
    definitions and sends, from the initial state) and the properties that span
    registration, matching and dispatch.

  \<^emph>\<open>What is proved.\<close> Registration refines its abstract specification (the registrations
  stably sorted by priority) and keeps the registry invariant for every module; the
  behaviour of \<open>on\<close> on every branch (non-int, non-positive, non-coroutine, single and
  multiple events) and of the attachment decorators, including their order; dispatch
  order, role fallback, command and keyword matching, the NLP binding with dictionary
  conversion and attachment to a multi-event handler, all through the real decorators; the
  functional behaviour of \<open>MessageChain\<close>; exactly which arguments \<open>send_msg\<close>
  delivers; that the registry stays well typed (every event named) and grows by at
  most one entry per named event; that the request URL reads back as host, port and
  path; and that the reception loop returns exactly when the connection closes,
  having dispatched every event in arrival order. Several theorems record defects: chains alias one shared state, a chain built
  from strings reports a stale display, \<open>send_msg\<close> delivers none of its documented
  argument forms, the registration log's multi-event flag is inverted, a priority
  \<open>\<le> 0\<close> aborts the import instead of being skipped, \<open>MiraiAdapter()\<close> raises
  \<open>NameError\<close>, and \<open>BotApplication\<close> raises \<open>ValueError\<close> for an adapter whose
  \<open>nick_name\<close> is not a coroutine, as \<open>MiraiAdapter\<close>'s is not, whose
  \<open>start_listen\<close> does nothing; \<open>__request_api\<close> catches the built-in
  \<open>ConnectionError\<close>, which \<open>requests\<close> never raises.

  \<^emph>\<open>Bounds and termination.\<close> Every loop of the modelled code runs over a finite list
  (chain elements, strings, event classes, listeners, decorators, statements), so every
  such function is structurally recursive and total; \<open>nat_digits\<close> recurses on
  \<open>n div 10\<close>, which the function package proves decreasing. The one loop that may
  run forever, the reception loop, is a \<^theory_text>\<open>partial_function (option)\<close>, and its
  termination is characterised exactly: it returns iff the connection closes. No fuel
  is needed. Python integers are unbounded (\<open>int\<close>); the NLP confidence is a
  rational.

  \<^emph>\<open>Not modelled.\<close> Network I/O itself (the HTTP response and the gateway's events are
  parameters), the asyncio runner beyond \<open>coroutine\<close>'s check of its argument, the
  module-level \<open>CONFIG = Config(None, ...)\<close> of an external class, the module imports,
  the logger's formatting (log calls are values naming what is reported), the concrete
  element renderings of a platform, and the NLP engine itself. Handlers run to
  completion one after another; the cooperative scheduling of spec section 5 is not
  modelled.
\<close>

section \<open>Reachable application states\<close>

text \<open>The states a running application passes through: it starts empty, and each step
  either runs one decorated definition (of any module, in any order) or one
  \<open>send_msg\<close> call.\<close>

inductive app_reachable :: "adapter_env \<Rightarrow> bot_app \<Rightarrow> bool" for ad where
  init: "app_reachable ad app_init"
| run_def: "app_reachable ad app \<Longrightarrow> app_reachable ad (snd (decorate app ds f))"
| run_send: "app_reachable ad app \<Longrightarrow> app_reachable ad (snd (bot_send_msg ad app target m))"

section \<open>Lemmas across components\<close>

lemma lm_listeners_single_type:
  "\<forall>(p, l) \<in> set (lm_entries lm). l_event l = e \<Longrightarrow> lm_listeners lm e = map snd (lm_entries lm)"
  by (simp add: lm_listeners_def case_prod_beta)

lemma reg_entries_plain:
  "\<forall>(p, l) \<in> set (reg_entries regs). l_role l = None \<and> l_matcher l = None \<and> l_nlp l = None \<and>
     l_param_convert l = None"
  by (auto simp: reg_entries_def Listener_def)

lemma set_sort_key_reg_entries [simp]: "set (sort_key fst (reg_entries regs)) = set (reg_entries regs)"
  by simp

lemma send_chain_lm [simp]: "app_lm (snd (send_chain ad target app r)) = app_lm app"
  by (simp add: send_chain_def Let_def split: sum.splits option.splits)

lemma send_msg_try_lm: "app_lm (snd (send_msg_try ad app target m)) = app_lm app"
  by (simp add: send_msg_try_def Let_def split: sum.splits pyval.splits)

lemma bot_send_msg_lm [simp]: "app_lm (snd (bot_send_msg ad app target m)) = app_lm app"
proof (cases "send_msg_try ad app target m")
  case (Pair r app1)
  moreover have "app_lm app1 = app_lm app" using send_msg_try_lm [of ad app target m] Pair by simp
  ultimately show ?thesis by (cases r) (simp_all add: bot_send_msg_def)
qed

lemma on_defs_listeners:
  assumes "\<forall>(k', p, f) \<in> set regs. k' = k \<and> 0 < p \<and> fn_async f"
    and "ev_type ev = PClass k"
  shows "lm_listeners (app_lm (snd (load_module app_init (on_defs regs)))) (ev_type ev) =
           map snd (sort_key fst (reg_entries regs))"
proof -
  have pos: "\<forall>(k, p, f) \<in> set regs. 0 < p \<and> fn_async f" using assms(1) by auto
  have e: "lm_entries (app_lm (snd (load_module app_init (on_defs regs)))) = sort_key fst (reg_entries regs)"
    using load_module_on_defs [OF pos, of app_init]
    by (simp add: app_init_def lm_init_def insert_all_sort_key)
  have ty: "\<forall>(p, l) \<in> set (lm_entries (app_lm (snd (load_module app_init (on_defs regs))))). l_event l = PClass k"
    using assms(1) unfolding e by (auto simp: reg_entries_def Listener_def)
  with e assms(2) show ?thesis by (simp add: lm_listeners_single_type)
qed

lemma map_filter_on_defs:
  "List.map_filter (dispatch_one eng ev) (map snd (sort_key fst (reg_entries regs))) =
     map (\<lambda>(p, l). Invoke (l_target l) ArgsNone) (sort_key fst (reg_entries regs))"
proof -
  have "\<forall>x \<in> set (sort_key fst (reg_entries regs)).
      dispatch_one eng ev (snd x) = Some (Invoke (l_target (snd x)) ArgsNone)"
    using reg_entries_plain [of regs] by (auto intro!: dispatch_one_plain)
  then show ?thesis by (intro map_filter_all_Some) (auto simp: case_prod_beta)
qed

section \<open>Properties across components\<close>

text \<open>C5: registration and dispatch. When a module registers coroutine handlers for one
  event class with \<open>@bot.on(E, p_i)\<close> and no attachments, a dispatch of an event of that
  class invokes every handler once, in ascending priority, ties in registration order.\<close>

theorem dispatch_order_after_on:
  assumes "\<forall>(k', p, f) \<in> set regs. k' = k \<and> 0 < p \<and> fn_async f"
    and "ev_type ev = PClass k"
  shows "fst (dispatch eng raises (app_lm (snd (load_module app_init (on_defs regs)))) ev) =
           map (\<lambda>(p, l). Invoke (l_target l) ArgsNone) (sort_key fst (reg_entries regs))"
  by (simp add: dispatch_def on_defs_listeners [OF assms] dispatch_run_invocations map_filter_on_defs)

theorem dispatch_order_after_on_witness:
  "fst (dispatch (\<lambda>_ _. (0, [])) (\<lambda>_. False)
      (app_lm (snd (load_module app_init (on_defs
        [(\<lparr>cls_module = ''e'', cls_name = ''E''\<rparr>, 3, \<lparr>fn_id = 1, fn_name = ''l1'', fn_async = True\<rparr>),
         (\<lparr>cls_module = ''e'', cls_name = ''E''\<rparr>, 1, \<lparr>fn_id = 2, fn_name = ''l2'', fn_async = True\<rparr>),
         (\<lparr>cls_module = ''e'', cls_name = ''E''\<rparr>, 3, \<lparr>fn_id = 3, fn_name = ''l3'', fn_async = True\<rparr>)]))))
      \<lparr>ev_type = PClass \<lparr>cls_module = ''e'', cls_name = ''E''\<rparr>, ev_chain = [], ev_role = RoleMember\<rparr>) =
   [Invoke \<lparr>fn_id = 2, fn_name = ''l2'', fn_async = True\<rparr> ArgsNone,
    Invoke \<lparr>fn_id = 1, fn_name = ''l1'', fn_async = True\<rparr> ArgsNone,
    Invoke \<lparr>fn_id = 3, fn_name = ''l3'', fn_async = True\<rparr> ArgsNone]"
  using dispatch_order_after_on
    [of "[(\<lparr>cls_module = ''e'', cls_name = ''E''\<rparr>, 3, \<lparr>fn_id = 1, fn_name = ''l1'', fn_async = True\<rparr>),
          (\<lparr>cls_module = ''e'', cls_name = ''E''\<rparr>, 1, \<lparr>fn_id = 2, fn_name = ''l2'', fn_async = True\<rparr>),
          (\<lparr>cls_module = ''e'', cls_name = ''E''\<rparr>, 3, \<lparr>fn_id = 3, fn_name = ''l3'', fn_async = True\<rparr>)]"
        "\<lparr>cls_module = ''e'', cls_name = ''E''\<rparr>"
        "\<lparr>ev_type = PClass \<lparr>cls_module = ''e'', cls_name = ''E''\<rparr>, ev_chain = [], ev_role = RoleMember\<rparr>"
        "\<lambda>_ _. (0, [])" "\<lambda>_. False"]
  by (simp add: reg_entries_def Listener_def)

text \<open>C6: role filter with fallback. A handler registered with \<open>@bot.on(E, p)\<close> and,
  above it, \<open>@bot.role(roles, todo)\<close>: an event of class \<open>E\<close> from a sender whose
  role is not among \<open>roles\<close> invokes the fallback \<open>todo\<close> and not the handler.\<close>

theorem role_fallback:
  assumes "0 < p" and "fn_async f" and "ev_type ev = PClass k" and "ev_role ev \<notin> set rs"
  shows "fst (dispatch eng raises
            (app_lm (snd (decorate app_init [RoleD rs (Some todo), On (PClass k) (PInt p)] f))) ev) =
         [Fallback todo]"
  using decorate_class [OF assms(1,2), of "[RoleD rs (Some todo)]" k] assms(3,4)
  by (simp add: dispatch_single dispatch_one_def Listener_def)

theorem role_fallback_witness:
  "fst (dispatch (\<lambda>_ _. (0, [])) (\<lambda>_. False)
      (app_lm (snd (decorate app_init
         [RoleD [RoleAdministrator] (Some \<lparr>fn_id = 9, fn_name = ''todo'', fn_async = True\<rparr>),
          On (PClass \<lparr>cls_module = ''e'', cls_name = ''E''\<rparr>) (PInt 5)]
         \<lparr>fn_id = 1, fn_name = ''h'', fn_async = True\<rparr>)))
      \<lparr>ev_type = PClass \<lparr>cls_module = ''e'', cls_name = ''E''\<rparr>, ev_chain = [], ev_role = RoleMember\<rparr>) =
   [Fallback \<lparr>fn_id = 9, fn_name = ''todo'', fn_async = True\<rparr>]"
  by (rule role_fallback) simp_all

text \<open>C7: command matching through the decorators. A handler registered with
  \<open>@bot.on(E, p)\<close>, \<open>@bot.command(['/ping'])\<close> above it and
  \<open>@bot.param_convert(str)\<close> above that is invoked with argument \<open>'123'\<close> for the
  message \<open>'/ping 123'\<close>, and not at all for \<open>'ping 123'\<close>.\<close>

theorem command_ping_dispatch:
  assumes "0 < p" and "fn_async f"
  shows "fst (dispatch eng raises
            (app_lm (snd (decorate app_init
               [ParamConvert ConvStr, Command [''/ping''] False [], On (PClass k) (PInt p)] f)))
            \<lparr>ev_type = PClass k, ev_chain = [\<lparr>el_cls = c, el_code = x, el_display = ''/ping 123''\<rparr>], ev_role = r\<rparr>) =
         [Invoke f (ArgsStr ''123'')] \<and>
         fst (dispatch eng raises
            (app_lm (snd (decorate app_init
               [ParamConvert ConvStr, Command [''/ping''] False [], On (PClass k) (PInt p)] f)))
            \<lparr>ev_type = PClass k, ev_chain = [\<lparr>el_cls = c, el_code = x, el_display = ''ping 123''\<rparr>], ev_role = r\<rparr>) =
         []"
  using decorate_class [OF assms, of "[ParamConvert ConvStr, Command [''/ping''] False []]" k]
  by (simp add: dispatch_single dispatch_one_def Listener_def matches_def CommandMatcher_def
                chain_text_def normalize_def command_hit_def is_space_def py_strip_def
                nlp_check_def convert_params_def)

theorem command_ping_dispatch_witness:
  "fst (dispatch (\<lambda>_ _. (0, [])) (\<lambda>_. False)
      (app_lm (snd (decorate app_init
         [ParamConvert ConvStr, Command [''/ping''] False [],
          On (PClass \<lparr>cls_module = ''e'', cls_name = ''E''\<rparr>) (PInt 5)]
         \<lparr>fn_id = 1, fn_name = ''h'', fn_async = True\<rparr>)))
      \<lparr>ev_type = PClass \<lparr>cls_module = ''e'', cls_name = ''E''\<rparr>,
       ev_chain = [\<lparr>el_cls = \<lparr>cls_module = ''m'', cls_name = ''Plain''\<rparr>, el_code = ''/ping 123'',
                    el_display = ''/ping 123''\<rparr>], ev_role = RoleMember\<rparr>) =
   [Invoke \<lparr>fn_id = 1, fn_name = ''h'', fn_async = True\<rparr> (ArgsStr ''123'')]"
  using command_ping_dispatch [of 5 "\<lparr>fn_id = 1, fn_name = ''h'', fn_async = True\<rparr>"] by simp

text \<open>C8: keyword matching through the decorators. A handler registered with
  \<open>@bot.on(E, p)\<close> and \<open>@bot.keyword(['hello'])\<close> above it is invoked, with no
  argument, for every \<open>E\<close> event whose chain's display text contains \<open>'hello'\<close>
  anywhere, and for no other \<open>E\<close> event.\<close>

theorem keyword_hello_dispatch:
  assumes "0 < p" and "fn_async f"
  shows "fst (dispatch eng raises
            (app_lm (snd (decorate app_init [Keyword [''hello''] False [], On (PClass k) (PInt p)] f)))
            \<lparr>ev_type = PClass k, ev_chain = es, ev_role = r\<rparr>) =
         (if py_contains (chain_text [] es) ''hello'' then [Invoke f ArgsNone] else [])"
  using decorate_class [OF assms, of "[Keyword [''hello''] False []]" k]
  by (simp add: dispatch_single dispatch_one_def Listener_def matches_def KeywordMatcher_def
                normalize_def nlp_check_def convert_params_def
           del: py_contains_iff)

theorem keyword_hello_dispatch_witness:
  "fst (dispatch (\<lambda>_ _. (0, [])) (\<lambda>_. False)
      (app_lm (snd (decorate app_init
         [Keyword [''hello''] False [], On (PClass \<lparr>cls_module = ''e'', cls_name = ''E''\<rparr>) (PInt 5)]
         \<lparr>fn_id = 1, fn_name = ''h'', fn_async = True\<rparr>)))
      \<lparr>ev_type = PClass \<lparr>cls_module = ''e'', cls_name = ''E''\<rparr>,
       ev_chain = [\<lparr>el_cls = \<lparr>cls_module = ''m'', cls_name = ''Plain''\<rparr>, el_code = ''say hello world'',
                    el_display = ''say hello world''\<rparr>], ev_role = RoleMember\<rparr>) =
   [Invoke \<lparr>fn_id = 1, fn_name = ''h'', fn_async = True\<rparr> ArgsNone]"
proof -
  have hit: "py_contains ''say hello world'' ''hello''"
    by (simp del: py_contains_iff py_startswith_iff)
  show ?thesis
    using keyword_hello_dispatch [of 5 "\<lparr>fn_id = 1, fn_name = ''h'', fn_async = True\<rparr>" "\<lambda>_ _. (0, [])" "\<lambda>_. False" "\<lparr>cls_module = ''e'', cls_name = ''E''\<rparr>"
        "[\<lparr>el_cls = \<lparr>cls_module = ''m'', cls_name = ''Plain''\<rparr>, el_code = ''say hello world'',
                    el_display = ''say hello world''\<rparr>]" RoleMember] hit
    by (simp add: chain_text_def del: py_contains_iff)
qed

text \<open>C9: in every reachable state of a running application, whatever definitions and
  sends happened in whatever order, the registry is sorted by priority with positive
  priorities, and every registered handler is a coroutine function.\<close>

theorem reachable_registry_inv:
  "app_reachable ad app \<Longrightarrow> lm_inv (app_lm app) \<and> all_async (app_lm app)"
proof (induction rule: app_reachable.induct)
  case init
  show ?case by (simp add: app_init_def lm_inv_def all_async_def lm_all_def lm_init_def)
next
  case (run_def app ds f)
  then show ?case by (simp add: lm_inv_decorate all_async_decorate)
next
  case (run_send app target m)
  then show ?case by simp
qed

theorem reachable_registry_inv_witness:
  "app_reachable sample_adapter
     (snd (decorate app_init [On (PClass \<lparr>cls_module = ''e'', cls_name = ''E''\<rparr>) (PInt 2)]
            \<lparr>fn_id = 1, fn_name = ''h'', fn_async = True\<rparr>)) \<and>
   lm_inv (app_lm (snd (decorate app_init [On (PClass \<lparr>cls_module = ''e'', cls_name = ''E''\<rparr>) (PInt 2)]
            \<lparr>fn_id = 1, fn_name = ''h'', fn_async = True\<rparr>)))"
proof -
  have r: "app_reachable sample_adapter
     (snd (decorate app_init [On (PClass \<lparr>cls_module = ''e'', cls_name = ''E''\<rparr>) (PInt 2)]
            \<lparr>fn_id = 1, fn_name = ''h'', fn_async = True\<rparr>))"
    by (rule app_reachable.run_def [OF app_reachable.init])
  show ?thesis using reachable_registry_inv [OF r] r by blast
qed

text \<open>C11: full-width matching. A handler registered with \<open>@bot.on(E, p)\<close> and
  \<open>@bot.command(['/ping'], match_all_width=True)\<close> above it, with its argument
  converted to \<open>str\<close>, is invoked with \<open>'1'\<close> for the full-width message
  \<open>'\<^verbatim>\<open>/ping\<close> 1'\<close> written with U+FF0F, U+FF50, U+FF49, U+FF4E, U+FF47 (UTF-8 bytes
  below); with \<open>match_all_width=False\<close> the same message invokes nothing.\<close>

theorem fullwidth_command_dispatch:
  assumes "0 < p" and "fn_async f"
  shows "fst (dispatch eng raises
            (app_lm (snd (decorate app_init
               [ParamConvert ConvStr, Command [''/ping''] True [], On (PClass k) (PInt p)] f)))
            \<lparr>ev_type = PClass k, ev_chain = [\<lparr>el_cls = c, el_code = x, el_display = map char_of [0xEF::nat, 0xBC, 0x8F, 0xEF, 0xBD, 0x90, 0xEF, 0xBD, 0x89, 0xEF, 0xBD, 0x8E, 0xEF, 0xBD, 0x87, 0x20, 0x31]\<rparr>], ev_role = r\<rparr>) =
         [Invoke f (ArgsStr ''1'')] \<and>
         fst (dispatch eng raises
            (app_lm (snd (decorate app_init
               [ParamConvert ConvStr, Command [''/ping''] False [], On (PClass k) (PInt p)] f)))
            \<lparr>ev_type = PClass k, ev_chain = [\<lparr>el_cls = c, el_code = x, el_display = map char_of [0xEF::nat, 0xBC, 0x8F, 0xEF, 0xBD, 0x90, 0xEF, 0xBD, 0x89, 0xEF, 0xBD, 0x8E, 0xEF, 0xBD, 0x87, 0x20, 0x31]\<rparr>], ev_role = r\<rparr>) =
         []"
  using decorate_class [OF assms, of "[ParamConvert ConvStr, Command [''/ping''] True []]" k]
        decorate_class [OF assms, of "[ParamConvert ConvStr, Command [''/ping''] False []]" k]
        fold_width_fullwidth_ping fullwidth_ping_no_hit halfwidth_ping_hit fold_width_ping
  by (simp add: dispatch_single dispatch_one_def Listener_def matches_def CommandMatcher_def
                chain_text_def normalize_def is_space_def py_strip_def nlp_check_def convert_params_def
           del: fold_width.simps)

theorem fullwidth_command_dispatch_witness:
  "fst (dispatch (\<lambda>_ _. (0, [])) (\<lambda>_. False)
      (app_lm (snd (decorate app_init
         [ParamConvert ConvStr, Command [''/ping''] True [],
          On (PClass \<lparr>cls_module = ''e'', cls_name = ''E''\<rparr>) (PInt 5)]
         \<lparr>fn_id = 1, fn_name = ''h'', fn_async = True\<rparr>)))
      \<lparr>ev_type = PClass \<lparr>cls_module = ''e'', cls_name = ''E''\<rparr>,
       ev_chain = [\<lparr>el_cls = \<lparr>cls_module = ''m'', cls_name = ''Plain''\<rparr>, el_code = [],
                    el_display = map char_of [0xEF::nat, 0xBC, 0x8F, 0xEF, 0xBD, 0x90, 0xEF, 0xBD, 0x89, 0xEF, 0xBD, 0x8E, 0xEF, 0xBD, 0x87, 0x20, 0x31]\<rparr>], ev_role = RoleMember\<rparr>) =
   [Invoke \<lparr>fn_id = 1, fn_name = ''h'', fn_async = True\<rparr> (ArgsStr ''1'')]"
  using fullwidth_command_dispatch [of 5 "\<lparr>fn_id = 1, fn_name = ''h'', fn_async = True\<rparr>"] by simp

text \<open>C10: failure isolation. For handlers registered with \<open>@bot.on(E, p_i)\<close>, the
  handlers a dispatch invokes do not depend on which of them raise, and the failures it
  reports are exactly the invocations that raised, in order: a raising handler never
  keeps a later one from running.\<close>

theorem dispatch_failure_isolation:
  assumes "\<forall>(k', p, f) \<in> set regs. k' = k \<and> 0 < p \<and> fn_async f"
    and "ev_type ev = PClass k"
  shows "fst (dispatch eng raises (app_lm (snd (load_module app_init (on_defs regs)))) ev) =
           fst (dispatch eng (\<lambda>_. False) (app_lm (snd (load_module app_init (on_defs regs)))) ev) \<and>
         snd (dispatch eng raises (app_lm (snd (load_module app_init (on_defs regs)))) ev) =
           filter raises (map (\<lambda>(p, l). Invoke (l_target l) ArgsNone) (sort_key fst (reg_entries regs)))"
  by (simp add: dispatch_def on_defs_listeners [OF assms] dispatch_run_invocations dispatch_run_failures
                map_filter_on_defs)

theorem dispatch_failure_isolation_witness:
  "snd (dispatch (\<lambda>_ _. (0, [])) (\<lambda>i. inv_handler i = \<lparr>fn_id = 1, fn_name = ''l1'', fn_async = True\<rparr>)
      (app_lm (snd (load_module app_init (on_defs
        [(\<lparr>cls_module = ''e'', cls_name = ''E''\<rparr>, 1, \<lparr>fn_id = 1, fn_name = ''l1'', fn_async = True\<rparr>),
         (\<lparr>cls_module = ''e'', cls_name = ''E''\<rparr>, 2, \<lparr>fn_id = 2, fn_name = ''l2'', fn_async = True\<rparr>)]))))
      \<lparr>ev_type = PClass \<lparr>cls_module = ''e'', cls_name = ''E''\<rparr>, ev_chain = [], ev_role = RoleMember\<rparr>) =
   [Invoke \<lparr>fn_id = 1, fn_name = ''l1'', fn_async = True\<rparr> ArgsNone]"
  using dispatch_failure_isolation
    [of "[(\<lparr>cls_module = ''e'', cls_name = ''E''\<rparr>, 1, \<lparr>fn_id = 1, fn_name = ''l1'', fn_async = True\<rparr>),
          (\<lparr>cls_module = ''e'', cls_name = ''E''\<rparr>, 2, \<lparr>fn_id = 2, fn_name = ''l2'', fn_async = True\<rparr>)]"
        "\<lparr>cls_module = ''e'', cls_name = ''E''\<rparr>"
        "\<lparr>ev_type = PClass \<lparr>cls_module = ''e'', cls_name = ''E''\<rparr>, ev_chain = [], ev_role = RoleMember\<rparr>"
        "\<lambda>_ _. (0, [])" "\<lambda>i. inv_handler i = \<lparr>fn_id = 1, fn_name = ''l1'', fn_async = True\<rparr>"]
  by (simp add: reg_entries_def Listener_def)

text \<open>C34: the registry is well typed. In every reachable state each registered
  listener's event is an object \<open>on\<close> could name (a class, the \<open>MessageChain\<close>
  class or a function): never a list, a tuple, a string or a number, since \<open>on\<close>
  collapses and unpacks lists and tuples and evaluates \<open>__name__\<close> of every event
  before it joins any of them.\<close>

theorem reachable_events_named:
  "app_reachable ad app \<Longrightarrow> named_events (app_lm app)"
proof (induction rule: app_reachable.induct)
  case init
  show ?case by (simp add: app_init_def named_events_def lm_all_def lm_init_def)
next
  case (run_def app ds f)
  then show ?case by (simp add: named_events_decorate)
next
  case (run_send app target m)
  then show ?case by simp
qed

theorem reachable_events_named_witness:
  "app_reachable sample_adapter
     (snd (decorate app_init
        [On (PTuple [PClass \<lparr>cls_module = ''e'', cls_name = ''E''\<rparr>, PClass \<lparr>cls_module = ''e'', cls_name = ''F''\<rparr>]) (PInt 2)]
        \<lparr>fn_id = 1, fn_name = ''h'', fn_async = True\<rparr>)) \<and>
   named_events (app_lm (snd (decorate app_init
        [On (PTuple [PClass \<lparr>cls_module = ''e'', cls_name = ''E''\<rparr>, PClass \<lparr>cls_module = ''e'', cls_name = ''F''\<rparr>]) (PInt 2)]
        \<lparr>fn_id = 1, fn_name = ''h'', fn_async = True\<rparr>)))"
proof -
  have r: "app_reachable sample_adapter
     (snd (decorate app_init
        [On (PTuple [PClass \<lparr>cls_module = ''e'', cls_name = ''E''\<rparr>, PClass \<lparr>cls_module = ''e'', cls_name = ''F''\<rparr>]) (PInt 2)]
        \<lparr>fn_id = 1, fn_name = ''h'', fn_async = True\<rparr>))"
    by (rule app_reachable.run_def [OF app_reachable.init])
  show ?thesis using reachable_events_named [OF r] r by blast
qed

text \<open>C29: NLP binding and dictionary conversion through the decorators. A handler
  decorated with \<open>@bot.param_convert(dict)\<close>, \<open>@bot.nlp(c, kws, params)\<close> and
  \<open>@bot.on(E, p)\<close> is invoked with the engine's slot values exactly when the engine's
  confidence for the message reaches \<open>c\<close> and one of the keywords occurs in it, and
  otherwise not at all; without an NLP binding, dictionary conversion has no slots to
  fill and the handler is never invoked (a rejection, not a crash).\<close>

theorem nlp_dict_dispatch:
  assumes "0 < p" and "fn_async f"
  shows "fst (dispatch eng raises
            (app_lm (snd (decorate app_init [ParamConvert ConvDict, Nlp c kws ps, On (PClass k) (PInt p)] f)))
            \<lparr>ev_type = PClass k, ev_chain = [el], ev_role = r\<rparr>) =
         (if c \<le> fst (eng \<lparr>nlp_c = c, nlp_keywords = kws, nlp_params = ps\<rparr> (el_display el)) \<and>
             (\<exists>kw \<in> set kws. py_contains (el_display el) kw)
          then [Invoke f (ArgsDict (snd (eng \<lparr>nlp_c = c, nlp_keywords = kws, nlp_params = ps\<rparr> (el_display el))))]
          else []) \<and>
         fst (dispatch eng raises
            (app_lm (snd (decorate app_init [ParamConvert ConvDict, On (PClass k) (PInt p)] f)))
            \<lparr>ev_type = PClass k, ev_chain = es, ev_role = r\<rparr>) = []"
proof -
  have n: "\<forall>e \<in> set (ev_items (PClass k)). named_event e" "ev_items (PClass k) \<noteq> []"
    by (simp_all add: ev_items_def ev_collapse_def named_event_def)
  show ?thesis
    using decorate_fresh [OF assms, of "[ParamConvert ConvDict, Nlp c kws ps]", OF _ n]
          decorate_fresh [OF assms, of "[ParamConvert ConvDict]", OF _ n]
    by (simp add: dispatch_def lm_listeners_def ev_items_def ev_collapse_def map_filter_simps
                  dispatch_one_def Listener_def chain_text_def nlp_check_def convert_params_def
                  case_prod_beta split: prod.splits)
qed

theorem nlp_dict_dispatch_witness:
  "fst (dispatch (\<lambda>_ _. (1, [(''city'', ''Paris'')])) (\<lambda>_. False)
      (app_lm (snd (decorate app_init
         [ParamConvert ConvDict, Nlp (1/2) [''weather''] [(''city'', ''city'')], On (PClass \<lparr>cls_module = ''e'', cls_name = ''E''\<rparr>) (PInt 5)]
         \<lparr>fn_id = 1, fn_name = ''h'', fn_async = True\<rparr>)))
      \<lparr>ev_type = PClass \<lparr>cls_module = ''e'', cls_name = ''E''\<rparr>, ev_chain = [\<lparr>el_cls = \<lparr>cls_module = ''m'', cls_name = ''Plain''\<rparr>, el_code = ''weather in Paris'', el_display = ''weather in Paris''\<rparr>], ev_role = RoleMember\<rparr>) =
   [Invoke \<lparr>fn_id = 1, fn_name = ''h'', fn_async = True\<rparr> (ArgsDict [(''city'', ''Paris'')])]"
proof -
  have hit: "py_contains ''weather in Paris'' ''weather''"
    by (simp del: py_contains_iff py_startswith_iff)
  show ?thesis
    using nlp_dict_dispatch [of 5 "\<lparr>fn_id = 1, fn_name = ''h'', fn_async = True\<rparr>" "(\<lambda>_ _. (1, [(''city'', ''Paris'')]))" "\<lambda>_. False" "1/2" "[''weather'']"
        "[(''city'', ''city'')]" "\<lparr>cls_module = ''e'', cls_name = ''E''\<rparr>" "\<lparr>el_cls = \<lparr>cls_module = ''m'', cls_name = ''Plain''\<rparr>, el_code = ''weather in Paris'', el_display = ''weather in Paris''\<rparr>" RoleMember]
      hit
    by (simp del: py_contains_iff)
qed

text \<open>C32: attaching to a handler registered for several events. A handler decorated
  with \<open>@bot.command(...)\<close> above \<open>@bot.on([E1, E2], p)\<close> is in the registry once per
  event, both at priority \<open>p\<close>, in the list's order, and both listeners carry the
  command matcher: the attachment finds every listener of the handler.\<close>

theorem attach_multi_event:
  assumes "0 < p" and "fn_async f"
  shows "lm_entries (app_lm (snd (decorate app_init
            [Command cs w ign, On (PList [PClass k1, PClass k2]) (PInt p)] f))) =
         [(p, (Listener (PClass k1) f)\<lparr>l_matcher := Some (CommandMatcher cs w ign)\<rparr>),
          (p, (Listener (PClass k2) f)\<lparr>l_matcher := Some (CommandMatcher cs w ign)\<rparr>)]"
proof -
  have n: "\<forall>e \<in> set (ev_items (PList [PClass k1, PClass k2])). named_event e"
      "ev_items (PList [PClass k1, PClass k2]) \<noteq> []"
    by (simp_all add: ev_items_def ev_collapse_def named_event_def)
  show ?thesis
    using decorate_fresh [OF assms, of "[Command cs w ign]", OF _ n]
    by (simp add: ev_items_def ev_collapse_def map_filter_simps)
qed

theorem attach_multi_event_witness:
  "lm_entries (app_lm (snd (decorate app_init
      [Command [''/ping''] False [], On (PList [PClass \<lparr>cls_module = ''e'', cls_name = ''E''\<rparr>, PClass \<lparr>cls_module = ''e'', cls_name = ''F''\<rparr>]) (PInt 3)] \<lparr>fn_id = 1, fn_name = ''h'', fn_async = True\<rparr>))) =
   [(3, (Listener (PClass \<lparr>cls_module = ''e'', cls_name = ''E''\<rparr>) \<lparr>fn_id = 1, fn_name = ''h'', fn_async = True\<rparr>)\<lparr>l_matcher := Some (CommandMatcher [''/ping''] False [])\<rparr>),
    (3, (Listener (PClass \<lparr>cls_module = ''e'', cls_name = ''F''\<rparr>) \<lparr>fn_id = 1, fn_name = ''h'', fn_async = True\<rparr>)\<lparr>l_matcher := Some (CommandMatcher [''/ping''] False [])\<rparr>)]"
  using attach_multi_event [of 3 "\<lparr>fn_id = 1, fn_name = ''h'', fn_async = True\<rparr>" "[''/ping'']" False "[]" "\<lparr>cls_module = ''e'', cls_name = ''E''\<rparr>" "\<lparr>cls_module = ''e'', cls_name = ''F''\<rparr>"] by simp

text \<open>C27: the longest trigger wins. A handler decorated with
  \<open>@bot.param_convert(str)\<close>, \<open>@bot.command(ts)\<close> and \<open>@bot.on(E, p)\<close> is invoked
  for an \<open>E\<close> event exactly when some trigger of \<open>ts\<close> starts the chain's text
  followed by a word boundary, and then once, with the stripped rest of the text after
  a longest such trigger: a shorter trigger that also matches never decides the
  argument, whatever the order of \<open>ts\<close>.\<close>

theorem command_longest_trigger:
  assumes "0 < p" and "fn_async f"
  shows "(fst (dispatch eng raises
            (app_lm (snd (decorate app_init [ParamConvert ConvStr, Command ts False [], On (PClass k) (PInt p)] f)))
            \<lparr>ev_type = PClass k, ev_chain = es, ev_role = r\<rparr>) = [] \<longleftrightarrow>
           \<not> (\<exists>t \<in> set ts. command_hit (chain_text [] es) t)) \<and>
         ((\<exists>t \<in> set ts. command_hit (chain_text [] es) t) \<longrightarrow>
           (\<exists>t \<in> set ts. command_hit (chain_text [] es) t \<and>
              (\<forall>u \<in> set ts. command_hit (chain_text [] es) u \<longrightarrow> length u \<le> length t) \<and>
              fst (dispatch eng raises
            (app_lm (snd (decorate app_init [ParamConvert ConvStr, Command ts False [], On (PClass k) (PInt p)] f)))
            \<lparr>ev_type = PClass k, ev_chain = es, ev_role = r\<rparr>) =
                [Invoke f (ArgsStr (py_strip (drop (length t) (chain_text [] es))))]))"
proof -
  have d: "fst (dispatch eng raises
            (app_lm (snd (decorate app_init [ParamConvert ConvStr, Command ts False [], On (PClass k) (PInt p)] f)))
            \<lparr>ev_type = PClass k, ev_chain = es, ev_role = r\<rparr>) =
      (case longest (filter (command_hit (chain_text [] es)) ts) of
         None \<Rightarrow> []
       | Some t \<Rightarrow> [Invoke f (ArgsStr (py_strip (drop (length t) (chain_text [] es))))])"
    using decorate_class [OF assms, of "[ParamConvert ConvStr, Command ts False []]" k]
    by (simp add: dispatch_single dispatch_one_def Listener_def matches_def CommandMatcher_def
                  Matcher.normalize_def Let_def nlp_check_def convert_params_def split: option.splits)
  show ?thesis
  proof (cases "longest (filter (command_hit (chain_text [] es)) ts)")
    case None
    then have "\<not> (\<exists>t \<in> set ts. command_hit (chain_text [] es) t)"
      by (simp add: longest_None filter_empty_conv)
    with None d show ?thesis by simp
  next
    case (Some t)
    from longest_Some [OF Some] have "t \<in> set ts" "command_hit (chain_text [] es) t"
      "\<forall>u \<in> set ts. command_hit (chain_text [] es) u \<longrightarrow> length u \<le> length t" by auto
    with Some d show ?thesis by auto
  qed
qed

theorem command_longest_trigger_witness:
  "fst (dispatch (\<lambda>_ _. (0, [])) (\<lambda>_. False)
      (app_lm (snd (decorate app_init
         [ParamConvert ConvStr, Command [''/ping'', ''/ping all''] False [], On (PClass \<lparr>cls_module = ''e'', cls_name = ''E''\<rparr>) (PInt 5)] \<lparr>fn_id = 1, fn_name = ''h'', fn_async = True\<rparr>)))
      \<lparr>ev_type = PClass \<lparr>cls_module = ''e'', cls_name = ''E''\<rparr>, ev_chain = [\<lparr>el_cls = \<lparr>cls_module = ''m'', cls_name = ''Plain''\<rparr>, el_code = ''/ping all 1'', el_display = ''/ping all 1''\<rparr>], ev_role = RoleMember\<rparr>) =
   [Invoke \<lparr>fn_id = 1, fn_name = ''h'', fn_async = True\<rparr> (ArgsStr ''1'')]"
proof -
  have h1: "command_hit ''/ping all 1'' ''/ping all''" by (simp add: command_hit_def is_space_def)
  have h2: "command_hit ''/ping all 1'' ''/ping''" by (simp add: command_hit_def is_space_def)
  have c: "chain_text [] [\<lparr>el_cls = \<lparr>cls_module = ''m'', cls_name = ''Plain''\<rparr>, el_code = ''/ping all 1'', el_display = ''/ping all 1''\<rparr>] = ''/ping all 1''" by (simp add: chain_text_def)
  have a: "0 < (5::int)" "fn_async \<lparr>fn_id = 1, fn_name = ''h'', fn_async = True\<rparr>" by simp_all
  note lt = command_longest_trigger [of 5 "\<lparr>fn_id = 1, fn_name = ''h'', fn_async = True\<rparr>" "\<lambda>_ _. (0, [])" "\<lambda>_. False"
      "[''/ping'', ''/ping all'']" "\<lparr>cls_module = ''e'', cls_name = ''E''\<rparr>" "[\<lparr>el_cls = \<lparr>cls_module = ''m'', cls_name = ''Plain''\<rparr>, el_code = ''/ping all 1'', el_display = ''/ping all 1''\<rparr>]" RoleMember, OF a]
  have ex: "\<exists>t \<in> set [''/ping'', ''/ping all'']. command_hit (chain_text [] [\<lparr>el_cls = \<lparr>cls_module = ''m'', cls_name = ''Plain''\<rparr>, el_code = ''/ping all 1'', el_display = ''/ping all 1''\<rparr>]) t"
    using h1 c by auto
  from conjunct2 [OF lt, rule_format, OF ex] obtain t
    where t: "t \<in> set [''/ping'', ''/ping all'']"
      and mx: "\<forall>u \<in> set [''/ping'', ''/ping all'']. command_hit (chain_text [] [\<lparr>el_cls = \<lparr>cls_module = ''m'', cls_name = ''Plain''\<rparr>, el_code = ''/ping all 1'', el_display = ''/ping all 1''\<rparr>]) u \<longrightarrow> length u \<le> length t"
      and dt: "fst (dispatch (\<lambda>_ _. (0, [])) (\<lambda>_. False)
      (app_lm (snd (decorate app_init
         [ParamConvert ConvStr, Command [''/ping'', ''/ping all''] False [], On (PClass \<lparr>cls_module = ''e'', cls_name = ''E''\<rparr>) (PInt 5)] \<lparr>fn_id = 1, fn_name = ''h'', fn_async = True\<rparr>)))
      \<lparr>ev_type = PClass \<lparr>cls_module = ''e'', cls_name = ''E''\<rparr>, ev_chain = [\<lparr>el_cls = \<lparr>cls_module = ''m'', cls_name = ''Plain''\<rparr>, el_code = ''/ping all 1'', el_display = ''/ping all 1''\<rparr>], ev_role = RoleMember\<rparr>) =
        [Invoke \<lparr>fn_id = 1, fn_name = ''h'', fn_async = True\<rparr> (ArgsStr (py_strip (drop (length t) (chain_text [] [\<lparr>el_cls = \<lparr>cls_module = ''m'', cls_name = ''Plain''\<rparr>, el_code = ''/ping all 1'', el_display = ''/ping all 1''\<rparr>]))))]"
    by blast
  have "t = ''/ping all''" using t mx h1 c by auto
  with dt c show ?thesis by (simp add: py_strip_def is_space_def)
qed

end
